(* ===== verification/Prelude.thy ===== *)
theory Prelude
  imports Main "HOL-Library.Word" "HOL-Library.Option_ord" "HOL-Library.Product_Lexorder"
begin

text \<open>
  Shared vocabulary of the push-notification development. JavaScript objects keep their
  keys in insertion order, and the order is visible (\<open>Object.entries\<close>, equality of
  embedded Mongo documents), so an object is an association list here, updated in place
  when the key exists and extended at the end otherwise. This theory holds those
  association-list operations, their lemmas, the collections the component theories add
  their rewrite rules to, and the names of the model's basic types.
\<close>

named_theorems js_simps \<open>rewrite rules for operations on JavaScript values\<close>
named_theorems mongo_simps \<open>rewrite rules for the document store\<close>

type_synonym timestamp = int  \<comment> \<open>milliseconds since the epoch, \<open>+new Date()\<close>\<close>
type_synonym ms = int         \<comment> \<open>a duration in milliseconds\<close>

section \<open>Association lists in insertion order\<close>

text \<open>\<open>o[k] = v\<close> on a JavaScript object: overwrite in place, or append the new key.\<close>

fun assoc_set :: "('k \<times> 'v) list \<Rightarrow> 'k \<Rightarrow> 'v \<Rightarrow> ('k \<times> 'v) list" where
  "assoc_set [] k v = [(k, v)]"
| "assoc_set ((k', v') # kvs) k v =
     (if k' = k then (k, v) # kvs else (k', v') # assoc_set kvs k v)"

text \<open>\<open>delete o[k]\<close>: every binding of the key goes.\<close>

definition assoc_del :: "('k \<times> 'v) list \<Rightarrow> 'k \<Rightarrow> ('k \<times> 'v) list" where
  "assoc_del kvs k = filter (\<lambda>(k', _). k' \<noteq> k) kvs"

lemma map_of_assoc_set [simp]:
  "map_of (assoc_set kvs k v) = (map_of kvs)(k \<mapsto> v)"
  by (induction kvs) (auto simp: fun_upd_twist)

lemma map_of_assoc_del [simp]:
  "map_of (assoc_del kvs k) = (map_of kvs)(k := None)"
  by (induction kvs) (auto simp: assoc_del_def)

lemma keys_assoc_set [simp]:
  "map fst (assoc_set kvs k v) = (if k \<in> set (map fst kvs) then map fst kvs else map fst kvs @ [k])"
  by (induction kvs) force+

lemma keys_assoc_del [simp]:
  "set (map fst (assoc_del kvs k)) = set (map fst kvs) - {k}"
  by (induction kvs) (auto simp: assoc_del_def)

lemma assoc_del_mem [simp]: "(k, v) \<notin> set (assoc_del kvs k)"
  by (simp add: assoc_del_def)

lemma distinct_assoc_set [simp]:
  "distinct (map fst kvs) \<Longrightarrow> distinct (map fst (assoc_set kvs k v))"
  by (induction kvs) auto

lemma distinct_assoc_del [simp]:
  "distinct (map fst kvs) \<Longrightarrow> distinct (map fst (assoc_del kvs k))"
  by (induction kvs) (auto simp: assoc_del_def)

lemma assoc_set_same [simp]:
  "map_of kvs k = Some v \<Longrightarrow> distinct (map fst kvs) \<Longrightarrow> assoc_set kvs k v = kvs"
  by (induction kvs) auto

lemma assoc_del_absent [simp]:
  "k \<notin> set (map fst kvs) \<Longrightarrow> assoc_del kvs k = kvs"
  by (induction kvs) (auto simp: assoc_del_def)

section \<open>Lists of records\<close>

text \<open>
  A multi-document update or removal rewrites the matching elements and keeps the others
  in place: the frame lemmas for that shape.
\<close>

lemma map_if_id [simp]:
  "(\<forall>x \<in> set xs. \<not> P x) \<Longrightarrow> map (\<lambda>x. if P x then f x else x) xs = xs"
  by (induction xs) auto

lemma length_map_if [simp]:
  "length (map (\<lambda>x. if P x then f x else x) xs) = length xs"
  by simp

lemma filter_all_kept [simp]:
  "(\<forall>x \<in> set xs. \<not> P x) \<Longrightarrow> filter (\<lambda>x. \<not> P x) xs = xs"
  by (induction xs) auto

end
