(* ===== verification/JsValue.thy ===== *)
theory JsValue
  imports Prelude
begin

text \<open>
  JavaScript values as the push code sees them: the options object given to \<open>send\<close> and
  \<open>configure\<close>, the notification and app-token documents read from the store, the
  selectors built from them. Numbers are integers (every number the code handles is a
  count, a timestamp or a badge); a \<open>Date\<close> is its millisecond timestamp. Property reads,
  truthiness, \<open>typeof x === 'string'\<close> and the two underscore helpers \<open>_.pick\<close> and
  \<open>_.extend\<close> are defined here; the errors a JavaScript statement can raise are the
  constructors of \<open>js_error\<close>.
\<close>

datatype jsval =
    JUndef
  | JNull
  | JBool bool
  | JNum int
  | JStr string
  | JDate timestamp
  | JArr "jsval list"
  | JObj "(string \<times> jsval) list"

datatype js_error =
    Error string       \<comment> \<open>\<open>throw new Error(msg)\<close>\<close>
  | TypeError string   \<comment> \<open>property read on \<open>undefined\<close> or \<open>null\<close>\<close>
  | MatchError string  \<comment> \<open>\<open>check\<close> of meteor/check failed\<close>
  | MongoError string  \<comment> \<open>the store rejected a malformed selector\<close>

type_synonym 'a js_result = "js_error + 'a"

section \<open>Truthiness and type tests\<close>

text \<open>\<open>Boolean(x)\<close>: the six falsy values of the model (NaN is not a model value).\<close>

fun truthy :: "jsval \<Rightarrow> bool" where
  "truthy JUndef = False"
| "truthy JNull = False"
| "truthy (JBool b) = b"
| "truthy (JNum n) = (n \<noteq> 0)"
| "truthy (JStr s) = (s \<noteq> [])"
| "truthy (JDate _) = True"
| "truthy (JArr _) = True"
| "truthy (JObj _) = True"

text \<open>
  \<open>x !== `${x}`\<close> (push.js lines 99, 103, 107) and \<open>x !== String(x)\<close> (lines 210--216) are
  false exactly when \<open>x\<close> is a string: any other value converts to a string that is a
  different value.
\<close>

fun is_js_string :: "jsval \<Rightarrow> bool" where
  "is_js_string (JStr _) = True"
| "is_js_string _ = False"

section \<open>Property access\<close>

text \<open>\<open>o.k\<close> on an object: the bound value, \<open>undefined\<close> when absent.\<close>

fun js_get :: "jsval \<Rightarrow> string \<Rightarrow> jsval" where
  "js_get (JObj kvs) k = (case map_of kvs k of Some v \<Rightarrow> v | None \<Rightarrow> JUndef)"
| "js_get _ k = JUndef"

text \<open>
  \<open>o.k\<close> as JavaScript evaluates it: a read on \<open>undefined\<close> or \<open>null\<close> raises a TypeError,
  a read on another primitive yields \<open>undefined\<close>.
\<close>

fun js_prop :: "jsval \<Rightarrow> string \<Rightarrow> jsval js_result" where
  "js_prop JUndef k = Inl (TypeError (''Cannot read property '' @ k @ '' of undefined''))"
| "js_prop JNull k = Inl (TypeError (''Cannot read property '' @ k @ '' of null''))"
| "js_prop v k = Inr (js_get v k)"

text \<open>\<open>k in o\<close>.\<close>

fun js_has :: "jsval \<Rightarrow> string \<Rightarrow> bool" where
  "js_has (JObj kvs) k = (k \<in> set (map fst kvs))"
| "js_has _ k = False"

text \<open>\<open>o.k = v\<close> on an object (assignment to a primitive is silently dropped).\<close>

fun js_put :: "jsval \<Rightarrow> string \<Rightarrow> jsval \<Rightarrow> jsval" where
  "js_put (JObj kvs) k v = JObj (assoc_set kvs k v)"
| "js_put ob k v = ob"

text \<open>\<open>delete o.k\<close>.\<close>

fun js_delete :: "jsval \<Rightarrow> string \<Rightarrow> jsval" where
  "js_delete (JObj kvs) k = JObj (assoc_del kvs k)"
| "js_delete ob k = ob"

fun js_keys :: "jsval \<Rightarrow> string list" where
  "js_keys (JObj kvs) = map fst kvs"
| "js_keys _ = []"

fun js_fields :: "jsval \<Rightarrow> (string \<times> jsval) list" where
  "js_fields (JObj kvs) = kvs"
| "js_fields _ = []"

fun nat_str :: "nat \<Rightarrow> string" where
  "nat_str n = (if n < 10 then [char_of (48 + n)] else nat_str (n div 10) @ [char_of (48 + n mod 10)])"

declare nat_str.simps [simp del]

text \<open>\<open>`${x}`\<close>: the string a template literal makes of a value.\<close>

fun js_template :: "jsval \<Rightarrow> string" where
  "js_template JUndef = ''undefined''"
| "js_template JNull = ''null''"
| "js_template (JBool b) = (if b then ''true'' else ''false'')"
| "js_template (JNum n) = (if n < 0 then ''-'' @ nat_str (nat (- n)) else nat_str (nat n))"
| "js_template (JStr s) = s"
| "js_template (JDate t) = ''Date''"
| "js_template (JArr vs) = ''array''"
| "js_template (JObj kvs) = ''[object Object]''"

section \<open>underscore: \<open>_.pick\<close> and \<open>_.extend\<close>\<close>

text \<open>
  \<open>_.pick(o, k1, ..., kn)\<close>: a fresh object holding, in the order of the key list, each
  key that is \<open>in\<close> the object (also when its value is \<open>undefined\<close>). A primitive or
  \<open>null\<close> has none of the keys.
\<close>

definition pick :: "jsval \<Rightarrow> string list \<Rightarrow> jsval" where
  "pick ob ks = JObj (map (\<lambda>k. (k, js_get ob k)) (filter (js_has ob) ks))"

text \<open>\<open>_.extend(dst, src)\<close>: every key of \<open>src\<close>, in its order, assigned into \<open>dst\<close>.\<close>

definition extend :: "jsval \<Rightarrow> jsval \<Rightarrow> jsval" where
  "extend dst src = fold (\<lambda>k d. js_put d k (js_get src k)) (js_keys src) dst"

text \<open>\<open>{k1: v1, ..., kn: vn}\<close> literals are written \<open>JObj [(k1, v1), ...]\<close>.\<close>

text \<open>An object (as opposed to a primitive, an array or a Date).\<close>

fun is_obj :: "jsval \<Rightarrow> bool" where
  "is_obj (JObj _) = True"
| "is_obj _ = False"

section \<open>Lemmas\<close>

lemma js_get_put [js_simps]:
  "js_get (js_put (JObj kvs) k v) k' = (if k' = k then v else js_get (JObj kvs) k')"
  by simp

lemma js_has_put [js_simps]:
  "js_has (js_put (JObj kvs) k v) k' = (k' = k \<or> js_has (JObj kvs) k')"
  by (auto simp: keys_assoc_set)

lemma js_get_delete [js_simps]:
  "js_get (js_delete (JObj kvs) k) k' = (if k' = k then JUndef else js_get (JObj kvs) k')"
  by simp

lemma js_get_delete_same [simp]: "js_get (js_delete ob k) k = JUndef"
  by (cases ob) simp_all

lemma js_has_get [js_simps]:
  "\<not> js_has ob k \<Longrightarrow> js_get ob k = JUndef"
  by (cases ob) (auto split: option.splits simp flip: map_of_eq_None_iff)

lemma js_prop_obj [js_simps]: "js_prop (JObj kvs) k = Inr (js_get (JObj kvs) k)"
  by simp

lemma js_prop_Inl_iff:
  "(\<exists>e. js_prop v k = Inl e) \<longleftrightarrow> v = JUndef \<or> v = JNull"
  by (cases v) auto

text \<open>\<open>_.pick\<close> keeps exactly the listed keys that are present, with their values.\<close>

lemma js_get_pick [js_simps]:
  "js_get (pick ob ks) k = (if k \<in> set ks then js_get ob k else JUndef)"
proof -
  have "map_of (map (\<lambda>k. (k, js_get ob k)) (filter (js_has ob) ks)) k =
        (if k \<in> set ks \<and> js_has ob k then Some (js_get ob k) else None)"
    by (induction ks) auto
  then show ?thesis
    by (auto simp: pick_def js_has_get)
qed

lemma js_has_pick [js_simps]:
  "js_has (pick ob ks) k \<longleftrightarrow> k \<in> set ks \<and> js_has ob k"
  by (auto simp: pick_def)

lemma js_keys_pick [js_simps]: "js_keys (pick ob ks) = filter (js_has ob) ks"
  by (simp add: pick_def comp_def)

text \<open>After \<open>_.extend(d, s)\<close> a key of \<open>s\<close> reads as in \<open>s\<close>, any other key as in \<open>d\<close>.\<close>

lemma js_get_extend [js_simps]:
  "js_get (extend (JObj d) s) k = (if js_has s k then js_get s k else js_get (JObj d) k)"
proof -
  have "\<And>d. js_get (fold (\<lambda>k d. js_put d k (js_get s k)) ks (JObj d)) k =
          (if k \<in> set ks then js_get s k else js_get (JObj d) k)" for ks
  proof (induction ks)
    case Nil
    then show ?case by simp
  next
    case (Cons k' ks)
    show ?case
      using Cons.IH [of "assoc_set d k' (js_get s k')"] by auto
  qed
  then show ?thesis by (cases s) (auto simp: extend_def)
qed

lemma js_has_extend [js_simps]:
  "js_has (extend (JObj d) s) k \<longleftrightarrow> js_has s k \<or> js_has (JObj d) k"
proof -
  have "\<And>d. js_has (fold (\<lambda>k d. js_put d k (js_get s k)) ks (JObj d)) k \<longleftrightarrow>
          k \<in> set ks \<or> js_has (JObj d) k" for ks
  proof (induction ks)
    case Nil
    then show ?case by simp
  next
    case (Cons k' ks)
    show ?case
      using Cons.IH [of "assoc_set d k' (js_get s k')"] by (auto simp: keys_assoc_set)
  qed
  then show ?thesis by (cases s) (auto simp: extend_def)
qed

lemma extend_is_obj: "\<exists>kvs. extend (JObj d) s = JObj kvs"
proof -
  have "\<And>d. \<exists>kvs. fold (\<lambda>k d. js_put d k (js_get s k)) ks (JObj d) = JObj kvs" for ks
    by (induction ks) auto
  then show ?thesis by (simp add: extend_def)
qed

text \<open>Building objects: assignment and \<open>_.extend\<close> keep an object an object.\<close>

lemma is_obj_put [js_simps]: "is_obj (js_put v k x) = is_obj v"
  by (cases v) simp_all

lemma is_obj_extend [js_simps]: "is_obj d \<Longrightarrow> is_obj (extend d s)"
proof (cases d)
  case (JObj kvs)
  then show ?thesis using extend_is_obj [of kvs s] by auto
qed simp_all

lemma js_has_put_obj [js_simps]: "is_obj v \<Longrightarrow> js_has (js_put v k x) k' = (k' = k \<or> js_has v k')"
  by (cases v) (auto simp: keys_assoc_set)

lemma js_get_put_obj [js_simps]: "is_obj v \<Longrightarrow> js_get (js_put v k x) k' = (if k' = k then x else js_get v k')"
  by (cases v) simp_all

lemma js_has_extend_obj [js_simps]: "is_obj d \<Longrightarrow> js_has (extend d s) k = (js_has s k \<or> js_has d k)"
  by (cases d) (simp_all add: js_has_extend)

lemma js_get_extend_obj [js_simps]:
  "is_obj d \<Longrightarrow> js_get (extend d s) k = (if js_has s k then js_get s k else js_get d k)"
  by (cases d) (simp_all add: js_get_extend)

end
