(* ===== verification/Mongo.thy ===== *)
theory Mongo
  imports JsValue
begin

text \<open>
  The document store the push code runs on (meteor/mongo), modelled from the interface the
  code uses: a collection is the list of its documents in natural (insertion) order; a
  selector is a JavaScript object whose clauses all have to hold. The fragment of the
  query language is the one push.js writes: \<open>$and\<close>, \<open>$or\<close>, dotted paths
  (\<open>'token.apn'\<close>), equality, \<open>$in\<close>, \<open>$ne\<close>, \<open>$exists\<close>, \<open>$lt\<close>, \<open>$lte\<close>. A selector outside
  the fragment (an \<open>$and\<close> entry that is not an object, an unknown operator) is rejected by
  the store before any document is read, as MongoDB rejects it. Array-valued fields are not
  traversed by paths (no document of the two collections has an array at a queried path).
  Updates apply \<open>$set\<close> and \<open>$unset\<close> of top-level fields, to the first matching document
  or, with \<open>multi\<close>, to all of them.
\<close>

section \<open>Selectors\<close>

text \<open>\<open>'token.apn'.split('.')\<close>: the dotted path of a selector key.\<close>

fun split_path_acc :: "string \<Rightarrow> string \<Rightarrow> string list" where
  "split_path_acc acc [] = [acc]"
| "split_path_acc acc (c # cs) =
     (if c = CHR ''.'' then acc # split_path_acc [] cs else split_path_acc (acc @ [c]) cs)"

definition split_path :: "string \<Rightarrow> string list" where
  "split_path s = split_path_acc [] s"

fun path_get :: "jsval \<Rightarrow> string list \<Rightarrow> jsval" where
  "path_get v [] = v"
| "path_get v (k # ks) = path_get (js_get v k) ks"

text \<open>An operator object is an object whose first key starts with \<open>$\<close>.\<close>

fun is_op_obj :: "jsval \<Rightarrow> bool" where
  "is_op_obj (JObj ((k, _) # _)) = (take 1 k = ''$'')"
| "is_op_obj _ = False"

text \<open>Equality of a field with a literal: \<open>null\<close> also matches a missing field.\<close>

definition eq_match :: "jsval \<Rightarrow> jsval \<Rightarrow> bool" where
  "eq_match fv lit \<longleftrightarrow> fv = lit \<or> (lit = JNull \<and> fv = JUndef)"

text \<open>Ordering comparisons only between values of the same type (numbers, dates).\<close>

fun js_less :: "jsval \<Rightarrow> jsval \<Rightarrow> bool" where
  "js_less (JNum a) (JNum b) = (a < b)"
| "js_less (JDate a) (JDate b) = (a < b)"
| "js_less _ _ = False"

fun js_less_eq :: "jsval \<Rightarrow> jsval \<Rightarrow> bool" where
  "js_less_eq (JNum a) (JNum b) = (a \<le> b)"
| "js_less_eq (JDate a) (JDate b) = (a \<le> b)"
| "js_less_eq _ _ = False"

fun op_ok :: "string \<times> jsval \<Rightarrow> bool" where
  "op_ok (op, arg) =
     (if op = ''$in'' then (case arg of JArr _ \<Rightarrow> True | _ \<Rightarrow> False)
      else op \<in> {''$ne'', ''$exists'', ''$lt'', ''$lte''})"

fun op_match :: "jsval \<Rightarrow> string \<times> jsval \<Rightarrow> bool" where
  "op_match fv (op, arg) =
     (if op = ''$in'' then (case arg of JArr vs \<Rightarrow> (\<exists>v \<in> set vs. eq_match fv v) | _ \<Rightarrow> False)
      else if op = ''$ne'' then \<not> eq_match fv arg
      else if op = ''$exists'' then ((fv \<noteq> JUndef) = truthy arg)
      else if op = ''$lt'' then js_less fv arg
      else if op = ''$lte'' then js_less_eq fv arg
      else False)"

fun field_ok :: "jsval \<Rightarrow> bool" where
  "field_ok (JObj ops) = (if is_op_obj (JObj ops) then list_all op_ok ops else True)"
| "field_ok _ = True"

fun field_match :: "jsval \<Rightarrow> jsval \<Rightarrow> bool" where
  "field_match fv (JObj ops) =
     (if is_op_obj (JObj ops) then list_all (op_match fv) ops else eq_match fv (JObj ops))"
| "field_match fv lit = eq_match fv lit"

text \<open>Well-formedness of a selector, checked by the store before it runs the query.\<close>

fun sel_ok :: "jsval \<Rightarrow> bool"
  and clauses_ok :: "(string \<times> jsval) list \<Rightarrow> bool"
  and sels_ok :: "jsval list \<Rightarrow> bool" where
  "sel_ok (JObj kvs) = clauses_ok kvs"
| "sel_ok _ = False"
| "clauses_ok [] = True"
| "clauses_ok ((k, v) # kvs) =
     ((if k = ''$and'' \<or> k = ''$or''
       then (case v of JArr ss \<Rightarrow> ss \<noteq> [] \<and> sels_ok ss | _ \<Rightarrow> False)
       else take 1 k \<noteq> ''$'' \<and> field_ok v) \<and> clauses_ok kvs)"
| "sels_ok [] = True"
| "sels_ok (s # ss) = (sel_ok s \<and> sels_ok ss)"

fun sel_match :: "jsval \<Rightarrow> jsval \<Rightarrow> bool"
  and clauses_match :: "jsval \<Rightarrow> (string \<times> jsval) list \<Rightarrow> bool"
  and all_match :: "jsval \<Rightarrow> jsval list \<Rightarrow> bool"
  and any_match :: "jsval \<Rightarrow> jsval list \<Rightarrow> bool" where
  "sel_match d (JObj kvs) = clauses_match d kvs"
| "sel_match d _ = False"
| "clauses_match d [] = True"
| "clauses_match d ((k, v) # kvs) =
     ((if k = ''$and'' then (case v of JArr ss \<Rightarrow> all_match d ss | _ \<Rightarrow> False)
       else if k = ''$or'' then (case v of JArr ss \<Rightarrow> any_match d ss | _ \<Rightarrow> False)
       else field_match (path_get d (split_path k)) v) \<and> clauses_match d kvs)"
| "all_match d [] = True"
| "all_match d (s # ss) = (sel_match d s \<and> all_match d ss)"
| "any_match d [] = False"
| "any_match d (s # ss) = (sel_match d s \<or> any_match d ss)"

section \<open>Collections\<close>

text \<open>
  Sort keys for \<open>sort: {field: 1}\<close>: missing and \<open>null\<close> first, then numbers, then dates
  (the BSON type order restricted to the model's values); other values last, unordered.
\<close>

fun sort_rank :: "jsval \<Rightarrow> nat \<times> int" where
  "sort_rank JUndef = (0, 0)"
| "sort_rank JNull = (0, 0)"
| "sort_rank (JNum n) = (1, n)"
| "sort_rank (JDate t) = (2, t)"
| "sort_rank _ = (3, 0)"

definition bad_selector :: js_error where
  "bad_selector = MongoError ''malformed selector''"

text \<open>\<open>coll.find(sel).fetch()\<close>: the matching documents in natural order.\<close>

definition coll_find :: "jsval \<Rightarrow> jsval list \<Rightarrow> jsval list js_result" where
  "coll_find sel docs =
     (if sel_ok sel then Inr (filter (\<lambda>d. sel_match d sel) docs) else Inl bad_selector)"

text \<open>\<open>coll.find(sel, {sort: {key: 1}, limit: n})\<close>: stable ascending sort, then the first \<open>n\<close>.\<close>

definition coll_find_sorted :: "jsval \<Rightarrow> string \<Rightarrow> nat \<Rightarrow> jsval list \<Rightarrow> jsval list js_result" where
  "coll_find_sorted sel key n docs =
     (case coll_find sel docs of
        Inl e \<Rightarrow> Inl e
      | Inr ds \<Rightarrow> Inr (take n (sort_key (\<lambda>d. sort_rank (js_get d key)) ds)))"

text \<open>A modifier document: \<open>{$set: {...}}\<close> and \<open>{$unset: {...}}\<close> on top-level fields.\<close>

fun apply_modifier :: "jsval \<Rightarrow> jsval \<Rightarrow> jsval" where
  "apply_modifier (JObj []) d = d"
| "apply_modifier (JObj ((op, JObj kvs) # mods)) d =
     apply_modifier (JObj mods)
       (if op = ''$set'' then fold (\<lambda>(k, v) d. js_put d k v) kvs d
        else if op = ''$unset'' then fold (\<lambda>(k, _) d. js_delete d k) kvs d
        else d)"
| "apply_modifier _ d = d"

text \<open>\<open>coll.update(sel, mod)\<close>: the first matching document; returns the number updated.\<close>

fun update_first :: "jsval \<Rightarrow> jsval \<Rightarrow> jsval list \<Rightarrow> nat \<times> jsval list" where
  "update_first sel m [] = (0, [])"
| "update_first sel m (d # ds) =
     (if sel_match d sel then (1, apply_modifier m d # ds)
      else (let (n, ds') = update_first sel m ds in (n, d # ds')))"

definition coll_update :: "jsval \<Rightarrow> jsval \<Rightarrow> jsval list \<Rightarrow> (nat \<times> jsval list) js_result" where
  "coll_update sel m docs = (if sel_ok sel then Inr (update_first sel m docs) else Inl bad_selector)"

text \<open>\<open>coll.update(sel, mod, {multi: true})\<close>.\<close>

definition coll_update_multi :: "jsval \<Rightarrow> jsval \<Rightarrow> jsval list \<Rightarrow> (nat \<times> jsval list) js_result" where
  "coll_update_multi sel m docs =
     (if sel_ok sel
      then Inr (length (filter (\<lambda>d. sel_match d sel) docs),
                map (\<lambda>d. if sel_match d sel then apply_modifier m d else d) docs)
      else Inl bad_selector)"

text \<open>\<open>coll.remove(sel)\<close>: every matching document.\<close>

definition coll_remove :: "jsval \<Rightarrow> jsval list \<Rightarrow> jsval list js_result" where
  "coll_remove sel docs =
     (if sel_ok sel then Inr (filter (\<lambda>d. \<not> sel_match d sel) docs) else Inl bad_selector)"

text \<open>
  \<open>coll.insert(doc)\<close>: the store gives the document a fresh string id, stored as its first
  field \<open>_id\<close>. The id is the one the store draws; it is an argument of the operation.
\<close>

definition coll_insert :: "string \<Rightarrow> jsval \<Rightarrow> jsval list \<Rightarrow> jsval list" where
  "coll_insert i doc docs = docs @ [JObj ((''_id'', JStr i) # assoc_del (js_fields doc) ''_id'')]"

section \<open>The two collections\<close>

text \<open>
  \<open>_raix_push_notifications\<close> (the queue) and \<open>_raix_push_app_tokens\<close> (the token
  directory), shared by every server process, and a counter a store may draw ids from.
\<close>

record store =
  notifications :: "jsval list"
  app_tokens :: "jsval list"
  id_seq :: nat

section \<open>Lemmas on the store operations\<close>

lemma clauses_match_append [mongo_simps]:
  "clauses_match d (xs @ ys) \<longleftrightarrow> clauses_match d xs \<and> clauses_match d ys"
  by (induction xs) auto

lemma split_path_plain [mongo_simps]:
  "CHR ''.'' \<notin> set k \<Longrightarrow> split_path k = [k]"
proof -
  have "CHR ''.'' \<notin> set k \<Longrightarrow> split_path_acc acc k = [acc @ k]" for acc
    by (induction k arbitrary: acc) auto
  then show "CHR ''.'' \<notin> set k \<Longrightarrow> split_path k = [k]"
    by (simp add: split_path_def)
qed

lemma update_first_none [mongo_simps]:
  "\<forall>d \<in> set ds. \<not> sel_match d sel \<Longrightarrow> update_first sel m ds = (0, ds)"
  by (induction ds) auto

lemma update_first_split [mongo_simps]:
  assumes "\<forall>x \<in> set pre. \<not> sel_match x sel" and "sel_match d sel"
  shows "update_first sel m (pre @ d # post) = (1, pre @ apply_modifier m d # post)"
  using assms by (induction pre) auto

lemma update_first_count: "fst (update_first sel m ds) \<le> 1"
  by (induction ds) (auto split: prod.splits)

lemma update_first_length [mongo_simps]: "length (snd (update_first sel m ds)) = length ds"
  by (induction ds) (auto split: prod.splits)

lemma update_first_Suc:
  "fst (update_first sel m ds) = 1 \<longleftrightarrow> (\<exists>d \<in> set ds. sel_match d sel)"
  by (induction ds) (auto split: prod.splits)

lemma coll_update_none [mongo_simps]:
  "sel_ok sel \<Longrightarrow> \<forall>d \<in> set ds. \<not> sel_match d sel \<Longrightarrow> coll_update sel m ds = Inr (0, ds)"
  by (simp add: coll_update_def update_first_none)

lemma coll_update_multi_none [mongo_simps]:
  "sel_ok sel \<Longrightarrow> \<forall>d \<in> set ds. \<not> sel_match d sel \<Longrightarrow> coll_update_multi sel m ds = Inr (0, ds)"
  by (simp add: coll_update_multi_def filter_empty_conv)

lemma coll_remove_none [mongo_simps]:
  "sel_ok sel \<Longrightarrow> \<forall>d \<in> set ds. \<not> sel_match d sel \<Longrightarrow> coll_remove sel ds = Inr ds"
  by (simp add: coll_remove_def)

lemma coll_remove_gone:
  "coll_remove sel ds = Inr ds' \<Longrightarrow> d \<in> set ds' \<longleftrightarrow> d \<in> set ds \<and> \<not> sel_match d sel"
  by (auto simp: coll_remove_def split: if_splits)

lemma coll_update_multi_length:
  "coll_update_multi sel m ds = Inr (n, ds') \<Longrightarrow> length ds' = length ds"
  by (auto simp: coll_update_multi_def split: if_splits)

end
