(* ===== verification/Queue.thy ===== *)
theory Queue
  imports Mongo
begin

text \<open>
  The notification queue, \<open>_raix_push_notifications\<close>: the selector of due notifications
  the worker polls with (push.js lines 383--403), the reservation by conditional update
  (lines 318--330), and the completion that removes the record or marks it sent (lines
  349--366). The reservation is the only coordination between server processes: its
  selector requires \<open>sending < now\<close>, and it moves \<open>sending\<close> to \<open>now + sendTimeout\<close>, so a
  record claimed at \<open>t\<close> cannot be claimed again before \<open>t + sendTimeout\<close> has passed.
\<close>

section \<open>Operations\<close>

text \<open>The selector of the reservation: \<open>{_id, sent: false, sending: {$lt: now}}\<close>.\<close>

definition reserve_selector :: "jsval \<Rightarrow> timestamp \<Rightarrow> jsval" where
  "reserve_selector i now =
     JObj [(''_id'', i), (''sent'', JBool False), (''sending'', JObj [(''$lt'', JNum now)])]"

text \<open>
  \<open>notificationsCollection.update(reserve_selector, {$set: {sending: now + sendTimeout}})\<close>:
  the number of records reserved (0 or 1) and the new queue.
\<close>

definition reserve :: "jsval \<Rightarrow> timestamp \<Rightarrow> ms \<Rightarrow> jsval list \<Rightarrow> (nat \<times> jsval list) js_result" where
  "reserve i now send_timeout docs =
     (let timeoutAt = now + send_timeout in
      coll_update (reserve_selector i now)
        (JObj [(''$set'', JObj [(''sending'', JNum timeoutAt)])]) docs)"

text \<open>
  The worker's poll: not sent, not reserved by anyone (\<open>sending < now\<close>), and not delayed
  into the future.
\<close>

definition pending_selector :: "timestamp \<Rightarrow> jsval" where
  "pending_selector now =
     JObj [(''$and'', JArr [
        JObj [(''sent'', JBool False)],
        JObj [(''sending'', JObj [(''$lt'', JNum now)])],
        JObj [(''$or'', JArr [
           JObj [(''delayUntil'', JObj [(''$exists'', JBool False)])],
           JObj [(''delayUntil'', JObj [(''$lte'', JDate now)])]])]])]"

text \<open>
  \<open>find(pending_selector, {sort: {createdAt: 1}, limit: batchSize})\<close> with
  \<open>batchSize = options.sendBatchSize || 1\<close>.
\<close>

definition batch_size :: "jsval \<Rightarrow> nat" where
  "batch_size v = (case v of JNum n \<Rightarrow> if n \<noteq> 0 then nat n else 1 | _ \<Rightarrow> 1)"

definition pending_batch :: "timestamp \<Rightarrow> jsval \<Rightarrow> jsval list \<Rightarrow> jsval list js_result" where
  "pending_batch now send_batch_size docs =
     coll_find_sorted (pending_selector now) ''createdAt'' (batch_size send_batch_size) docs"

text \<open>
  Completion of a sent notification: removed by default; with \<open>keepNotifications\<close>, marked
  sent with its send date, the delivery counts, and the reservation cleared.
\<close>

definition finish_notification ::
  "bool \<Rightarrow> jsval \<Rightarrow> timestamp \<Rightarrow> jsval \<Rightarrow> jsval list \<Rightarrow> jsval list js_result" where
  "finish_notification keep i now result docs =
     (if \<not> keep then coll_remove (JObj [(''_id'', i)]) docs
      else (case coll_update (JObj [(''_id'', i)])
                   (JObj [(''$set'', JObj [(''sent'', JBool True), (''sentAt'', JDate now),
                                            (''count'', result), (''sending'', JNum 0)])]) docs of
              Inl e \<Rightarrow> Inl e
            | Inr (_, docs') \<Rightarrow> Inr docs'))"

section \<open>Invariant\<close>

text \<open>Every record is an object with a string id, and ids are unique.\<close>

definition queue_wf :: "jsval list \<Rightarrow> bool" where
  "queue_wf docs \<longleftrightarrow>
     distinct (map (\<lambda>d. js_get d ''_id'') docs) \<and>
     (\<forall>d \<in> set docs. (\<exists>kvs. d = JObj kvs) \<and> (\<exists>s. js_get d ''_id'' = JStr s))"

section \<open>Lemmas\<close>

lemma eq_match_lit [mongo_simps]: "lit \<noteq> JNull \<Longrightarrow> eq_match fv lit \<longleftrightarrow> fv = lit"
  by (auto simp: eq_match_def)

lemma sel_match_reserve [mongo_simps]:
  "sel_match d (reserve_selector (JStr s) now) \<longleftrightarrow>
     js_get d ''_id'' = JStr s \<and> js_get d ''sent'' = JBool False \<and>
     js_less (js_get d ''sending'') (JNum now)"
  by (simp add: reserve_selector_def split_path_plain eq_match_lit)

lemma sel_ok_reserve [mongo_simps]: "sel_ok (reserve_selector (JStr s) now)"
  by (simp add: reserve_selector_def)

lemma set_sending_obj [mongo_simps]:
  "apply_modifier (JObj [(''$set'', JObj [(''sending'', v)])]) (JObj kvs) =
     JObj (assoc_set kvs ''sending'' v)"
  by simp

text \<open>A well-formed queue holding a record splits around it; no other record has its id.\<close>

lemma queue_wf_other_id:
  assumes "queue_wf (pre @ d # post)" and "x \<in> set pre \<union> set post"
  shows "js_get x ''_id'' \<noteq> js_get d ''_id''"
proof -
  from assms(1) have "js_get d ''_id'' \<notin> (\<lambda>x. js_get x ''_id'') ` (set pre \<union> set post)"
    by (auto simp: queue_wf_def)
  with assms(2) show ?thesis by (metis rev_image_eqI)
qed

lemma queue_wf_split:
  assumes "queue_wf docs" and "d \<in> set docs"
  obtains pre post where "docs = pre @ d # post"
    and "\<forall>x \<in> set pre \<union> set post. js_get x ''_id'' \<noteq> js_get d ''_id''"
proof -
  from \<open>d \<in> set docs\<close> obtain pre post where docs: "docs = pre @ d # post"
    by (meson split_list)
  with assms(1) queue_wf_other_id that show ?thesis by blast
qed

text \<open>The reservation of a reservable record: exactly that record gets the new fence.\<close>

lemma reserve_hit:
  assumes "queue_wf docs" and "d \<in> set docs" and "js_get d ''_id'' = JStr s"
    and "js_get d ''sent'' = JBool False" and "js_less (js_get d ''sending'') (JNum now)"
  obtains pre post where "docs = pre @ d # post"
    and "reserve (JStr s) now T docs =
           Inr (1, pre @ js_put d ''sending'' (JNum (now + T)) # post)"
proof -
  obtain pre post where docs: "docs = pre @ d # post"
    and other: "\<forall>x \<in> set pre \<union> set post. js_get x ''_id'' \<noteq> js_get d ''_id''"
    using queue_wf_split [OF assms(1,2)] by blast
  from assms(1,2) obtain kvs where d: "d = JObj kvs" by (auto simp: queue_wf_def)
  have "\<forall>x \<in> set pre. \<not> sel_match x (reserve_selector (JStr s) now)"
    using other assms(3) by (simp add: sel_match_reserve)
  moreover have "sel_match d (reserve_selector (JStr s) now)"
    using assms(3-5) by (simp add: sel_match_reserve)
  ultimately have "reserve (JStr s) now T docs =
           Inr (1, pre @ js_put d ''sending'' (JNum (now + T)) # post)"
    by (simp add: reserve_def coll_update_def docs update_first_split d sel_ok_reserve)
  with docs that show ?thesis by blast
qed

text \<open>A reservation that matches nothing leaves the queue as it is.\<close>

lemma reserve_miss:
  assumes "\<forall>x \<in> set docs. js_get x ''_id'' = JStr s \<longrightarrow>
             js_get x ''sent'' \<noteq> JBool False \<or> \<not> js_less (js_get x ''sending'') (JNum now)"
  shows "reserve (JStr s) now T docs = Inr (0, docs)"
  using assms by (auto simp: reserve_def sel_ok_reserve sel_match_reserve intro!: coll_update_none)

lemma queue_wf_put:
  assumes "queue_wf (pre @ d # post)" and "k \<noteq> ''_id''"
  shows "queue_wf (pre @ js_put d k v # post)"
proof -
  from assms(1) obtain kvs where "d = JObj kvs" by (auto simp: queue_wf_def)
  with assms show ?thesis by (auto simp: queue_wf_def)
qed

lemma reserved_record:
  assumes "queue_wf (pre @ d # post)" and "js_get d ''_id'' = JStr s"
  shows "js_get (js_put d ''sending'' v) ''_id'' = JStr s"
    and "js_get (js_put d ''sending'' v) ''sent'' = js_get d ''sent''"
    and "js_get (js_put d ''sending'' v) ''sending'' = v"
proof -
  from assms(1) obtain kvs where "d = JObj kvs" by (auto simp: queue_wf_def)
  with assms(2) show "js_get (js_put d ''sending'' v) ''_id'' = JStr s"
    and "js_get (js_put d ''sending'' v) ''sent'' = js_get d ''sent''"
    and "js_get (js_put d ''sending'' v) ''sending'' = v"
    by simp_all
qed

text \<open>Selection by id: \<open>{_id: s}\<close>.\<close>

lemma coll_remove_id:
  "coll_remove (JObj [(''_id'', JStr s)]) docs = Inr (filter (\<lambda>x. js_get x ''_id'' \<noteq> JStr s) docs)"
  by (simp add: coll_remove_def split_path_plain eq_match_lit)

lemma coll_update_id:
  assumes "\<forall>x \<in> set pre. js_get x ''_id'' \<noteq> JStr s" and "js_get d ''_id'' = JStr s"
  shows "coll_update (JObj [(''_id'', JStr s)]) m (pre @ d # post) = Inr (1, pre @ apply_modifier m d # post)"
proof -
  have "update_first (JObj [(''_id'', JStr s)]) m (pre @ d # post) = (1, pre @ apply_modifier m d # post)"
    using assms by (intro update_first_split) (simp_all add: split_path_plain eq_match_lit)
  then show ?thesis by (simp add: coll_update_def)
qed

lemma queue_wf_others:
  assumes "queue_wf (pre @ d # post)" and "js_get d ''_id'' = JStr s"
  shows "\<forall>x \<in> set pre \<union> set post. js_get x ''_id'' \<noteq> JStr s"
  using queue_wf_other_id [OF assms(1)] assms(2) by metis

lemma reserved_wf:
  assumes "queue_wf (pre @ d # post)" and "js_get d ''_id'' = JStr s"
  shows "queue_wf (pre @ js_put d ''sending'' v # post)"
    and "js_get (js_put d ''sending'' v) ''_id'' = JStr s"
  using queue_wf_put [OF assms(1)] reserved_record [OF assms] by simp_all

text \<open>Completion of a record the queue holds once: removed, or marked in place.\<close>

lemma finish_remove:
  assumes "queue_wf (pre @ d # post)" and "js_get d ''_id'' = JStr s"
  shows "finish_notification False (JStr s) t r (pre @ d # post) = Inr (pre @ post)"
  using queue_wf_others [OF assms] assms(2)
  by (simp add: finish_notification_def coll_remove_id)

lemma finish_keep:
  assumes "queue_wf (pre @ d # post)" and "js_get d ''_id'' = JStr s"
  shows "finish_notification True (JStr s) t r (pre @ d # post) =
           Inr (pre @ js_put (js_put (js_put (js_put d ''sent'' (JBool True)) ''sentAt'' (JDate t))
                         ''count'' r) ''sending'' (JNum 0) # post)"
  using queue_wf_others [OF assms] assms(2)
  by (simp add: finish_notification_def coll_update_id)

section \<open>Properties of the reservation\<close>

text \<open>
  C1. Reservation is exclusive: when a due record is reserved at \<open>t1\<close>, any other attempt
  on the same record at a time \<open>t2 \<le> t1 + sendTimeout\<close> (by this process or another one)
  modifies nothing. With the two attempts at the same instant and a positive timeout,
  exactly one of two concurrent claims succeeds.
\<close>

theorem claim_exclusive:
  assumes wf: "queue_wf docs" and d: "d \<in> set docs" and i: "js_get d ''_id'' = JStr s"
    and sent: "js_get d ''sent'' = JBool False" and due: "js_less (js_get d ''sending'') (JNum t1)"
    and within: "t2 \<le> t1 + T"
  shows "\<exists>docs1. reserve (JStr s) t1 T docs = Inr (1, docs1) \<and>
                 reserve (JStr s) t2 T docs1 = Inr (0, docs1)"
proof -
  obtain pre post where docs: "docs = pre @ d # post"
    and r1: "reserve (JStr s) t1 T docs = Inr (1, pre @ js_put d ''sending'' (JNum (t1 + T)) # post)"
    using reserve_hit [OF wf d i sent due] by blast
  let ?d' = "js_put d ''sending'' (JNum (t1 + T))"
  have other': "\<forall>x \<in> set pre \<union> set post. js_get x ''_id'' \<noteq> JStr s"
    using queue_wf_other_id [of pre d post] wf docs i by auto
  have "js_get ?d' ''sending'' = JNum (t1 + T)"
    using reserved_record [of pre d post s] wf docs i by simp
  with within have "\<not> js_less (js_get ?d' ''sending'') (JNum t2)" by simp
  with other' have "reserve (JStr s) t2 T (pre @ ?d' # post) = Inr (0, pre @ ?d' # post)"
    by (auto intro!: reserve_miss)
  with r1 show ?thesis by blast
qed

theorem claim_exclusive_witness:
  "\<exists>docs1. reserve (JStr ''n1'') 1000 60000
             [JObj [(''_id'', JStr ''n1''), (''sent'', JBool False), (''sending'', JNum 0)]] = Inr (1, docs1) \<and>
           reserve (JStr ''n1'') 1000 60000 docs1 = Inr (0, docs1)"
  using claim_exclusive [of "[JObj [(''_id'', JStr ''n1''), (''sent'', JBool False), (''sending'', JNum 0)]]"
      "JObj [(''_id'', JStr ''n1''), (''sent'', JBool False), (''sending'', JNum 0)]" "''n1''" 1000 1000 60000]
  by (simp add: queue_wf_def)

text \<open>
  C2. Crash recovery: a record reserved at \<open>t1\<close> and never completed can be reserved again
  by any process once \<open>t1 + sendTimeout\<close> has passed.
\<close>

theorem claim_expires:
  assumes wf: "queue_wf docs" and d: "d \<in> set docs" and i: "js_get d ''_id'' = JStr s"
    and sent: "js_get d ''sent'' = JBool False" and due: "js_less (js_get d ''sending'') (JNum t1)"
    and expired: "t1 + T < t2"
  shows "\<exists>docs1 docs2. reserve (JStr s) t1 T docs = Inr (1, docs1) \<and>
                       reserve (JStr s) t2 T docs1 = Inr (1, docs2)"
proof -
  obtain pre post where docs: "docs = pre @ d # post"
    and r1: "reserve (JStr s) t1 T docs = Inr (1, pre @ js_put d ''sending'' (JNum (t1 + T)) # post)"
    using reserve_hit [OF wf d i sent due] by blast
  let ?d' = "js_put d ''sending'' (JNum (t1 + T))"
  have wf': "queue_wf (pre @ ?d' # post)"
    using wf docs by (simp add: queue_wf_put)
  have "js_get ?d' ''_id'' = JStr s" and "js_get ?d' ''sent'' = JBool False"
    and "js_get ?d' ''sending'' = JNum (t1 + T)"
    using reserved_record [of pre d post s] wf docs i sent by simp_all
  moreover have "?d' \<in> set (pre @ ?d' # post)" by simp
  ultimately obtain pre2 post2 where
    "reserve (JStr s) t2 T (pre @ ?d' # post) =
       Inr (1, pre2 @ js_put ?d' ''sending'' (JNum (t2 + T)) # post2)"
    using reserve_hit [OF wf'] expired by (metis js_less.simps(1))
  with r1 show ?thesis by blast
qed

theorem claim_expires_witness:
  "\<exists>docs1 docs2. reserve (JStr ''n1'') 1000 60000
             [JObj [(''_id'', JStr ''n1''), (''sent'', JBool False), (''sending'', JNum 0)]] = Inr (1, docs1) \<and>
           reserve (JStr ''n1'') 61001 60000 docs1 = Inr (1, docs2)"
  using claim_expires [of "[JObj [(''_id'', JStr ''n1''), (''sent'', JBool False), (''sending'', JNum 0)]]"
      "JObj [(''_id'', JStr ''n1''), (''sent'', JBool False), (''sending'', JNum 0)]" "''n1''" 1000 60000 61001]
  by (simp add: queue_wf_def)

end
