(* ===== verification/Match.thy ===== *)
theory Match
  imports JsValue
begin

text \<open>
  The runtime shape checks of meteor/check, as push.js uses them: \<open>check(value, pattern)\<close>
  raises a Match error unless the value fits the pattern, \<open>Match.test\<close> returns the
  verdict. Patterns are the constructors of \<open>mpat\<close>: \<open>String\<close>, \<open>Match.Integer\<close>,
  \<open>Boolean\<close>, \<open>Date\<close>, \<open>Object\<close> (a plain object), \<open>null\<close>, \<open>Match.Optional\<close>,
  \<open>Match.OneOf\<close>, \<open>[p]\<close> (an array of \<open>p\<close>) and an object literal of field patterns
  (no other key allowed, a field whose pattern does not admit \<open>undefined\<close> required).
  \<open>Match.Integer\<close> is the library's test \<open>(x | 0) === x\<close>: the number survives the
  conversion to a 32-bit signed integer, which is \<open>sint\<close> of a \<open>32 word\<close>.
  The token pattern \<open>_matchToken\<close> of push.js (line 12) closes the theory.
\<close>

datatype mpat =
    PString
  | PInteger
  | PBoolean
  | PDate
  | PObject
  | PNull
  | POptional mpat
  | POneOf "mpat list"
  | PArrayOf mpat
  | PRecord "(string \<times> mpat) list"

text \<open>\<open>x | 0\<close>: ToInt32, wrap-around to 32 bits read as two's complement.\<close>

definition to_int32 :: "int \<Rightarrow> int" where
  "to_int32 n = sint (word_of_int n :: 32 word)"

definition match_integer :: "int \<Rightarrow> bool" where
  "match_integer n \<longleftrightarrow> to_int32 n = n"

fun mtest :: "mpat \<Rightarrow> jsval \<Rightarrow> bool" where
  "mtest PString v = (case v of JStr _ \<Rightarrow> True | _ \<Rightarrow> False)"
| "mtest PInteger v = (case v of JNum n \<Rightarrow> match_integer n | _ \<Rightarrow> False)"
| "mtest PBoolean v = (case v of JBool _ \<Rightarrow> True | _ \<Rightarrow> False)"
| "mtest PDate v = (case v of JDate _ \<Rightarrow> True | _ \<Rightarrow> False)"
| "mtest PObject v = (case v of JObj _ \<Rightarrow> True | _ \<Rightarrow> False)"
| "mtest PNull v = (v = JNull)"
| "mtest (POptional p) v = (v = JUndef \<or> mtest p v)"
| "mtest (POneOf ps) v = (\<exists>p \<in> set ps. mtest p v)"
| "mtest (PArrayOf p) v = (case v of JArr vs \<Rightarrow> (\<forall>x \<in> set vs. mtest p x) | _ \<Rightarrow> False)"
| "mtest (PRecord fs) v =
     (case v of
        JObj kvs \<Rightarrow> (\<forall>k \<in> set (map fst kvs). k \<in> set (map fst fs)) \<and>
                    (\<forall>(k, p) \<in> set fs. mtest p (js_get v k))
      | _ \<Rightarrow> False)"

text \<open>\<open>check(v, p)\<close>.\<close>

definition check :: "jsval \<Rightarrow> mpat \<Rightarrow> unit js_result" where
  "check v p = (if mtest p v then Inr () else Inl (MatchError ''Match failed''))"

text \<open>\<open>_matchToken = Match.OneOf({apn: String}, {gcm: String})\<close>.\<close>

definition match_token :: mpat where
  "match_token = POneOf [PRecord [(''apn'', PString)], PRecord [(''gcm'', PString)]]"

section \<open>Lemmas\<close>

text \<open>\<open>Match.Integer\<close> accepts exactly the 32-bit signed range.\<close>

lemma match_integer_iff [js_simps]:
  "match_integer n \<longleftrightarrow> - (2 ^ 31) \<le> n \<and> n < 2 ^ 31"
  by (simp add: match_integer_def to_int32_def signed_of_int signed_take_bit_int_eq_self_iff)

text \<open>Above the range the conversion wraps around: \<open>2^31\<close> reads as \<open>-2^31\<close>.\<close>

lemma to_int32_wraps: "to_int32 (2 ^ 31) = - (2 ^ 31)"
  by (simp add: to_int32_def)

lemma mtest_record_missing [js_simps]:
  "mtest (PRecord fs) (JObj kvs) \<Longrightarrow> (k, p) \<in> set fs \<Longrightarrow> \<not> js_has (JObj kvs) k \<Longrightarrow>
     mtest p JUndef"
  by (force simp: map_of_eq_None_iff [symmetric])

text \<open>
  A JavaScript object never binds a key twice: the association lists that model real
  objects have distinct keys.
\<close>

fun obj_keys_distinct :: "jsval \<Rightarrow> bool" where
  "obj_keys_distinct (JObj kvs) = distinct (map fst kvs)"
| "obj_keys_distinct _ = True"

text \<open>
  A token that passes \<open>_matchToken\<close> is an object with exactly one key, \<open>apn\<close> or \<open>gcm\<close>,
  holding a string: never both kinds at once.
\<close>

lemma match_token_shape:
  assumes "obj_keys_distinct v"
  shows "mtest match_token v \<longleftrightarrow> (\<exists>s. v = JObj [(''apn'', JStr s)]) \<or> (\<exists>s. v = JObj [(''gcm'', JStr s)])"
proof
  assume m: "mtest match_token v"
  then obtain kvs where v: "v = JObj kvs"
    by (auto simp: match_token_def split: jsval.splits)
  have dk: "distinct (map fst kvs)" using assms v by simp
  have one: "\<lbrakk>\<forall>k \<in> set (map fst kvs). k = key; js_get (JObj kvs) key = JStr s\<rbrakk> \<Longrightarrow>
              kvs = [(key, JStr s)]" for key s
    using dk
  proof (induction kvs)
    case Nil
    then show ?case by simp
  next
    case (Cons kv kvs)
    then show ?case
      by (cases kv; cases kvs) (auto split: option.splits if_splits)
  qed
  from m v have "(\<forall>k \<in> set (map fst kvs). k = ''apn'') \<and> (\<exists>s. js_get (JObj kvs) ''apn'' = JStr s) \<or>
                 (\<forall>k \<in> set (map fst kvs). k = ''gcm'') \<and> (\<exists>s. js_get (JObj kvs) ''gcm'' = JStr s)"
    by (auto simp: match_token_def split: jsval.splits)
  then show "(\<exists>s. v = JObj [(''apn'', JStr s)]) \<or> (\<exists>s. v = JObj [(''gcm'', JStr s)])"
    using one v by blast
next
  assume "(\<exists>s. v = JObj [(''apn'', JStr s)]) \<or> (\<exists>s. v = JObj [(''gcm'', JStr s)])"
  then show "mtest match_token v"
    by (auto simp: match_token_def)
qed

end
