(* ===== verification/Tokens.thy ===== *)
theory Tokens
  imports Mongo Match
begin

text \<open>
  The token directory, \<open>_raix_push_app_tokens\<close>: one record per registered app with its
  current push token (\<open>{apn: string}\<close> or \<open>{gcm: string}\<close>, absent after invalidation),
  an \<open>enabled\<close> flag and the app name. The core never creates records; it changes them
  only through \<open>_replaceToken\<close> (push.js lines 32--34) and \<open>_removeToken\<close> (lines 36--38),
  which the APN and GCM libraries call back with the failed token, and through the
  relay's answer 406, which removes every record holding the token (lines 178--188).
\<close>

section \<open>Operations\<close>

text \<open>\<open>appTokensCollection.update({token: currentToken}, {$set: {token: newToken}}, {multi: true})\<close>\<close>

definition replace_token :: "jsval \<Rightarrow> jsval \<Rightarrow> jsval list \<Rightarrow> jsval list js_result" where
  "replace_token currentToken newToken apps =
     (case coll_update_multi (JObj [(''token'', currentToken)])
             (JObj [(''$set'', JObj [(''token'', newToken)])]) apps of
        Inl e \<Rightarrow> Inl e
      | Inr (_, apps') \<Rightarrow> Inr apps')"

text \<open>\<open>appTokensCollection.update({token}, {$unset: {token: true}}, {multi: true})\<close>\<close>

definition remove_token :: "jsval \<Rightarrow> jsval list \<Rightarrow> jsval list js_result" where
  "remove_token token apps =
     (case coll_update_multi (JObj [(''token'', token)])
             (JObj [(''$unset'', JObj [(''token'', JBool True)])]) apps of
        Inl e \<Rightarrow> Inl e
      | Inr (_, apps') \<Rightarrow> Inr apps')"

text \<open>
  The relay reported the token invalid (HTTP 406):
  \<open>appTokensCollection.remove({$or: [{'token.apn': token}, {'token.gcm': token}]})\<close>.
\<close>

definition gateway_remove_token :: "jsval \<Rightarrow> jsval list \<Rightarrow> jsval list js_result" where
  "gateway_remove_token token apps =
     coll_remove (JObj [(''$or'', JArr [JObj [(''token.apn'', token)], JObj [(''token.gcm'', token)]])]) apps"

section \<open>Invariant\<close>

text \<open>
  A well-formed directory record: an object with distinct keys whose \<open>token\<close>, when
  present, passes \<open>_matchToken\<close>.
\<close>

definition app_wf :: "jsval \<Rightarrow> bool" where
  "app_wf a \<longleftrightarrow> (\<exists>kvs. a = JObj kvs \<and> distinct (map fst kvs)) \<and>
     (js_has a ''token'' \<longrightarrow> mtest match_token (js_get a ''token''))"

definition dir_wf :: "jsval list \<Rightarrow> bool" where
  "dir_wf apps \<longleftrightarrow> (\<forall>a \<in> set apps. app_wf a)"

section \<open>Lemmas\<close>

lemma token_not_op:
  assumes "mtest match_token t"
  shows "\<not> is_op_obj t \<and> t \<noteq> JNull \<and> field_ok t \<and> (\<exists>kvs. t = JObj kvs)"
proof -
  from assms obtain kvs where t: "t = JObj kvs"
    and keys: "\<forall>k \<in> set (map fst kvs). k = ''apn'' \<or> k = ''gcm''"
    by (auto simp: match_token_def split: jsval.splits)
  have "\<not> is_op_obj (JObj kvs)" using keys by (cases kvs) auto
  with t show ?thesis by simp
qed

lemma sel_ok_token [mongo_simps]: "mtest match_token t \<Longrightarrow> sel_ok (JObj [(''token'', t)])"
  using token_not_op [of t] by simp

lemma sel_match_token [mongo_simps]:
  "mtest match_token t \<Longrightarrow> sel_match a (JObj [(''token'', t)]) \<longleftrightarrow> js_get a ''token'' = t"
  using token_not_op [of t] by (auto simp: split_path_plain eq_match_def)

lemma unset_token_obj [mongo_simps]:
  "apply_modifier (JObj [(''$unset'', JObj [(''token'', JBool True)])]) (JObj kvs) =
     JObj (assoc_del kvs ''token'')"
  by simp

lemma set_token_obj [mongo_simps]:
  "apply_modifier (JObj [(''$set'', JObj [(''token'', v)])]) (JObj kvs) =
     JObj (assoc_set kvs ''token'' v)"
  by simp

lemma remove_token_eq:
  "mtest match_token t \<Longrightarrow> remove_token t apps =
     Inr (map (\<lambda>a. if js_get a ''token'' = t
                   then apply_modifier (JObj [(''$unset'', JObj [(''token'', JBool True)])]) a
                   else a) apps)"
  by (simp add: remove_token_def coll_update_multi_def sel_ok_token sel_match_token
      del: sel_match.simps sel_ok.simps)

lemma replace_token_eq:
  "mtest match_token t \<Longrightarrow> replace_token t t' apps =
     Inr (map (\<lambda>a. if js_get a ''token'' = t
                   then apply_modifier (JObj [(''$set'', JObj [(''token'', t')])]) a
                   else a) apps)"
  by (simp add: replace_token_def coll_update_multi_def sel_ok_token sel_match_token
      del: sel_match.simps sel_ok.simps)

lemma sel_gateway_remove [mongo_simps]:
  "sel_ok (JObj [(''$or'', JArr [JObj [(''token.apn'', JStr s)], JObj [(''token.gcm'', JStr s)]])]) \<and>
   (sel_match a (JObj [(''$or'', JArr [JObj [(''token.apn'', JStr s)], JObj [(''token.gcm'', JStr s)]])])
      \<longleftrightarrow> js_get (js_get a ''token'') ''apn'' = JStr s \<or> js_get (js_get a ''token'') ''gcm'' = JStr s)"
  by (simp add: split_path_def eq_match_def)

lemma app_wf_delete_token: "app_wf a \<Longrightarrow> app_wf (js_delete a ''token'')"
  by (auto simp: app_wf_def)

lemma app_wf_put_token:
  "app_wf a \<Longrightarrow> mtest match_token t' \<Longrightarrow>
     app_wf (js_put a ''token'' t') \<and> js_get (js_put a ''token'' t') ''token'' = t'"
  by (auto simp: app_wf_def)

section \<open>Properties of the token directory\<close>

text \<open>
  C3. \<open>_removeToken\<close> and \<open>_replaceToken\<close> applied to a token that no record holds are
  no-ops: no error, no record created, changed or removed.
\<close>

theorem token_ops_noop:
  assumes "mtest match_token t" and "\<forall>a \<in> set apps. js_get a ''token'' \<noteq> t"
  shows "remove_token t apps = Inr apps \<and> replace_token t t' apps = Inr apps"
  using assms by (simp add: remove_token_eq replace_token_eq)

theorem token_ops_noop_witness:
  "remove_token (JObj [(''gcm'', JStr ''old'')])
     [JObj [(''_id'', JStr ''a1''), (''token'', JObj [(''apn'', JStr ''x'')])]] =
     Inr [JObj [(''_id'', JStr ''a1''), (''token'', JObj [(''apn'', JStr ''x'')])]] \<and>
   replace_token (JObj [(''gcm'', JStr ''old'')]) (JObj [(''gcm'', JStr ''new'')])
     [JObj [(''_id'', JStr ''a1''), (''token'', JObj [(''apn'', JStr ''x'')])]] =
     Inr [JObj [(''_id'', JStr ''a1''), (''token'', JObj [(''apn'', JStr ''x'')])]]"
  by (rule token_ops_noop) (simp_all add: match_token_def)

text \<open>
  C4. \<open>_removeToken t\<close> unsets the token of every record holding \<open>t\<close> and of no other:
  afterwards no record holds \<open>t\<close>, every record is still there, the others are
  unchanged, and the directory stays well-formed.
\<close>

theorem remove_token_effect:
  assumes t: "mtest match_token t" and wf: "dir_wf apps"
    and r: "remove_token t apps = Inr apps'"
  shows "length apps' = length apps \<and> dir_wf apps' \<and> (\<forall>a \<in> set apps'. js_get a ''token'' \<noteq> t) \<and>
         (\<forall>i < length apps. js_get (apps ! i) ''token'' \<noteq> t \<longrightarrow> apps' ! i = apps ! i)"
proof -
  have apps': "apps' = map (\<lambda>a. if js_get a ''token'' = t
                   then apply_modifier (JObj [(''$unset'', JObj [(''token'', JBool True)])]) a
                   else a) apps"
    using remove_token_eq [OF t] r by simp
  have "t \<noteq> JUndef" using token_not_op [OF t] by auto
  then have gone: "\<forall>a \<in> set apps'. js_get a ''token'' \<noteq> t" by (auto simp: apps')
  have wf': "dir_wf apps'" using wf by (auto simp: apps' dir_wf_def app_wf_delete_token)
  have other: "\<forall>i < length apps. js_get (apps ! i) ''token'' \<noteq> t \<longrightarrow> apps' ! i = apps ! i"
    by (simp add: apps')
  have "length apps' = length apps" by (simp add: apps')
  with gone wf' other show ?thesis by blast
qed

theorem remove_token_effect_witness:
  "remove_token (JObj [(''gcm'', JStr ''g'')])
     [JObj [(''_id'', JStr ''a1''), (''token'', JObj [(''gcm'', JStr ''g'')])]] =
     Inr [JObj [(''_id'', JStr ''a1'')]] \<and>
   length [JObj [(''_id'', JStr ''a1'')]] = 1 \<and> dir_wf [JObj [(''_id'', JStr ''a1'')]]"
proof -
  have t: "mtest match_token (JObj [(''gcm'', JStr ''g'')])" by (simp add: match_token_def)
  have wf: "dir_wf [JObj [(''_id'', JStr ''a1''), (''token'', JObj [(''gcm'', JStr ''g'')])]]"
    by (simp add: dir_wf_def app_wf_def match_token_def)
  have r: "remove_token (JObj [(''gcm'', JStr ''g'')])
     [JObj [(''_id'', JStr ''a1''), (''token'', JObj [(''gcm'', JStr ''g'')])]] =
     Inr [JObj [(''_id'', JStr ''a1'')]]"
    by (simp add: remove_token_eq [OF t] assoc_del_def)
  show ?thesis using remove_token_effect [OF t wf r] r by simp
qed

text \<open>
  C5. \<open>_replaceToken old new\<close> gives every record holding \<open>old\<close> the token \<open>new\<close> (all
  of them: a token is not assumed unique), leaves the others alone, keeps every record,
  and keeps the directory well-formed when \<open>new\<close> is a valid token.
\<close>

theorem replace_token_effect:
  assumes t: "mtest match_token t" and t': "mtest match_token t'" and wf: "dir_wf apps"
    and r: "replace_token t t' apps = Inr apps'"
  shows "length apps' = length apps \<and> dir_wf apps' \<and>
         (\<forall>i < length apps. js_get (apps' ! i) ''token'' =
              (if js_get (apps ! i) ''token'' = t then t' else js_get (apps ! i) ''token'') \<and>
              (js_get (apps ! i) ''token'' \<noteq> t \<longrightarrow> apps' ! i = apps ! i))"
proof -
  have apps': "apps' = map (\<lambda>a. if js_get a ''token'' = t
                   then apply_modifier (JObj [(''$set'', JObj [(''token'', t')])]) a
                   else a) apps"
    using replace_token_eq [OF t] r by simp
  have wf': "dir_wf apps'" using wf t' by (auto simp: apps' dir_wf_def app_wf_put_token)
  have "\<forall>i < length apps. js_get (apps' ! i) ''token'' =
              (if js_get (apps ! i) ''token'' = t then t' else js_get (apps ! i) ''token'') \<and>
              (js_get (apps ! i) ''token'' \<noteq> t \<longrightarrow> apps' ! i = apps ! i)"
  proof (intro allI impI)
    fix i assume i: "i < length apps"
    then have "app_wf (apps ! i)" using wf by (simp add: dir_wf_def)
    with t' i show "js_get (apps' ! i) ''token'' =
              (if js_get (apps ! i) ''token'' = t then t' else js_get (apps ! i) ''token'') \<and>
              (js_get (apps ! i) ''token'' \<noteq> t \<longrightarrow> apps' ! i = apps ! i)"
      by (simp add: apps' app_wf_put_token)
  qed
  moreover have "length apps' = length apps" by (simp add: apps')
  ultimately show ?thesis using wf' by blast
qed

theorem replace_token_effect_witness:
  "replace_token (JObj [(''gcm'', JStr ''g'')]) (JObj [(''gcm'', JStr ''h'')])
     [JObj [(''_id'', JStr ''a1''), (''token'', JObj [(''gcm'', JStr ''g'')])],
      JObj [(''_id'', JStr ''a2''), (''token'', JObj [(''gcm'', JStr ''g'')])]] =
     Inr [JObj [(''_id'', JStr ''a1''), (''token'', JObj [(''gcm'', JStr ''h'')])],
          JObj [(''_id'', JStr ''a2''), (''token'', JObj [(''gcm'', JStr ''h'')])]] \<and>
   dir_wf [JObj [(''_id'', JStr ''a1''), (''token'', JObj [(''gcm'', JStr ''h'')])],
           JObj [(''_id'', JStr ''a2''), (''token'', JObj [(''gcm'', JStr ''h'')])]]"
proof -
  have t: "mtest match_token (JObj [(''gcm'', JStr ''g'')])" by (simp add: match_token_def)
  have t': "mtest match_token (JObj [(''gcm'', JStr ''h'')])" by (simp add: match_token_def)
  have wf: "dir_wf [JObj [(''_id'', JStr ''a1''), (''token'', JObj [(''gcm'', JStr ''g'')])],
      JObj [(''_id'', JStr ''a2''), (''token'', JObj [(''gcm'', JStr ''g'')])]]"
    by (simp add: dir_wf_def app_wf_def match_token_def)
  have r: "replace_token (JObj [(''gcm'', JStr ''g'')]) (JObj [(''gcm'', JStr ''h'')])
     [JObj [(''_id'', JStr ''a1''), (''token'', JObj [(''gcm'', JStr ''g'')])],
      JObj [(''_id'', JStr ''a2''), (''token'', JObj [(''gcm'', JStr ''g'')])]] =
     Inr [JObj [(''_id'', JStr ''a1''), (''token'', JObj [(''gcm'', JStr ''h'')])],
          JObj [(''_id'', JStr ''a2''), (''token'', JObj [(''gcm'', JStr ''h'')])]]"
    by (simp add: replace_token_eq [OF t])
  show ?thesis using replace_token_effect [OF t t' wf r] r by simp
qed

text \<open>
  C6. When the relay answers 406 for token \<open>s\<close>, every record whose APN or GCM token is
  \<open>s\<close> is deleted from the directory as a whole (the spec says only its token field is
  removed and the record kept), and no record holding \<open>s\<close> remains.
\<close>

theorem gateway_406_deletes_record:
  assumes a: "a \<in> set apps"
    and holds: "js_get (js_get a ''token'') ''apn'' = JStr s \<or> js_get (js_get a ''token'') ''gcm'' = JStr s"
    and r: "gateway_remove_token (JStr s) apps = Inr apps'"
  shows "a \<notin> set apps' \<and> length apps' < length apps \<and>
         (\<forall>b \<in> set apps'. js_get (js_get b ''token'') ''apn'' \<noteq> JStr s \<and>
                          js_get (js_get b ''token'') ''gcm'' \<noteq> JStr s)"
proof -
  have apps': "apps' = filter (\<lambda>b. \<not> (js_get (js_get b ''token'') ''apn'' = JStr s \<or>
                                      js_get (js_get b ''token'') ''gcm'' = JStr s)) apps"
    using r by (simp add: gateway_remove_token_def coll_remove_def sel_gateway_remove
                     del: sel_match.simps sel_ok.simps)
  have "length apps' < length apps"
    unfolding apps' using a holds by (auto intro!: length_filter_less)
  with holds show ?thesis by (auto simp: apps')
qed

theorem gateway_406_deletes_record_witness:
  "gateway_remove_token (JStr ''X'')
     [JObj [(''_id'', JStr ''a1''), (''token'', JObj [(''apn'', JStr ''X'')])],
      JObj [(''_id'', JStr ''a2''), (''token'', JObj [(''gcm'', JStr ''Y'')])]] =
     Inr [JObj [(''_id'', JStr ''a2''), (''token'', JObj [(''gcm'', JStr ''Y'')])]] \<and>
   JObj [(''_id'', JStr ''a1''), (''token'', JObj [(''apn'', JStr ''X'')])] \<notin>
     set [JObj [(''_id'', JStr ''a2''), (''token'', JObj [(''gcm'', JStr ''Y'')])]]"
proof -
  have r: "gateway_remove_token (JStr ''X'')
     [JObj [(''_id'', JStr ''a1''), (''token'', JObj [(''apn'', JStr ''X'')])],
      JObj [(''_id'', JStr ''a2''), (''token'', JObj [(''gcm'', JStr ''Y'')])]] =
     Inr [JObj [(''_id'', JStr ''a2''), (''token'', JObj [(''gcm'', JStr ''Y'')])]]"
    by (simp add: gateway_remove_token_def coll_remove_def split_path_def eq_match_def)
  show ?thesis
    using gateway_406_deletes_record [OF _ _ r, of "JObj [(''_id'', JStr ''a1''), (''token'', JObj [(''apn'', JStr ''X'')])]"] r
    by simp
qed

end
