(* ===== verification/Relay.thy ===== *)
theory Relay
  imports Tokens
begin

text \<open>
  The gateway relay client, \<open>sendGatewayPush\<close> (push.js lines 162--206). A call stamps
  \<open>options.uniqueId\<close> on the notification object, posts \<open>{data: {token, options:
  notification}, headers}\<close> to \<open>gateway/push/service/send\<close> and returns; the answer
  arrives later in a callback. The callback removes the token's directory records on 406,
  stops on success, and otherwise schedules a new call with \<open>tries + 1\<close> after
  \<open>10^(tries+2)\<close> ms, as long as \<open>tries \<le> 6\<close>.

  The notification object is shared: the router mutates it between calls (\<open>topic\<close>,
  \<open>uniqueId\<close>) and every retry closure holds the same reference. The world therefore has
  a heap of objects (\<open>heap\<close>, addresses \<open>nat\<close>); requests name their notification by
  address. Posts and sends to the platform libraries are recorded in \<open>sent\<close>, the posts
  whose callback has not run in \<open>inflight\<close>, the scheduled retries in \<open>timers\<close>.
\<close>

section \<open>The world the server processes act on\<close>

datatype event =
    SendAPN jsval jsval          \<comment> \<open>\<open>sendAPN(token, notification)\<close>\<close>
  | SendGCM jsval jsval          \<comment> \<open>\<open>sendGCM({userTokens, notification, ...})\<close>\<close>
  | HttpPost string jsval         \<comment> \<open>\<open>HTTP.post(url, data, callback)\<close>\<close>

record relay_req =
  rq_gateway :: jsval
  rq_service :: string
  rq_token :: jsval
  rq_notif :: nat     \<comment> \<open>address of the shared notification object\<close>
  rq_tries :: nat

record world = store +
  heap :: "nat \<Rightarrow> jsval"
  next_addr :: nat
  sent :: "event list"
  inflight :: "relay_req list"
  timers :: "(ms \<times> relay_req) list"

text \<open>
  The options object after \<open>configure\<close>: the fields the core reads. \<open>getAuthorization\<close> is
  a callback; the model keeps the value it returns (\<open>None\<close> when the option is absent).
\<close>

record push_options =
  opt_apn :: jsval
  opt_gcm :: jsval
  opt_gateways :: jsval
  opt_uniqueId :: jsval
  opt_getAuthorization :: "jsval option"
  opt_sendTimeout :: int
  opt_sendInterval :: jsval
  opt_sendBatchSize :: jsval
  opt_keepNotifications :: jsval

section \<open>sendGatewayPush and its callback\<close>

definition gateway_url :: "jsval \<Rightarrow> string \<Rightarrow> string" where
  "gateway_url gateway service = js_template gateway @ ''/push/'' @ service @ ''/send''"

definition send_gateway_push ::
  "push_options \<Rightarrow> jsval \<Rightarrow> string \<Rightarrow> jsval \<Rightarrow> nat \<Rightarrow> nat \<Rightarrow> world \<Rightarrow> world" where
  "send_gateway_push options gateway service token addr tries w =
     (let notification = js_put (heap w addr) ''uniqueId'' (opt_uniqueId options);
          headers = (case opt_getAuthorization options of
                       Some auth \<Rightarrow> if truthy token then JObj [(''Authorization'', auth)] else JObj []
                     | None \<Rightarrow> JObj []);
          data = JObj [(''data'', JObj [(''token'', token), (''options'', notification)]),
                       (''headers'', headers)]
      in w\<lparr>heap := (heap w)(addr := notification),
           sent := sent w @ [HttpPost (gateway_url gateway service) data],
           inflight := inflight w @ [\<lparr>rq_gateway = gateway, rq_service = service, rq_token = token,
                                     rq_notif = addr, rq_tries = tries\<rparr>]\<rparr>)"

text \<open>What the callback receives: a response with its status, or a network error.\<close>

datatype http_result = HttpResponse nat | HttpNetError

text \<open>The error flag of meteor/http: a network error or a status of 400 and above.\<close>

fun http_error :: "http_result \<Rightarrow> bool" where
  "http_error (HttpResponse code) = (400 \<le> code)"
| "http_error HttpNetError = True"

definition retry_delay :: "nat \<Rightarrow> ms" where
  "retry_delay tries = 10 ^ (tries + 2)"

definition relay_callback :: "http_result \<Rightarrow> relay_req \<Rightarrow> world \<Rightarrow> world" where
  "relay_callback res req w0 =
     (let w = w0\<lparr>inflight := remove1 req (inflight w0)\<rparr> in
      if res = HttpResponse 406 then
        (case gateway_remove_token (rq_token req) (app_tokens w) of
           Inr apps \<Rightarrow> w\<lparr>app_tokens := apps\<rparr>
         | Inl _ \<Rightarrow> w)
      else if \<not> http_error res then w
      else if rq_tries req \<le> 6 then
        w\<lparr>timers := timers w @ [(retry_delay (rq_tries req), req\<lparr>rq_tries := Suc (rq_tries req)\<rparr>)]\<rparr>
      else w)"

text \<open>A retry timer fires: the scheduled call of \<open>sendGatewayPush\<close> with the shared object.\<close>

definition fire_timer :: "push_options \<Rightarrow> ms \<times> relay_req \<Rightarrow> world \<Rightarrow> world" where
  "fire_timer options tm w =
     (let req = snd tm in
      send_gateway_push options (rq_gateway req) (rq_service req) (rq_token req) (rq_notif req)
        (rq_tries req) (w\<lparr>timers := remove1 tm (timers w)\<rparr>))"

text \<open>The relay's activity after the router returned: callbacks and timers, in any order.\<close>

inductive relay_step :: "push_options \<Rightarrow> world \<Rightarrow> world \<Rightarrow> bool" for options where
  respond: "req \<in> set (inflight w) \<Longrightarrow> relay_step options w (relay_callback res req w)"
| fire: "tm \<in> set (timers w) \<Longrightarrow> relay_step options w (fire_timer options tm w)"

inductive_cases relay_stepE: "relay_step options w w'"

section \<open>Lemmas\<close>

fun is_post :: "event \<Rightarrow> bool" where
  "is_post (HttpPost _ _) = True"
| "is_post _ = False"

definition posts :: "world \<Rightarrow> nat" where
  "posts w = length (filter is_post (sent w))"

lemma send_gateway_push_fields [simp]:
  "sent (send_gateway_push options g sv tk a t w) =
     sent w @ [HttpPost (gateway_url g sv) (JObj [(''data'', JObj [(''token'', tk),
        (''options'', js_put (heap w a) ''uniqueId'' (opt_uniqueId options))]),
        (''headers'', case opt_getAuthorization options of
                        Some auth \<Rightarrow> if truthy tk then JObj [(''Authorization'', auth)] else JObj []
                      | None \<Rightarrow> JObj [])])]"
  "inflight (send_gateway_push options g sv tk a t w) =
     inflight w @ [\<lparr>rq_gateway = g, rq_service = sv, rq_token = tk, rq_notif = a, rq_tries = t\<rparr>]"
  "timers (send_gateway_push options g sv tk a t w) = timers w"
  "app_tokens (send_gateway_push options g sv tk a t w) = app_tokens w"
  "notifications (send_gateway_push options g sv tk a t w) = notifications w"
  by (simp_all add: send_gateway_push_def Let_def)

lemma relay_callback_fields [simp]:
  "sent (relay_callback res req w) = sent w"
  "inflight (relay_callback res req w) = remove1 req (inflight w)"
  "timers (relay_callback res req w) =
     timers w @ (if res \<noteq> HttpResponse 406 \<and> http_error res \<and> rq_tries req \<le> 6
                 then [(retry_delay (rq_tries req), req\<lparr>rq_tries := Suc (rq_tries req)\<rparr>)] else [])"
  "notifications (relay_callback res req w) = notifications w"
  by (auto simp: relay_callback_def Let_def split: sum.splits)

lemma posts_send_gateway_push [simp]:
  "posts (send_gateway_push options g sv tk a t w) = Suc (posts w)"
  by (simp add: posts_def)

lemma posts_timers_update [simp]: "posts (w\<lparr>timers := x\<rparr>) = posts w"
  by (simp add: posts_def)

lemma posts_relay_callback [simp]: "posts (relay_callback res req w) = posts w"
  by (simp add: posts_def)

text \<open>
  Well-formed relay state: an in-flight post has been tried at most 7 times (\<open>tries\<close> runs
  from 0 to 7), a scheduled retry carries \<open>tries\<close> between 1 and 7 and waits
  \<open>10^(tries+1)\<close> ms, the delay its predecessor computed.
\<close>

definition relay_wf :: "world \<Rightarrow> bool" where
  "relay_wf w \<longleftrightarrow> (\<forall>r \<in> set (inflight w). rq_tries r \<le> 7) \<and>
     (\<forall>(d, r) \<in> set (timers w). 1 \<le> rq_tries r \<and> rq_tries r \<le> 7 \<and> d = retry_delay (rq_tries r - 1))"

text \<open>
  The posts still possible: an in-flight post with \<open>tries = t\<close> may lead to \<open>7 - t\<close> more,
  a scheduled retry with \<open>tries = t\<close> to \<open>8 - t\<close> (itself included).
\<close>

definition relay_potential :: "world \<Rightarrow> nat" where
  "relay_potential w = sum_list (map (\<lambda>r. 7 - rq_tries r) (inflight w)) +
                       sum_list (map (\<lambda>(_, r). 8 - rq_tries r) (timers w))"

definition relay_measure :: "world \<Rightarrow> nat" where
  "relay_measure w = 2 * relay_potential w + length (inflight w)"

lemma relay_step_wf:
  assumes "relay_step options w w'" and "relay_wf w"
  shows "relay_wf w'"
  using assms
proof cases
  case (respond req res)
  with assms(2) show ?thesis
    by (auto simp: relay_wf_def dest: subsetD [OF set_remove1_subset])
next
  case (fire tm)
  with assms(2) show ?thesis
    by (cases tm) (auto simp: relay_wf_def fire_timer_def dest: subsetD [OF set_remove1_subset])
qed

lemma relay_step_potential:
  assumes "relay_step options w w'" and "relay_wf w"
  shows "posts w' + relay_potential w' \<le> posts w + relay_potential w
         \<and> relay_measure w' < relay_measure w"
  using assms
proof cases
  case (respond req res)
  have t: "rq_tries req \<le> 7" using respond assms(2) by (auto simp: relay_wf_def)
  have split: "sum_list (map (\<lambda>r. 7 - rq_tries r) (inflight w)) =
      (7 - rq_tries req) + sum_list (map (\<lambda>r. 7 - rq_tries r) (remove1 req (inflight w)))"
    using respond by (simp add: sum_list_map_remove1)
  have len: "length (inflight w) = Suc (length (remove1 req (inflight w)))"
    using respond by (simp add: length_remove1) (metis Suc_pred length_pos_if_in_set)
  show ?thesis
    using respond t split len by (auto simp: relay_potential_def relay_measure_def)
next
  case (fire tm)
  obtain d r where tm: "tm = (d, r)" by (cases tm)
  have t: "1 \<le> rq_tries r" "rq_tries r \<le> 7" using fire assms(2) tm by (auto simp: relay_wf_def)
  have split: "sum_list (map (\<lambda>(_, r). 8 - rq_tries r) (timers w)) =
      (8 - rq_tries r) + sum_list (map (\<lambda>(_, r). 8 - rq_tries r) (remove1 tm (timers w)))"
    using fire tm sum_list_map_remove1 [of tm "timers w" "\<lambda>(_, r). 8 - rq_tries r"] by simp
  show ?thesis
    using fire t split tm by (simp add: relay_potential_def relay_measure_def fire_timer_def, arith)
qed

lemma relay_steps_bound:
  assumes "(relay_step options)\<^sup>*\<^sup>* w w'" and "relay_wf w"
  shows "relay_wf w' \<and> posts w' + relay_potential w' \<le> posts w + relay_potential w"
  using assms
proof (induction rule: rtranclp_induct)
  case base
  then show ?case by simp
next
  case (step y z)
  then show ?case using relay_step_wf relay_step_potential by fastforce
qed

lemma relay_all_fail_run:
  assumes "inflight w = [r]" and "timers w = []" and "rq_tries r \<le> 7"
  shows "\<exists>w'. (relay_step options)\<^sup>*\<^sup>* w w' \<and> posts w' = posts w + (7 - rq_tries r) \<and>
              inflight w' = [] \<and> timers w' = []"
  using assms
proof (induction "7 - rq_tries r" arbitrary: w r)
  case 0
  then have t: "rq_tries r = 7" by simp
  let ?w' = "relay_callback HttpNetError r w"
  have "relay_step options w ?w'" using "0.prems" by (auto intro: relay_step.respond)
  then have "(relay_step options)\<^sup>*\<^sup>* w ?w'" by (rule r_into_rtranclp)
  moreover have "inflight ?w' = [] \<and> timers ?w' = []" using "0.prems" t by simp
  ultimately show ?case using t by (intro exI [of _ ?w']) simp
next
  case (Suc n)
  let ?r' = "r\<lparr>rq_tries := Suc (rq_tries r)\<rparr>"
  let ?w1 = "relay_callback HttpNetError r w"
  let ?tm = "(retry_delay (rq_tries r), ?r')"
  let ?w2 = "fire_timer options ?tm ?w1"
  have t: "rq_tries r \<le> 6" using Suc.hyps by simp
  have s1: "relay_step options w ?w1" using Suc.prems by (auto intro: relay_step.respond)
  have tm1: "timers ?w1 = [?tm]" and in1: "inflight ?w1 = []" using Suc.prems t by simp_all
  have s2: "relay_step options ?w1 ?w2" using tm1 by (auto intro: relay_step.fire)
  have in2: "inflight ?w2 = [?r']" and tm2: "timers ?w2 = []" and p2: "posts ?w2 = Suc (posts w)"
    using in1 tm1 by (simp_all add: fire_timer_def)
  have "n = 7 - rq_tries ?r'" using Suc.hyps by simp
  then obtain w' where run: "(relay_step options)\<^sup>*\<^sup>* ?w2 w'"
    and "posts w' = posts ?w2 + (7 - rq_tries ?r')" and "inflight w' = []" and "timers w' = []"
    using Suc.hyps(1) [OF _ in2 tm2] t by fastforce
  moreover have "(relay_step options)\<^sup>*\<^sup>* w w'"
    using s1 s2 run by (meson converse_rtranclp_into_rtranclp)
  ultimately show ?case using p2 Suc.hyps by auto
qed

section \<open>Properties of the relay client\<close>

text \<open>
  C7. Retry schedule: a failed post (network error or status \<open>\<ge> 400\<close> other than 406)
  with \<open>tries \<le> 6\<close> schedules exactly one new attempt with \<open>tries + 1\<close> after
  \<open>10^(tries+2)\<close> ms (100 ms, 1 s, 10 s, ... for tries 0, 1, 2, ...); with \<open>tries = 7\<close>
  nothing is scheduled. Either way the directory is untouched.
\<close>

theorem relay_retry_schedule:
  assumes "res \<noteq> HttpResponse 406" and "http_error res"
  shows "timers (relay_callback res req w) =
           timers w @ (if rq_tries req \<le> 6
                       then [(10 ^ (rq_tries req + 2), req\<lparr>rq_tries := rq_tries req + 1\<rparr>)] else []) \<and>
         app_tokens (relay_callback res req w) = app_tokens w"
  using assms by (simp add: relay_callback_def retry_delay_def Let_def)

theorem relay_retry_schedule_witness:
  "timers (relay_callback HttpNetError (\<lparr>rq_gateway = JStr ''https://gw'', rq_service = ''apn'',
       rq_token = JStr ''tokA'', rq_notif = 0, rq_tries = 2\<rparr>) \<lparr>notifications = [], app_tokens = [], id_seq = 0, heap = (\<lambda>_. JObj []), next_addr = 1,
      sent = [], inflight = [\<lparr>rq_gateway = JStr ''https://gw'', rq_service = ''apn'', rq_token = JStr ''tokA'',
                            rq_notif = 0, rq_tries = 0\<rparr>], timers = []\<rparr>) =
     [(10000, \<lparr>rq_gateway = JStr ''https://gw'', rq_service = ''apn'', rq_token = JStr ''tokA'',
               rq_notif = 0, rq_tries = 3\<rparr>)]"
  using relay_retry_schedule [of HttpNetError "\<lparr>rq_gateway = JStr ''https://gw'', rq_service = ''apn'',
       rq_token = JStr ''tokA'', rq_notif = 0, rq_tries = 2\<rparr>" "\<lparr>notifications = [], app_tokens = [], id_seq = 0, heap = (\<lambda>_. JObj []), next_addr = 1,
      sent = [], inflight = [\<lparr>rq_gateway = JStr ''https://gw'', rq_service = ''apn'', rq_token = JStr ''tokA'',
                            rq_notif = 0, rq_tries = 0\<rparr>], timers = []\<rparr>"]
  by simp

text \<open>
  C8. Bounded retries: from a single post in flight with \<open>tries = 0\<close> and nothing
  scheduled, whatever the relay answers and in whatever order callbacks and timers run,
  at most 7 more posts follow: at most 8 attempts in all.
\<close>

theorem relay_posts_bounded:
  assumes "inflight w = [r]" and "rq_tries r = 0" and "timers w = []"
    and "(relay_step options)\<^sup>*\<^sup>* w w'"
  shows "posts w' \<le> posts w + 7"
proof -
  have "relay_wf w" using assms(1-3) by (simp add: relay_wf_def)
  then have "posts w' + relay_potential w' \<le> posts w + relay_potential w"
    using relay_steps_bound assms(4) by blast
  moreover have "relay_potential w = 7" using assms(1-3) by (simp add: relay_potential_def)
  ultimately show ?thesis by simp
qed

theorem relay_posts_bounded_witness:
  "posts (fire_timer \<lparr>opt_apn = JUndef, opt_gcm = JUndef, opt_gateways = JArr [JStr ''https://gw''],
      opt_uniqueId = JUndef, opt_getAuthorization = None, opt_sendTimeout = 60000,
      opt_sendInterval = JUndef, opt_sendBatchSize = JUndef, opt_keepNotifications = JUndef\<rparr> (100, \<lparr>rq_gateway = JStr ''https://gw'', rq_service = ''apn'', rq_token = JStr ''tokA'', rq_notif = 0, rq_tries = 1\<rparr>) (relay_callback HttpNetError \<lparr>rq_gateway = JStr ''https://gw'', rq_service = ''apn'', rq_token = JStr ''tokA'', rq_notif = 0, rq_tries = 0\<rparr> \<lparr>notifications = [], app_tokens = [], id_seq = 0, heap = (\<lambda>_. JObj []), next_addr = 1,
      sent = [], inflight = [\<lparr>rq_gateway = JStr ''https://gw'', rq_service = ''apn'', rq_token = JStr ''tokA'', rq_notif = 0, rq_tries = 0\<rparr>], timers = []\<rparr>)) \<le> posts \<lparr>notifications = [], app_tokens = [], id_seq = 0, heap = (\<lambda>_. JObj []), next_addr = 1,
      sent = [], inflight = [\<lparr>rq_gateway = JStr ''https://gw'', rq_service = ''apn'', rq_token = JStr ''tokA'', rq_notif = 0, rq_tries = 0\<rparr>], timers = []\<rparr> + 7"
proof -
  have s1: "relay_step \<lparr>opt_apn = JUndef, opt_gcm = JUndef, opt_gateways = JArr [JStr ''https://gw''],
      opt_uniqueId = JUndef, opt_getAuthorization = None, opt_sendTimeout = 60000,
      opt_sendInterval = JUndef, opt_sendBatchSize = JUndef, opt_keepNotifications = JUndef\<rparr> \<lparr>notifications = [], app_tokens = [], id_seq = 0, heap = (\<lambda>_. JObj []), next_addr = 1,
      sent = [], inflight = [\<lparr>rq_gateway = JStr ''https://gw'', rq_service = ''apn'', rq_token = JStr ''tokA'', rq_notif = 0, rq_tries = 0\<rparr>], timers = []\<rparr> (relay_callback HttpNetError \<lparr>rq_gateway = JStr ''https://gw'', rq_service = ''apn'', rq_token = JStr ''tokA'', rq_notif = 0, rq_tries = 0\<rparr> \<lparr>notifications = [], app_tokens = [], id_seq = 0, heap = (\<lambda>_. JObj []), next_addr = 1,
      sent = [], inflight = [\<lparr>rq_gateway = JStr ''https://gw'', rq_service = ''apn'', rq_token = JStr ''tokA'', rq_notif = 0, rq_tries = 0\<rparr>], timers = []\<rparr>)"
    by (rule relay_step.respond) simp
  have s2: "relay_step \<lparr>opt_apn = JUndef, opt_gcm = JUndef, opt_gateways = JArr [JStr ''https://gw''],
      opt_uniqueId = JUndef, opt_getAuthorization = None, opt_sendTimeout = 60000,
      opt_sendInterval = JUndef, opt_sendBatchSize = JUndef, opt_keepNotifications = JUndef\<rparr> (relay_callback HttpNetError \<lparr>rq_gateway = JStr ''https://gw'', rq_service = ''apn'', rq_token = JStr ''tokA'', rq_notif = 0, rq_tries = 0\<rparr> \<lparr>notifications = [], app_tokens = [], id_seq = 0, heap = (\<lambda>_. JObj []), next_addr = 1,
      sent = [], inflight = [\<lparr>rq_gateway = JStr ''https://gw'', rq_service = ''apn'', rq_token = JStr ''tokA'', rq_notif = 0, rq_tries = 0\<rparr>], timers = []\<rparr>) (fire_timer \<lparr>opt_apn = JUndef, opt_gcm = JUndef, opt_gateways = JArr [JStr ''https://gw''],
      opt_uniqueId = JUndef, opt_getAuthorization = None, opt_sendTimeout = 60000,
      opt_sendInterval = JUndef, opt_sendBatchSize = JUndef, opt_keepNotifications = JUndef\<rparr> (100, \<lparr>rq_gateway = JStr ''https://gw'', rq_service = ''apn'', rq_token = JStr ''tokA'', rq_notif = 0, rq_tries = 1\<rparr>) (relay_callback HttpNetError \<lparr>rq_gateway = JStr ''https://gw'', rq_service = ''apn'', rq_token = JStr ''tokA'', rq_notif = 0, rq_tries = 0\<rparr> \<lparr>notifications = [], app_tokens = [], id_seq = 0, heap = (\<lambda>_. JObj []), next_addr = 1,
      sent = [], inflight = [\<lparr>rq_gateway = JStr ''https://gw'', rq_service = ''apn'', rq_token = JStr ''tokA'', rq_notif = 0, rq_tries = 0\<rparr>], timers = []\<rparr>))"
    by (rule relay_step.fire) (simp add: retry_delay_def)
  have "(relay_step \<lparr>opt_apn = JUndef, opt_gcm = JUndef, opt_gateways = JArr [JStr ''https://gw''],
      opt_uniqueId = JUndef, opt_getAuthorization = None, opt_sendTimeout = 60000,
      opt_sendInterval = JUndef, opt_sendBatchSize = JUndef, opt_keepNotifications = JUndef\<rparr>)\<^sup>*\<^sup>* \<lparr>notifications = [], app_tokens = [], id_seq = 0, heap = (\<lambda>_. JObj []), next_addr = 1,
      sent = [], inflight = [\<lparr>rq_gateway = JStr ''https://gw'', rq_service = ''apn'', rq_token = JStr ''tokA'', rq_notif = 0, rq_tries = 0\<rparr>], timers = []\<rparr> (fire_timer \<lparr>opt_apn = JUndef, opt_gcm = JUndef, opt_gateways = JArr [JStr ''https://gw''],
      opt_uniqueId = JUndef, opt_getAuthorization = None, opt_sendTimeout = 60000,
      opt_sendInterval = JUndef, opt_sendBatchSize = JUndef, opt_keepNotifications = JUndef\<rparr> (100, \<lparr>rq_gateway = JStr ''https://gw'', rq_service = ''apn'', rq_token = JStr ''tokA'', rq_notif = 0, rq_tries = 1\<rparr>) (relay_callback HttpNetError \<lparr>rq_gateway = JStr ''https://gw'', rq_service = ''apn'', rq_token = JStr ''tokA'', rq_notif = 0, rq_tries = 0\<rparr> \<lparr>notifications = [], app_tokens = [], id_seq = 0, heap = (\<lambda>_. JObj []), next_addr = 1,
      sent = [], inflight = [\<lparr>rq_gateway = JStr ''https://gw'', rq_service = ''apn'', rq_token = JStr ''tokA'', rq_notif = 0, rq_tries = 0\<rparr>], timers = []\<rparr>))"
    using s1 s2 by (meson converse_rtranclp_into_rtranclp r_into_rtranclp)
  then show ?thesis
    by (rule relay_posts_bounded [where r = "\<lparr>rq_gateway = JStr ''https://gw'', rq_service = ''apn'', rq_token = JStr ''tokA'', rq_notif = 0, rq_tries = 0\<rparr>", rotated 3]) simp_all
qed

text \<open>
  C9. Every run of the relay's callbacks and timers is finite: started from a well-formed
  state (posts in flight with at most 7 tries, scheduled retries as the callback makes
  them), the steps among the states it can reach admit no infinite chain, whatever the
  relay answers and in whatever order callbacks and timers run.
\<close>

theorem relay_terminates:
  assumes "relay_wf w0"
  shows "wfp (\<lambda>w' w. (relay_step options)\<^sup>*\<^sup>* w0 w \<and> relay_step options w w')"
proof -
  have "{(w', w). (relay_step options)\<^sup>*\<^sup>* w0 w \<and> relay_step options w w'} \<subseteq> measure relay_measure"
    using relay_steps_bound [OF _ assms] relay_step_potential by fastforce
  then show ?thesis unfolding wfp_def by (rule wf_subset [OF wf_measure])
qed

theorem relay_terminates_witness:
  "relay_wf \<lparr>notifications = [], app_tokens = [], id_seq = 0, heap = (\<lambda>_. JObj []), next_addr = 1,
      sent = [], inflight = [\<lparr>rq_gateway = JStr ''https://gw'', rq_service = ''apn'', rq_token = JStr ''tokA'',
                            rq_notif = 0, rq_tries = 0\<rparr>], timers = []\<rparr> \<and>
   wfp (\<lambda>w' w. (relay_step \<lparr>opt_apn = JUndef, opt_gcm = JUndef, opt_gateways = JArr [JStr ''https://gw''],
      opt_uniqueId = JUndef, opt_getAuthorization = None, opt_sendTimeout = 60000,
      opt_sendInterval = JUndef, opt_sendBatchSize = JUndef, opt_keepNotifications = JUndef\<rparr>)\<^sup>*\<^sup>*
        \<lparr>notifications = [], app_tokens = [], id_seq = 0, heap = (\<lambda>_. JObj []), next_addr = 1,
         sent = [], inflight = [\<lparr>rq_gateway = JStr ''https://gw'', rq_service = ''apn'', rq_token = JStr ''tokA'',
                               rq_notif = 0, rq_tries = 0\<rparr>], timers = []\<rparr> w \<and>
      relay_step \<lparr>opt_apn = JUndef, opt_gcm = JUndef, opt_gateways = JArr [JStr ''https://gw''],
      opt_uniqueId = JUndef, opt_getAuthorization = None, opt_sendTimeout = 60000,
      opt_sendInterval = JUndef, opt_sendBatchSize = JUndef, opt_keepNotifications = JUndef\<rparr> w w')"
proof -
  have wf: "relay_wf \<lparr>notifications = [], app_tokens = [], id_seq = 0, heap = (\<lambda>_. JObj []), next_addr = 1,
      sent = [], inflight = [\<lparr>rq_gateway = JStr ''https://gw'', rq_service = ''apn'', rq_token = JStr ''tokA'',
                            rq_notif = 0, rq_tries = 0\<rparr>], timers = []\<rparr>"
    by (simp add: relay_wf_def)
  show ?thesis using wf relay_terminates [OF wf] by blast
qed

text \<open>
  C10. Eight attempts, not seven: when every attempt fails, the chain started by one post
  makes exactly 7 retries, 8 posts in all, and then goes quiet (the spec counts 7 attempts).
\<close>

theorem relay_eight_attempts:
  assumes "inflight w = [r]" and "rq_tries r = 0" and "timers w = []"
  shows "\<exists>w'. (relay_step options)\<^sup>*\<^sup>* w w' \<and> posts w' = posts w + 7 \<and>
              inflight w' = [] \<and> timers w' = []"
  using relay_all_fail_run [OF assms(1,3)] assms(2) by simp

theorem relay_eight_attempts_witness:
  "\<exists>w'. (relay_step \<lparr>opt_apn = JUndef, opt_gcm = JUndef, opt_gateways = JArr [JStr ''https://gw''],
      opt_uniqueId = JUndef, opt_getAuthorization = None, opt_sendTimeout = 60000,
      opt_sendInterval = JUndef, opt_sendBatchSize = JUndef, opt_keepNotifications = JUndef\<rparr>)\<^sup>*\<^sup>* \<lparr>notifications = [], app_tokens = [], id_seq = 0, heap = (\<lambda>_. JObj []), next_addr = 1,
      sent = [], inflight = [\<lparr>rq_gateway = JStr ''https://gw'', rq_service = ''apn'', rq_token = JStr ''tokA'',
                            rq_notif = 0, rq_tries = 0\<rparr>], timers = []\<rparr> w' \<and> posts w' = 7"
  using relay_eight_attempts [where options = "\<lparr>opt_apn = JUndef, opt_gcm = JUndef, opt_gateways = JArr [JStr ''https://gw''],
      opt_uniqueId = JUndef, opt_getAuthorization = None, opt_sendTimeout = 60000,
      opt_sendInterval = JUndef, opt_sendBatchSize = JUndef, opt_keepNotifications = JUndef\<rparr>" and r = "\<lparr>rq_gateway = JStr ''https://gw'', rq_service = ''apn'',
       rq_token = JStr ''tokA'', rq_notif = 0, rq_tries = 0\<rparr>" and w = "\<lparr>notifications = [], app_tokens = [], id_seq = 0, heap = (\<lambda>_. JObj []), next_addr = 1,
      sent = [], inflight = [\<lparr>rq_gateway = JStr ''https://gw'', rq_service = ''apn'', rq_token = JStr ''tokA'',
                            rq_notif = 0, rq_tries = 0\<rparr>], timers = []\<rparr>"] by (auto simp: posts_def)

end
