(* ===== verification/Router.thy ===== *)
theory Router
  imports Relay
begin

text \<open>
  The delivery router: \<open>serverSend\<close> (push.js lines 251--257) chooses between the native
  path \<open>serverSendNative\<close> (lines 94--160), which builds a selector over the token
  directory from the notification's \<open>token\<close>/\<open>tokens\<close> or \<open>query\<close> and hands it to
  \<open>_querySend\<close> (lines 41--92), and the relay path \<open>serverSendGateway\<close> (lines 208--249),
  which runs the notification's \<open>query\<close> once per configured gateway and calls
  \<open>sendGatewayPush\<close> for every matching app. A JavaScript exception is an \<open>Inl\<close> result;
  the world returned with it keeps every send made before the throw, as the code does.
  The developer-guidance logging of \<open>_querySend\<close> (lines 68--86) only reads the store and
  is not modelled.
\<close>

section \<open>Selectors\<close>

definition has_token_clause :: jsval where
  "has_token_clause =
     JObj [(''$or'', JArr [JObj [(''token.apn'', JObj [(''$exists'', JBool True)])],
                          JObj [(''token.gcm'', JObj [(''$exists'', JBool True)])]])]"

definition enabled_clause :: jsval where
  "enabled_clause = JObj [(''enabled'', JObj [(''$ne'', JBool False)])]"

text \<open>Lines 117--138: a token list matches app tokens, or app ids.\<close>

definition token_mode_selector :: "jsval \<Rightarrow> jsval" where
  "token_mode_selector tokenList =
     JObj [(''$or'', JArr [
        JObj [(''$and'', JArr [JObj [(''token'', JObj [(''$in'', tokenList)])], enabled_clause])],
        JObj [(''$and'', JArr [JObj [(''_id'', JObj [(''$in'', tokenList)])], has_token_clause,
                              enabled_clause])]])]"

text \<open>Lines 142--152: the caller's selector, restricted to enabled apps with a token.\<close>

definition query_mode_selector :: "jsval \<Rightarrow> jsval" where
  "query_mode_selector query = JObj [(''$and'', JArr [query, has_token_clause, enabled_clause])]"

text \<open>Lines 222--234: the gateway path's selector (no \<open>enabled\<close> clause).\<close>

definition gateway_selector :: "jsval \<Rightarrow> jsval" where
  "gateway_selector query = JObj [(''$and'', JArr [query, has_token_clause])]"

section \<open>_querySend\<close>

text \<open>
  The loop of lines 45--66 over the matching apps: count the app under its platform, send
  when the platform is configured, throw on an app with neither token.
\<close>

fun query_send_loop ::
  "push_options \<Rightarrow> jsval \<Rightarrow> jsval list \<Rightarrow> jsval list \<Rightarrow> jsval list \<Rightarrow> world \<Rightarrow>
     (jsval list \<times> jsval list) js_result \<times> world" where
  "query_send_loop options notification [] countApn countGcm w = (Inr (countApn, countGcm), w)"
| "query_send_loop options notification (app # apps) countApn countGcm w =
     (case js_prop app ''token'' of
        Inl e \<Rightarrow> (Inl e, w)
      | Inr tok \<Rightarrow>
          (case js_prop tok ''apn'' of
             Inl e \<Rightarrow> (Inl e, w)
           | Inr apn \<Rightarrow>
              if truthy apn then
                query_send_loop options notification apps (countApn @ [js_get app ''_id'']) countGcm
                  (if truthy (opt_apn options) then w\<lparr>sent := sent w @ [SendAPN apn notification]\<rparr> else w)
              else
                (case js_prop tok ''gcm'' of
                   Inl e \<Rightarrow> (Inl e, w)
                 | Inr gcm \<Rightarrow>
                    if truthy gcm then
                      query_send_loop options notification apps countApn (countGcm @ [js_get app ''_id''])
                        (if truthy (opt_gcm options) \<and> truthy (js_get (opt_gcm options) ''apiKey'')
                         then w\<lparr>sent := sent w @ [SendGCM gcm notification]\<rparr> else w)
                    else (Inl (Error ''send got a faulty query''), w))))"

definition query_send :: "jsval \<Rightarrow> jsval \<Rightarrow> push_options \<Rightarrow> world \<Rightarrow> jsval js_result \<times> world" where
  "query_send query notification options w =
     (case coll_find query (app_tokens w) of
        Inl e \<Rightarrow> (Inl e, w)
      | Inr apps \<Rightarrow>
          (case query_send_loop options notification apps [] [] w of
             (Inl e, w') \<Rightarrow> (Inl e, w')
           | (Inr (countApn, countGcm), w') \<Rightarrow>
               (Inr (JObj [(''apn'', JArr countApn), (''gcm'', JArr countGcm)]), w')))"

section \<open>serverSendNative\<close>

definition server_send_native :: "jsval \<Rightarrow> push_options \<Rightarrow> world \<Rightarrow> jsval js_result \<times> world" where
  "server_send_native notification0 options w =
     (let notification = (if truthy notification0 then notification0 else JObj [(''badge'', JNum 0)]) in
      if \<not> is_js_string (js_get notification ''from'') then (Inl (Error ''send: option \"from\" not a string''), w)
      else if \<not> is_js_string (js_get notification ''title'') then (Inl (Error ''send: option \"title\" not a string''), w)
      else if \<not> is_js_string (js_get notification ''text'') then (Inl (Error ''send: option \"text\" not a string''), w)
      else if truthy (js_get notification ''token'') \<or> truthy (js_get notification ''tokens'') then
        (let tokenList = (if truthy (js_get notification ''token'') then JArr [js_get notification ''token'']
                          else js_get notification ''tokens'')
         in query_send (token_mode_selector tokenList) notification options w)
      else if truthy (js_get notification ''query'') then
        query_send (query_mode_selector (js_get notification ''query'')) notification options w
      else (Inl (Error ''send: please set option \"token\"/\"tokens\" or \"query\"''), w))"

section \<open>serverSendGateway\<close>

text \<open>
  The loop of lines 236--247 over the matching apps, for one gateway: an APN app first
  gets \<open>notification.topic = app.appName\<close> on the shared object.
\<close>

fun gateway_apps_loop ::
  "push_options \<Rightarrow> jsval \<Rightarrow> nat \<Rightarrow> jsval list \<Rightarrow> world \<Rightarrow> unit js_result \<times> world" where
  "gateway_apps_loop options gateway addr [] w = (Inr (), w)"
| "gateway_apps_loop options gateway addr (app # apps) w =
     (case js_prop app ''token'' of
        Inl e \<Rightarrow> (Inl e, w)
      | Inr tok \<Rightarrow>
          (case js_prop tok ''apn'' of
             Inl e \<Rightarrow> (Inl e, w)
           | Inr apn \<Rightarrow>
              if truthy apn then
                gateway_apps_loop options gateway addr apps
                  (send_gateway_push options gateway ''apn'' apn addr 0
                     (w\<lparr>heap := (heap w)(addr := js_put (heap w addr) ''topic'' (js_get app ''appName''))\<rparr>))
              else
                (case js_prop tok ''gcm'' of
                   Inl e \<Rightarrow> (Inl e, w)
                 | Inr gcm \<Rightarrow>
                    if truthy gcm then
                      gateway_apps_loop options gateway addr apps
                        (send_gateway_push options gateway ''gcm'' gcm addr 0 w)
                    else gateway_apps_loop options gateway addr apps w)))"

text \<open>The loop of lines 209--248 over \<open>options.gateways\<close>, checks repeated per gateway.\<close>

fun gateway_loop :: "push_options \<Rightarrow> nat \<Rightarrow> jsval list \<Rightarrow> world \<Rightarrow> unit js_result \<times> world" where
  "gateway_loop options addr [] w = (Inr (), w)"
| "gateway_loop options addr (gateway # gateways) w =
     (let notification = heap w addr in
      if \<not> is_js_string (js_get notification ''from'') then (Inl (Error ''Push.send: option \"from\" not a string''), w)
      else if \<not> is_js_string (js_get notification ''title'') then (Inl (Error ''Push.send: option \"title\" not a string''), w)
      else if \<not> is_js_string (js_get notification ''text'') then (Inl (Error ''Push.send: option \"text\" not a string''), w)
      else
        (case coll_find (gateway_selector (js_get notification ''query'')) (app_tokens w) of
           Inl e \<Rightarrow> (Inl e, w)
         | Inr apps \<Rightarrow>
             (case gateway_apps_loop options gateway addr apps w of
                (Inl e, w') \<Rightarrow> (Inl e, w')
              | (Inr (), w') \<Rightarrow> gateway_loop options addr gateways w')))"

text \<open>
  \<open>for (const gateway of options.gateways)\<close>: an array is iterated by element, a string by
  character; anything else is not iterable. The function returns \<open>undefined\<close>.
\<close>

definition server_send_gateway :: "nat \<Rightarrow> push_options \<Rightarrow> world \<Rightarrow> jsval js_result \<times> world" where
  "server_send_gateway addr options w0 =
     (let w = (if heap w0 addr = JUndef then w0\<lparr>heap := (heap w0)(addr := JObj [(''badge'', JNum 0)])\<rparr>
               else w0);
          gws = (case opt_gateways options of
                   JArr gs \<Rightarrow> Some gs
                 | JStr cs \<Rightarrow> Some (map (\<lambda>c. JStr [c]) cs)
                 | _ \<Rightarrow> None)
      in case gws of
           None \<Rightarrow> (Inl (TypeError ''options.gateways is not iterable''), w)
         | Some gs \<Rightarrow>
             (case gateway_loop options addr gs w of
                (Inl e, w') \<Rightarrow> (Inl e, w')
              | (Inr (), w') \<Rightarrow> (Inr JUndef, w')))"

section \<open>serverSend\<close>

text \<open>The notification is the object at \<open>addr\<close>; the native path reads it, the relay path shares it.\<close>

definition server_send :: "nat \<Rightarrow> push_options \<Rightarrow> world \<Rightarrow> jsval js_result \<times> world" where
  "server_send addr options w =
     (if truthy (opt_gateways options) then server_send_gateway addr options w
      else server_send_native (heap w addr) options w)"

section \<open>Lemmas\<close>

lemma sel_has_token [mongo_simps]:
  "sel_match a has_token_clause \<longleftrightarrow>
     js_get (js_get a ''token'') ''apn'' \<noteq> JUndef \<or> js_get (js_get a ''token'') ''gcm'' \<noteq> JUndef"
  by (simp add: has_token_clause_def split_path_def)

lemma sel_enabled [mongo_simps]:
  "sel_match a enabled_clause \<longleftrightarrow> js_get a ''enabled'' \<noteq> JBool False"
  by (simp add: enabled_clause_def split_path_def eq_match_def)

lemma sel_ok_clauses [mongo_simps]: "sel_ok has_token_clause" "sel_ok enabled_clause"
  by (simp_all add: has_token_clause_def enabled_clause_def)

lemma sel_query_mode [mongo_simps]:
  "sel_ok (query_mode_selector q) \<longleftrightarrow> sel_ok q"
  "sel_match a (query_mode_selector q) \<longleftrightarrow>
     sel_match a q \<and> sel_match a has_token_clause \<and> sel_match a enabled_clause"
  by (simp_all add: query_mode_selector_def sel_ok_clauses del: sel_match.simps)
     (simp_all add: has_token_clause_def enabled_clause_def)

lemma sel_gateway [mongo_simps]:
  "sel_ok (gateway_selector q) \<longleftrightarrow> sel_ok q"
  "sel_match a (gateway_selector q) \<longleftrightarrow> sel_match a q \<and> sel_match a has_token_clause"
  by (simp_all add: gateway_selector_def has_token_clause_def)


lemma eq_match_token:
  "mtest match_token t \<Longrightarrow> eq_match fv t \<longleftrightarrow> fv = t"
  using token_not_op [of t] by (auto simp: eq_match_def)

section \<open>Properties of the router\<close>

text \<open>
  C11. The delivery counts of \<open>_querySend\<close> (stored as \<open>count\<close> in keep mode) do not
  depend on which platforms are configured, nor on the world the sends go to: an app is
  counted under its platform whether or not anything is sent to it.
\<close>

theorem native_counts_ignore_config:
  "fst (query_send_loop options1 n apps ca cg w1) = fst (query_send_loop options2 n apps ca cg w2)"
proof (induction apps arbitrary: ca cg w1 w2)
  case Nil
  then show ?case by simp
next
  case (Cons app apps)
  then show ?case by (simp split: sum.splits)
qed

text \<open>
  C12. In token mode the second branch of the selector, \<open>_id $in tokens\<close>, never matches:
  tokens that pass \<open>_matchToken\<close> are objects and app ids are strings, so an app is
  selected exactly when its token is one of the list and it is not disabled.
\<close>

theorem token_mode_ignores_ids:
  assumes "list_all (mtest match_token) ts" and "js_get a ''_id'' = JStr s"
  shows "sel_ok (token_mode_selector (JArr ts)) \<and>
         (sel_match a (token_mode_selector (JArr ts)) \<longleftrightarrow>
            js_get a ''token'' \<in> set ts \<and> js_get a ''enabled'' \<noteq> JBool False)"
proof -
  have tok: "(\<exists>v \<in> set ts. eq_match fv v) \<longleftrightarrow> fv \<in> set ts" for fv
    using assms(1) by (auto simp: list_all_iff eq_match_token)
  have ids: "\<not> (\<exists>v \<in> set ts. eq_match (JStr s) v)"
    using assms(1) token_not_op by (fastforce simp: list_all_iff eq_match_token)
  show ?thesis
    using tok [of "js_get a ''token''"] ids assms(2)
    by (simp add: token_mode_selector_def split_path_def sel_enabled sel_ok_clauses)
qed

lemma token_mode_ignores_ids_witness:
  "sel_ok (token_mode_selector (JArr [JObj [(''apn'', JStr ''t'')]])) \<and>
   \<not> sel_match (JObj [(''_id'', JStr ''t''), (''token'', JObj [(''gcm'', JStr ''g'')])])
       (token_mode_selector (JArr [JObj [(''apn'', JStr ''t'')]]))"
  using token_mode_ignores_ids [of "[JObj [(''apn'', JStr ''t'')]]"
      "JObj [(''_id'', JStr ''t''), (''token'', JObj [(''gcm'', JStr ''g'')])]" "''t''"]
  by (simp add: match_token_def)

text \<open>
  C13. In query mode the router targets exactly the apps that match the caller's selector,
  hold an APN or a GCM token, and are not disabled.
\<close>

theorem query_mode_targets:
  assumes "sel_ok q"
  shows "coll_find (query_mode_selector q) apps =
           Inr [a \<leftarrow> apps. sel_match a q \<and>
                  (js_get (js_get a ''token'') ''apn'' \<noteq> JUndef \<or> js_get (js_get a ''token'') ''gcm'' \<noteq> JUndef) \<and>
                  js_get a ''enabled'' \<noteq> JBool False]"
  using assms by (simp add: coll_find_def sel_query_mode sel_has_token sel_enabled del: sel_match.simps)

lemma query_mode_targets_witness:
  "coll_find (query_mode_selector (JObj [(''appName'', JStr ''x'')]))
      [JObj [(''_id'', JStr ''A''), (''appName'', JStr ''x''), (''token'', JObj [(''apn'', JStr ''a'')])],
                JObj [(''_id'', JStr ''B''), (''appName'', JStr ''x''), (''token'', JObj [(''gcm'', JStr ''b'')]), (''enabled'', JBool False)],
                JObj [(''_id'', JStr ''C''), (''appName'', JStr ''x'')]] = Inr [JObj [(''_id'', JStr ''A''), (''appName'', JStr ''x''), (''token'', JObj [(''apn'', JStr ''a'')])]]"
  using query_mode_targets [of "JObj [(''appName'', JStr ''x'')]" "[JObj [(''_id'', JStr ''A''), (''appName'', JStr ''x''), (''token'', JObj [(''apn'', JStr ''a'')])],
                JObj [(''_id'', JStr ''B''), (''appName'', JStr ''x''), (''token'', JObj [(''gcm'', JStr ''b'')]), (''enabled'', JBool False)],
                JObj [(''_id'', JStr ''C''), (''appName'', JStr ''x'')]]"]
  by (simp add: split_path_def eq_match_def)

text \<open>
  C14. In relay mode a notification addressed by \<open>token\<close>/\<open>tokens\<close> and without a
  \<open>query\<close> is not delivered: the selector \<open>{$and: [undefined, ...]}\<close> is rejected by the
  store before any request is made, and the world is unchanged.
\<close>

theorem gateway_needs_query:
  assumes "opt_gateways options = JArr (g # gs)"
    and "is_js_string (js_get (heap w addr) ''from'')" and "is_js_string (js_get (heap w addr) ''title'')"
    and "is_js_string (js_get (heap w addr) ''text'')" and "js_get (heap w addr) ''query'' = JUndef"
  shows "server_send addr options w = (Inl bad_selector, w)"
proof -
  have "heap w addr \<noteq> JUndef" using assms(2) by auto
  then show ?thesis
    using assms by (simp add: server_send_def server_send_gateway_def coll_find_def sel_gateway)
qed

lemma gateway_needs_query_witness:
  "server_send 0 \<lparr>opt_apn = JUndef, opt_gcm = JUndef, opt_gateways = JArr [JStr ''https://gw''],
      opt_uniqueId = JUndef, opt_getAuthorization = None, opt_sendTimeout = 60000,
      opt_sendInterval = JUndef, opt_sendBatchSize = JUndef, opt_keepNotifications = JUndef\<rparr> \<lparr>notifications = [], app_tokens = [], id_seq = 0,
      heap = (\<lambda>_. JObj [(''from'', JStr ''app''), (''title'', JStr ''Hi''), (''text'', JStr ''body''),
                         (''token'', JObj [(''apn'', JStr ''t'')])]),
      next_addr = 1, sent = [], inflight = [], timers = []\<rparr> = (Inl bad_selector, \<lparr>notifications = [], app_tokens = [], id_seq = 0,
      heap = (\<lambda>_. JObj [(''from'', JStr ''app''), (''title'', JStr ''Hi''), (''text'', JStr ''body''),
                         (''token'', JObj [(''apn'', JStr ''t'')])]),
      next_addr = 1, sent = [], inflight = [], timers = []\<rparr>)"
  using gateway_needs_query [where options = "\<lparr>opt_apn = JUndef, opt_gcm = JUndef, opt_gateways = JArr [JStr ''https://gw''],
      opt_uniqueId = JUndef, opt_getAuthorization = None, opt_sendTimeout = 60000,
      opt_sendInterval = JUndef, opt_sendBatchSize = JUndef, opt_keepNotifications = JUndef\<rparr>" and w = "\<lparr>notifications = [], app_tokens = [], id_seq = 0,
      heap = (\<lambda>_. JObj [(''from'', JStr ''app''), (''title'', JStr ''Hi''), (''text'', JStr ''body''),
                         (''token'', JObj [(''apn'', JStr ''t'')])]),
      next_addr = 1, sent = [], inflight = [], timers = []\<rparr>" and addr = 0 and g = "JStr ''https://gw''" and gs = "[]"]
  by simp

text \<open>
  C15. In relay mode the router targets the apps that match the query and hold a token,
  disabled apps included: the \<open>enabled\<close> clause of the native path is missing.
\<close>

theorem gateway_targets:
  assumes "sel_ok q"
  shows "coll_find (gateway_selector q) apps =
           Inr [a \<leftarrow> apps. sel_match a q \<and>
                  (js_get (js_get a ''token'') ''apn'' \<noteq> JUndef \<or> js_get (js_get a ''token'') ''gcm'' \<noteq> JUndef)]"
  using assms by (simp add: coll_find_def sel_gateway sel_has_token del: sel_match.simps)

lemma gateway_targets_witness:
  "coll_find (gateway_selector (JObj [(''appName'', JStr ''x'')]))
      [JObj [(''_id'', JStr ''A''), (''appName'', JStr ''x''), (''token'', JObj [(''apn'', JStr ''a'')])],
                JObj [(''_id'', JStr ''B''), (''appName'', JStr ''x''), (''token'', JObj [(''gcm'', JStr ''b'')]), (''enabled'', JBool False)],
                JObj [(''_id'', JStr ''C''), (''appName'', JStr ''x'')]] = Inr [JObj [(''_id'', JStr ''A''), (''appName'', JStr ''x''), (''token'', JObj [(''apn'', JStr ''a'')])],
                JObj [(''_id'', JStr ''B''), (''appName'', JStr ''x''), (''token'', JObj [(''gcm'', JStr ''b'')]), (''enabled'', JBool False)]]"
  using gateway_targets [of "JObj [(''appName'', JStr ''x'')]" "[JObj [(''_id'', JStr ''A''), (''appName'', JStr ''x''), (''token'', JObj [(''apn'', JStr ''a'')])],
                JObj [(''_id'', JStr ''B''), (''appName'', JStr ''x''), (''token'', JObj [(''gcm'', JStr ''b'')]), (''enabled'', JBool False)],
                JObj [(''_id'', JStr ''C''), (''appName'', JStr ''x'')]]"]
  by (simp add: split_path_def eq_match_def)

end
