(* ===== verification/Json.thy ===== *)
theory Json
  imports JsValue
begin

text \<open>
  \<open>JSON.stringify\<close> and \<open>JSON.parse\<close> on the values of the model. \<open>send\<close> stores a
  notification's \<open>query\<close> selector as \<open>JSON.stringify(options.query)\<close> (push.js line 505)
  and the worker turns it back with \<open>JSON.parse\<close> (line 339). Strings are byte strings
  here (Isabelle's \<open>char\<close>), so a \<open>\u\<close> escape is read only up to character 255, and numbers
  are integers, so a number literal with a fraction or an exponent is outside the model
  and the parser rejects it. Dates go through \<open>Date.prototype.toJSON\<close>: the ISO string
  of the time value, or \<open>null\<close> for a time value outside the range a \<open>Date\<close> can hold.
\<close>

section \<open>JSON.stringify\<close>

definition hex_digit :: "nat \<Rightarrow> char" where
  "hex_digit n = (if n < 10 then char_of (48 + n) else char_of (87 + n))"

text \<open>
  QuoteJSONString: the two-character escapes for backspace, tab, newline, form feed,
  carriage return, quote and backslash, \<open>\u00XX\<close> for the other control characters.
\<close>

definition json_escape_char :: "char \<Rightarrow> string" where
  "json_escape_char c =
     (let n = of_char c :: nat; bsl = CHR 0x5C in
      if c = CHR 0x22 then [bsl, CHR 0x22]
      else if c = bsl then [bsl, bsl]
      else if n = 8 then [bsl, CHR ''b'']
      else if n = 9 then [bsl, CHR ''t'']
      else if n = 10 then [bsl, CHR ''n'']
      else if n = 12 then [bsl, CHR ''f'']
      else if n = 13 then [bsl, CHR ''r'']
      else if n < 32 then [bsl, CHR ''u'', CHR ''0'', CHR ''0'', hex_digit (n div 16), hex_digit (n mod 16)]
      else [c])"

definition json_quote :: "string \<Rightarrow> string" where
  "json_quote s = CHR 0x22 # concat (map json_escape_char s) @ [CHR 0x22]"

text \<open>Zero-padded decimal of a natural number.\<close>

definition pad_nat :: "nat \<Rightarrow> nat \<Rightarrow> string" where
  "pad_nat w n = (let s = nat_str n in replicate (w - length s) (CHR ''0'') @ s)"

text \<open>
  Days since the epoch to the proleptic Gregorian (year, month, day), in 400-year eras
  (the civil-from-days computation; \<open>div\<close> rounds towards minus infinity).
\<close>

definition civil_from_days :: "int \<Rightarrow> int \<times> int \<times> int" where
  "civil_from_days days =
     (let z = days + 719468;
          era = z div 146097;
          doe = z - era * 146097;
          yoe = (doe - doe div 1460 + doe div 36524 - doe div 146096) div 365;
          doy = doe - (365 * yoe + yoe div 4 - yoe div 100);
          mp = (5 * doy + 2) div 153;
          d = doy - (153 * mp + 2) div 5 + 1;
          m = (if mp < 10 then mp + 3 else mp - 9);
          y = yoe + era * 400 + (if m \<le> 2 then 1 else 0)
      in (y, m, d))"

text \<open>\<open>Date.prototype.toISOString\<close>: \<open>YYYY-MM-DDTHH:mm:ss.sssZ\<close>, six-digit signed years outside 0..9999.\<close>

definition iso_string :: "timestamp \<Rightarrow> string" where
  "iso_string t =
     (let (y, m, d) = civil_from_days (t div 86400000);
          r = nat (t mod 86400000);
          year = (if 0 \<le> y \<and> y \<le> 9999 then pad_nat 4 (nat y)
                  else (if y < 0 then ''-'' else ''+'') @ pad_nat 6 (nat \<bar>y\<bar>))
      in year @ ''-'' @ pad_nat 2 (nat m) @ ''-'' @ pad_nat 2 (nat d) @ ''T'' @
         pad_nat 2 (r div 3600000) @ '':'' @ pad_nat 2 (r div 60000 mod 60) @ '':'' @
         pad_nat 2 (r div 1000 mod 60) @ ''.'' @ pad_nat 3 (r mod 1000) @ ''Z'')"

text \<open>The largest time value a \<open>Date\<close> holds, in milliseconds either side of the epoch.\<close>

definition max_time :: int where
  "max_time = 8640000000000000"

text \<open>The members of an array or object, separated by commas.\<close>

fun json_join :: "string list \<Rightarrow> string" where
  "json_join [] = []"
| "json_join [s] = s"
| "json_join (s # ss) = s @ '','' @ json_join ss"

text \<open>
  SerializeJSONProperty: \<open>None\<close> is the result \<open>undefined\<close> (for \<open>undefined\<close> itself); an
  array writes it as \<open>null\<close>, an object leaves the key out.
\<close>

fun json_stringify :: "jsval \<Rightarrow> string option" where
  "json_stringify JUndef = None"
| "json_stringify JNull = Some ''null''"
| "json_stringify (JBool b) = Some (if b then ''true'' else ''false'')"
| "json_stringify (JNum n) = Some (js_template (JNum n))"
| "json_stringify (JStr s) = Some (json_quote s)"
| "json_stringify (JDate t) = Some (if \<bar>t\<bar> \<le> max_time then json_quote (iso_string t) else ''null'')"
| "json_stringify (JArr vs) =
     Some (''['' @ json_join (map (\<lambda>v. case json_stringify v of None \<Rightarrow> ''null'' | Some s \<Rightarrow> s) vs) @ '']'')"
| "json_stringify (JObj kvs) =
     Some (''{'' @ json_join
             (concat (map (\<lambda>(k, v). case json_stringify v of None \<Rightarrow> [] | Some s \<Rightarrow> [json_quote k @ '':'' @ s]) kvs))
           @ ''}'')"

section \<open>JSON.parse\<close>

text \<open>
  The parser reads the text as a list of tokens and builds the value with an explicit
  stack of open arrays and objects, one token at a time. A syntax error (JSON.parse
  throws a SyntaxError) is \<open>None\<close>.
\<close>

datatype jtok = TLBrace | TRBrace | TLBrack | TRBrack | TComma | TColon
  | TStr string | TNum int | TTrue | TFalse | TNull

definition json_ws :: "char \<Rightarrow> bool" where
  "json_ws c \<longleftrightarrow> c = CHR 0x20 \<or> c = CHR 0x09 \<or> c = CHR 0x0A \<or> c = CHR 0x0D"

definition json_digit :: "char \<Rightarrow> bool" where
  "json_digit c \<longleftrightarrow> (48::nat) \<le> of_char c \<and> (of_char c :: nat) \<le> 57"

definition hex_val :: "char \<Rightarrow> nat option" where
  "hex_val c =
     (let n = of_char c :: nat in
      if 48 \<le> n \<and> n \<le> 57 then Some (n - 48)
      else if 97 \<le> n \<and> n \<le> 102 then Some (n - 87)
      else if 65 \<le> n \<and> n \<le> 70 then Some (n - 55)
      else None)"

text \<open>The code unit of a \<open>\uXXXX\<close> escape, when it is a character of the model.\<close>

definition hex4 :: "char \<Rightarrow> char \<Rightarrow> char \<Rightarrow> char \<Rightarrow> char option" where
  "hex4 a b c d =
     (case (hex_val a, hex_val b, hex_val c, hex_val d) of
        (Some x1, Some x2, Some x3, Some x4) \<Rightarrow>
          (let n = 4096 * x1 + 256 * x2 + 16 * x3 + x4 in if n < 256 then Some (char_of n) else None)
      | _ \<Rightarrow> None)"

text \<open>The character a two-character escape \<open>\\e\<close> stands for.\<close>

definition simple_escape :: "char \<Rightarrow> char option" where
  "simple_escape e =
     (if e = CHR 0x22 \<or> e = CHR 0x5C \<or> e = CHR ''/'' then Some e
      else if e = CHR ''b'' then Some (char_of (8::nat))
      else if e = CHR ''t'' then Some (char_of (9::nat))
      else if e = CHR ''n'' then Some (char_of (10::nat))
      else if e = CHR ''f'' then Some (char_of (12::nat))
      else if e = CHR ''r'' then Some (char_of (13::nat))
      else None)"

text \<open>The body of a string literal after its opening quote: its value and the rest.\<close>

fun lex_str :: "string \<Rightarrow> string \<Rightarrow> (string \<times> string) option" where
  "lex_str acc [] = None"
| "lex_str acc [c] = (if c = CHR 0x22 then Some (rev acc, []) else None)"
| "lex_str acc (c # e # cs) =
     (if c = CHR 0x22 then Some (rev acc, e # cs)
      else if c = CHR 0x5C then
        (case simple_escape e of
           Some x \<Rightarrow> lex_str (x # acc) cs
         | None \<Rightarrow>
             if e = CHR ''u'' then
               (case cs of
                  a # b # c # d # rest \<Rightarrow>
                    (case hex4 a b c d of None \<Rightarrow> None | Some x \<Rightarrow> lex_str (x # acc) rest)
                | _ \<Rightarrow> None)
             else None)
      else if (of_char c :: nat) < 32 then None
      else lex_str (c # acc) (e # cs))"

definition digits_val :: "string \<Rightarrow> nat" where
  "digits_val ds = foldl (\<lambda>n c. 10 * n + (of_char c - 48)) 0 ds"

text \<open>
  A number literal: an optional minus, then \<open>0\<close> or a digit string without a leading zero.
  A fraction or an exponent makes a number the model does not hold: rejected.
\<close>

definition lex_unsigned :: "bool \<Rightarrow> string \<Rightarrow> (int \<times> string) option" where
  "lex_unsigned neg s1 =
     (let ds = takeWhile json_digit s1; rest = dropWhile json_digit s1
      in if ds = [] \<or> (hd ds = CHR ''0'' \<and> 1 < length ds) then None
         else if rest \<noteq> [] \<and> hd rest \<in> {CHR ''.'', CHR ''e'', CHR ''E''} then None
         else Some ((if neg then - 1 else 1) * int (digits_val ds), rest))"

fun lex_num :: "string \<Rightarrow> (int \<times> string) option" where
  "lex_num [] = None"
| "lex_num (c # cs) = (if c = CHR ''-'' then lex_unsigned True cs else lex_unsigned False (c # cs))"

lemma lex_str_shorter: "lex_str acc cs = Some (s, r) \<Longrightarrow> length r < length cs"
proof (induction acc cs rule: lex_str.induct)
  case (3 acc c e cs)
  then show ?case
    by (auto split: if_splits option.splits list.splits) (metis less_SucI)
qed (auto split: if_splits)

lemma lex_unsigned_shorter: "lex_unsigned neg s = Some (n, r) \<Longrightarrow> length r < length s"
proof -
  assume ok: "lex_unsigned neg s = Some (n, r)"
  then have "takeWhile json_digit s \<noteq> []" and r: "r = dropWhile json_digit s"
    by (auto simp: lex_unsigned_def Let_def split: if_splits)
  then obtain c cs where "s = c # cs" and "json_digit c" by (cases s) (auto split: if_splits)
  then show ?thesis using r length_dropWhile_le [of json_digit cs] by simp
qed

lemma lex_num_shorter: "lex_num s = Some (n, r) \<Longrightarrow> length r < length s"
  by (cases s) (auto split: if_splits dest: lex_unsigned_shorter)

function json_tokens :: "string \<Rightarrow> jtok list option" where
  "json_tokens [] = Some []"
| "json_tokens (c # cs) =
     (if json_ws c then json_tokens cs
      else if c = CHR ''{'' then map_option (Cons TLBrace) (json_tokens cs)
      else if c = CHR ''}'' then map_option (Cons TRBrace) (json_tokens cs)
      else if c = CHR ''['' then map_option (Cons TLBrack) (json_tokens cs)
      else if c = CHR '']'' then map_option (Cons TRBrack) (json_tokens cs)
      else if c = CHR '','' then map_option (Cons TComma) (json_tokens cs)
      else if c = CHR '':'' then map_option (Cons TColon) (json_tokens cs)
      else if c = CHR 0x22 then
        (case lex_str [] cs of None \<Rightarrow> None | Some (s, r) \<Rightarrow> map_option (Cons (TStr s)) (json_tokens r))
      else if c = CHR ''-'' \<or> json_digit c then
        (case lex_num (c # cs) of None \<Rightarrow> None | Some (n, r) \<Rightarrow> map_option (Cons (TNum n)) (json_tokens r))
      else if c = CHR ''t'' \<and> take 3 cs = ''rue'' then map_option (Cons TTrue) (json_tokens (drop 3 cs))
      else if c = CHR ''f'' \<and> take 4 cs = ''alse'' then map_option (Cons TFalse) (json_tokens (drop 4 cs))
      else if c = CHR ''n'' \<and> take 3 cs = ''ull'' then map_option (Cons TNull) (json_tokens (drop 3 cs))
      else None)"
  by pat_completeness auto
termination
  apply (relation "measure length")
  apply (simp_all del: lex_num.simps)
  apply (metis lex_str_shorter less_SucI)
  apply (metis lex_num_shorter length_Cons)
  done

text \<open>The open containers: an array with its elements so far (last first), an object with its members and current key.\<close>

datatype jframe = FArr "jsval list" | FObj "(string \<times> jsval) list" string

text \<open>What the parser expects next; \<open>MEnd v\<close>: the whole text was the value \<open>v\<close>.\<close>

datatype jmode = MVal | MValOrClose | MKey | MKeyOrClose | MColon | MSep | MEnd jsval

text \<open>A completed value goes into the innermost open container (an object member is assigned, as CreateDataProperty does).\<close>

fun reduce :: "jsval \<Rightarrow> jframe list \<Rightarrow> jmode \<times> jframe list" where
  "reduce v [] = (MEnd v, [])"
| "reduce v (FArr vs # fr) = (MSep, FArr (v # vs) # fr)"
| "reduce v (FObj kvs k # fr) = (MSep, FObj (assoc_set kvs k v) k # fr)"

fun close_arr :: "jframe list \<Rightarrow> (jmode \<times> jframe list) option" where
  "close_arr (FArr vs # fr) = Some (reduce (JArr (rev vs)) fr)"
| "close_arr _ = None"

fun close_obj :: "jframe list \<Rightarrow> (jmode \<times> jframe list) option" where
  "close_obj (FObj kvs k # fr) = Some (reduce (JObj kvs) fr)"
| "close_obj _ = None"

fun scalar_tok :: "jtok \<Rightarrow> jsval option" where
  "scalar_tok (TStr s) = Some (JStr s)"
| "scalar_tok (TNum n) = Some (JNum n)"
| "scalar_tok TTrue = Some (JBool True)"
| "scalar_tok TFalse = Some (JBool False)"
| "scalar_tok TNull = Some JNull"
| "scalar_tok _ = None"

fun set_key :: "string \<Rightarrow> jframe list \<Rightarrow> (jmode \<times> jframe list) option" where
  "set_key k (FObj kvs _ # fr) = Some (MColon, FObj kvs k # fr)"
| "set_key k _ = None"

definition value_start :: "jtok \<Rightarrow> jframe list \<Rightarrow> (jmode \<times> jframe list) option" where
  "value_start t fr =
     (if t = TLBrack then Some (MValOrClose, FArr [] # fr)
      else if t = TLBrace then Some (MKeyOrClose, FObj [] [] # fr)
      else map_option (\<lambda>v. reduce v fr) (scalar_tok t))"

definition key_start :: "jtok \<Rightarrow> jframe list \<Rightarrow> (jmode \<times> jframe list) option" where
  "key_start t fr = (case t of TStr k \<Rightarrow> set_key k fr | _ \<Rightarrow> None)"

fun parse_step :: "jtok \<Rightarrow> jmode \<Rightarrow> jframe list \<Rightarrow> (jmode \<times> jframe list) option" where
  "parse_step t MVal fr = value_start t fr"
| "parse_step t MValOrClose fr = (if t = TRBrack then close_arr fr else value_start t fr)"
| "parse_step t MSep fr =
     (if t = TComma then (case fr of FArr _ # _ \<Rightarrow> Some (MVal, fr) | FObj _ _ # _ \<Rightarrow> Some (MKey, fr) | [] \<Rightarrow> None)
      else if t = TRBrack then close_arr fr
      else if t = TRBrace then close_obj fr
      else None)"
| "parse_step t MKey fr = key_start t fr"
| "parse_step t MKeyOrClose fr = (if t = TRBrace then close_obj fr else key_start t fr)"
| "parse_step t MColon fr = (if t = TColon then Some (MVal, fr) else None)"
| "parse_step t (MEnd v) fr = None"

fun parse_toks :: "jtok list \<Rightarrow> jmode \<Rightarrow> jframe list \<Rightarrow> jsval option" where
  "parse_toks [] m fr = (case m of MEnd v \<Rightarrow> Some v | _ \<Rightarrow> None)"
| "parse_toks (t # ts) m fr =
     (case parse_step t m fr of None \<Rightarrow> None | Some (m', fr') \<Rightarrow> parse_toks ts m' fr')"

text \<open>\<open>JSON.parse(text)\<close>.\<close>

definition json_parse :: "string \<Rightarrow> jsval option" where
  "json_parse s = (case json_tokens s of None \<Rightarrow> None | Some ts \<Rightarrow> parse_toks ts MVal [])"


section \<open>Values that survive a round trip\<close>

text \<open>
  A value that \<open>JSON.stringify\<close> writes out in full: no \<open>undefined\<close> (dropped from
  objects, \<open>null\<close> in arrays), no \<open>Date\<close> (written as its ISO string), and distinct keys
  in each object (as a JavaScript object has).
\<close>

fun json_plain :: "jsval \<Rightarrow> bool" where
  "json_plain JUndef = False"
| "json_plain (JDate t) = False"
| "json_plain (JArr vs) = (\<forall>v \<in> set vs. json_plain v)"
| "json_plain (JObj kvs) = (distinct (map fst kvs) \<and> (\<forall>kv \<in> set kvs. json_plain (snd kv)))"
| "json_plain _ = True"

text \<open>
  A value that is plain but for \<open>Date\<close> objects in the range \<open>JSON.stringify\<close> writes,
  and what \<open>JSON.parse\<close> gives back for it: every such \<open>Date\<close> replaced by its ISO string.
\<close>

fun json_dated :: "jsval \<Rightarrow> bool" where
  "json_dated JUndef = False"
| "json_dated (JDate t) = (\<bar>t\<bar> \<le> max_time)"
| "json_dated (JArr vs) = (\<forall>v \<in> set vs. json_dated v)"
| "json_dated (JObj kvs) = (distinct (map fst kvs) \<and> (\<forall>kv \<in> set kvs. json_dated (snd kv)))"
| "json_dated _ = True"

fun dates_as_strings :: "jsval \<Rightarrow> jsval" where
  "dates_as_strings (JDate t) = JStr (iso_string t)"
| "dates_as_strings (JArr vs) = JArr (map dates_as_strings vs)"
| "dates_as_strings (JObj kvs) = JObj (map (\<lambda>kv. (fst kv, dates_as_strings (snd kv))) kvs)"
| "dates_as_strings v = v"

text \<open>The tokens of the text \<open>JSON.stringify\<close> writes for a value.\<close>

fun tjoin :: "jtok list list \<Rightarrow> jtok list" where
  "tjoin [] = []"
| "tjoin (x # xs) = x @ concat (map (Cons TComma) xs)"

fun jtoks :: "jsval \<Rightarrow> jtok list" where
  "jtoks JNull = [TNull]"
| "jtoks (JBool b) = [if b then TTrue else TFalse]"
| "jtoks (JNum n) = [TNum n]"
| "jtoks (JStr s) = [TStr s]"
| "jtoks (JArr vs) = TLBrack # tjoin (map jtoks vs) @ [TRBrack]"
| "jtoks (JObj kvs) = TLBrace # tjoin (map (\<lambda>kv. TStr (fst kv) # TColon # jtoks (snd kv)) kvs) @ [TRBrace]"
| "jtoks _ = []"

section \<open>Lemmas: the lexer\<close>


lemma lex_str_Cons:
  "lex_str acc (c # cs) =
     (if c = CHR 0x22 then Some (rev acc, cs)
      else if c = CHR 0x5C then
        (case cs of
           [] \<Rightarrow> None
         | e # cs' \<Rightarrow>
            (case simple_escape e of
               Some x \<Rightarrow> lex_str (x # acc) cs'
             | None \<Rightarrow>
                 if e = CHR ''u'' then
                   (case cs' of
                      a # b # c # d # rest \<Rightarrow>
                        (case hex4 a b c d of None \<Rightarrow> None | Some x \<Rightarrow> lex_str (x # acc) rest)
                    | _ \<Rightarrow> None)
                 else None))
      else if (of_char c :: nat) < 32 then None
      else lex_str (c # acc) cs)"
  by (cases cs) simp_all

lemma hex_val_digit: "k < 16 \<Longrightarrow> hex_val (hex_digit k) = Some k"
  by (auto simp: hex_val_def hex_digit_def Let_def)

lemma char_of_code: "of_char c = (n::nat) \<Longrightarrow> c = char_of n"
  by auto

lemma lex_str_escape_char:
  "lex_str acc (json_escape_char c @ cs) = lex_str (c # acc) cs"
proof -
  define n where "n = (of_char c :: nat)"
  have n256: "n < 256" using nat_of_char_less_256 [of c] by (simp add: n_def)
  have hex: "hex4 (CHR ''0'') (CHR ''0'') (hex_digit (n div 16)) (hex_digit (n mod 16)) = Some c"
    if "n < 32"
  proof -
    have z: "hex_val (CHR ''0'') = Some 0" by (simp add: hex_val_def)
    have "16 * (n div 16) + n mod 16 = n" by simp
    moreover have "n div 16 < 16" using that by simp
    ultimately show ?thesis
      using that by (simp add: hex4_def hex_val_digit z n_def)
  qed
  have cn: "char_of n = c" by (simp add: n_def)
  show ?thesis
    using hex cn
    by (auto simp: json_escape_char_def lex_str_Cons simple_escape_def Let_def n_def [symmetric]
        intro: char_of_code simp del: lex_str.simps)
qed

lemma lex_str_quote:
  "lex_str acc (concat (map json_escape_char s) @ CHR 0x22 # rest) = Some (rev acc @ s, rest)"
  by (induction s arbitrary: acc) (simp_all add: lex_str_escape_char lex_str_Cons del: lex_str.simps)


lemma digit_char: "k < (10::nat) \<Longrightarrow> json_digit (char_of (48 + k))"
  by (simp add: json_digit_def of_char_of)

lemma nat_str_digits: "\<forall>c \<in> set (nat_str n). json_digit c"
  by (induction n rule: nat_str.induct) (subst nat_str.simps, simp add: digit_char)

lemma nat_str_ne: "nat_str n \<noteq> []"
  by (subst nat_str.simps) simp

lemma digits_val_snoc: "digits_val (xs @ [c]) = 10 * digits_val xs + (of_char c - 48)"
  by (simp add: digits_val_def)

lemma digits_val_nat_str: "digits_val (nat_str n) = n"
proof (induction n rule: nat_str.induct)
  case (1 n)
  show ?case
  proof (cases "n < 10")
    case True
    then show ?thesis by (subst nat_str.simps) (simp add: digits_val_def of_char_of)
  next
    case False
    then show ?thesis
      using 1 by (subst nat_str.simps) (simp add: digits_val_snoc of_char_of)
  qed
qed

lemma nat_str_hd: "0 < n \<Longrightarrow> hd (nat_str n) \<noteq> CHR ''0''"
proof (induction n rule: nat_str.induct)
  case (1 n)
  show ?case
  proof (cases "n < 10")
    case True
    have "char_of (48 + n) \<noteq> CHR ''0''"
    proof
      assume "char_of (48 + n) = CHR ''0''"
      then have "of_char (char_of (48 + n) :: char) = (of_char (CHR ''0'') :: nat)" by simp
      with True 1(2) show False by (simp add: of_char_of)
    qed
    with True show ?thesis by (subst nat_str.simps) simp
  next
    case False
    then show ?thesis
      using 1 nat_str_ne [of "n div 10"] by (subst nat_str.simps) simp
  qed
qed

text \<open>What may follow a number literal without changing it.\<close>

definition num_follow :: "string \<Rightarrow> bool" where
  "num_follow rest \<longleftrightarrow> rest = [] \<or> (\<not> json_digit (hd rest) \<and> hd rest \<notin> {CHR ''.'', CHR ''e'', CHR ''E''})"

lemma takeWhile_digits:
  "\<forall>c \<in> set ds. json_digit c \<Longrightarrow> num_follow rest \<Longrightarrow>
     takeWhile json_digit (ds @ rest) = ds \<and> dropWhile json_digit (ds @ rest) = rest"
  by (induction ds) (cases rest, auto simp: num_follow_def)

lemma lex_unsigned_nat_str:
  "num_follow rest \<Longrightarrow> lex_unsigned neg (nat_str n @ rest) = Some ((if neg then - 1 else 1) * int n, rest)"
proof -
  assume f: "num_follow rest"
  have lz: "\<not> (hd (nat_str n) = CHR ''0'' \<and> 1 < length (nat_str n))"
  proof (cases "n = 0")
    case True
    then show ?thesis by (subst nat_str.simps) simp
  qed (simp add: nat_str_hd)
  show ?thesis
    using takeWhile_digits [OF nat_str_digits f] f lz nat_str_ne [of n]
    by (auto simp: lex_unsigned_def digits_val_nat_str num_follow_def Let_def)
qed

lemma lex_num_template:
  "num_follow rest \<Longrightarrow> lex_num (js_template (JNum i) @ rest) = Some (i, rest)"
proof (cases "i < 0")
  case True
  assume "num_follow rest"
  with True show ?thesis by (simp add: lex_unsigned_nat_str)
next
  case False
  assume f: "num_follow rest"
  obtain c cs where cs: "nat_str (nat i) = c # cs" using nat_str_ne by (cases "nat_str (nat i)") auto
  have "json_digit c" using nat_str_digits [of "nat i"] cs by simp
  then have "c \<noteq> CHR ''-''" by (auto simp: json_digit_def)
  with False f cs lex_unsigned_nat_str [OF f, of False "nat i"] show ?thesis by simp
qed


lemma json_join_Cons: "json_join (x # xs) = x @ concat (map (Cons (CHR '','')) xs)"
  by (induction xs arbitrary: x) simp_all

lemma num_follow_sym [simp]:
  "num_follow (CHR '','' # r)" "num_follow (CHR '']'' # r)" "num_follow (CHR ''}'' # r)" "num_follow []"
  by (simp_all add: num_follow_def json_digit_def)

lemma tokens_commas:
  assumes "\<forall>x \<in> set xs. \<forall>rest. num_follow rest \<longrightarrow>
             json_tokens (F x @ rest) = map_option (\<lambda>ts. T x @ ts) (json_tokens rest)"
    and "num_follow rest"
  shows "json_tokens (concat (map (\<lambda>x. CHR '','' # F x) xs) @ rest) =
           map_option (\<lambda>ts. concat (map (\<lambda>x. TComma # T x) xs) @ ts) (json_tokens rest)"
  using assms
proof (induction xs)
  case Nil
  then show ?case by (simp add: option.map_ident)
next
  case (Cons x xs)
  have "num_follow (concat (map (\<lambda>x. CHR '','' # F x) xs) @ rest)"
    using Cons.prems(2) by (cases xs) simp_all
  with Cons show ?case by (simp add: json_ws_def option.map_comp comp_def)
qed

lemma tokens_join:
  assumes "\<forall>x \<in> set xs. \<forall>rest. num_follow rest \<longrightarrow>
             json_tokens (F x @ rest) = map_option (\<lambda>ts. T x @ ts) (json_tokens rest)"
    and "num_follow rest"
  shows "json_tokens (json_join (map F xs) @ rest) = map_option (\<lambda>ts. tjoin (map T xs) @ ts) (json_tokens rest)"
proof (cases xs)
  case Nil
  then show ?thesis by (simp add: option.map_ident)
next
  case (Cons x xs')
  have "num_follow (concat (map (\<lambda>x. CHR '','' # F x) xs') @ rest)"
    using assms(2) by (cases xs') simp_all
  then show ?thesis
    using assms Cons tokens_commas [of xs' F T rest]
    by (simp add: json_join_Cons option.map_comp comp_def)
qed


lemma case_stringify:
  "v \<noteq> JUndef \<Longrightarrow> (case json_stringify v of None \<Rightarrow> n | Some s \<Rightarrow> f s) = f (the (json_stringify v))"
  by (cases v) simp_all

lemma case_stringify_id:
  "v \<noteq> JUndef \<Longrightarrow> (case json_stringify v of None \<Rightarrow> n | Some s \<Rightarrow> s) = the (json_stringify v)"
  by (cases v) simp_all

lemma append_single_fun: "(@) [t] = (#) t"
  by auto

lemma stringify_None: "json_stringify v = None \<longleftrightarrow> v = JUndef"
  by (cases v) simp_all

lemma plain_not_undef: "json_plain v \<Longrightarrow> v \<noteq> JUndef"
  by auto

lemma tokens_num:
  assumes "num_follow rest"
  shows "json_tokens (js_template (JNum i) @ rest) = map_option (Cons (TNum i)) (json_tokens rest)"
proof -
  obtain c cs where cs: "js_template (JNum i) @ rest = c # cs"
    by (cases "js_template (JNum i) @ rest") (auto split: if_splits simp: nat_str_ne)
  have "c = CHR ''-'' \<or> json_digit c"
  proof (cases "i < 0")
    case False
    then show ?thesis using cs nat_str_digits [of "nat i"] nat_str_ne [of "nat i"]
      by (cases "nat_str (nat i)") auto
  qed (use cs in auto)
  then have "\<not> json_ws c \<and> c \<noteq> CHR ''{'' \<and> c \<noteq> CHR ''}'' \<and> c \<noteq> CHR ''['' \<and> c \<noteq> CHR '']'' \<and>
             c \<noteq> CHR '','' \<and> c \<noteq> CHR '':'' \<and> c \<noteq> CHR 0x22 \<and> (c = CHR ''-'' \<or> json_digit c)"
    by (auto simp: json_ws_def json_digit_def)
  then show ?thesis
    using cs lex_num_template [OF assms, of i]
    by (simp del: lex_num.simps js_template.simps)
qed

lemma tokens_stringify:
  "json_plain v \<Longrightarrow> num_follow rest \<Longrightarrow>
     json_tokens (the (json_stringify v) @ rest) = map_option (\<lambda>ts. jtoks v @ ts) (json_tokens rest)"
proof (induction v arbitrary: rest)
  case (JNum i)
  then show ?case by (simp add: tokens_num del: js_template.simps)
next
  case (JStr s)
  then show ?case by (simp add: json_quote_def json_ws_def lex_str_quote)
next
  case (JArr vs)
  have el: "\<forall>x \<in> set vs. \<forall>rest. num_follow rest \<longrightarrow>
              json_tokens ((case json_stringify x of None \<Rightarrow> ''null'' | Some s \<Rightarrow> s) @ rest) =
              map_option (\<lambda>ts. jtoks x @ ts) (json_tokens rest)"
    using JArr by (auto simp: case_stringify_id plain_not_undef)
  show ?case
    using tokens_join [OF el, of "CHR '']'' # rest"]
    by (simp add: json_ws_def option.map_comp comp_def)
next
  case (JObj kvs)
  have el: "\<forall>kv \<in> set kvs. \<forall>rest. num_follow rest \<longrightarrow>
              json_tokens ((json_quote (fst kv) @ '':'' @ the (json_stringify (snd kv))) @ rest) =
              map_option (\<lambda>ts. (TStr (fst kv) # TColon # jtoks (snd kv)) @ ts) (json_tokens rest)"
    using JObj by (auto simp: json_quote_def json_ws_def lex_str_quote option.map_comp comp_def)
  have mem: "concat (map (\<lambda>(k, v). case json_stringify v of None \<Rightarrow> [] | Some s \<Rightarrow> [json_quote k @ '':'' @ s]) kvs)
           = map (\<lambda>kv. json_quote (fst kv) @ '':'' @ the (json_stringify (snd kv))) kvs"
    using JObj.prems(1) by (induction kvs) (auto simp: stringify_None split: option.splits)
  show ?case
    using tokens_join [OF el, of "CHR ''}'' # rest"]
    by (simp add: mem json_ws_def option.map_comp comp_def)
qed (simp_all add: json_ws_def json_digit_def append_single_fun)


lemma assoc_set_fresh: "k \<notin> set (map fst kvs) \<Longrightarrow> assoc_set kvs k v = kvs @ [(k, v)]"
  by (induction kvs) auto

abbreviation parses_as :: "jsval \<Rightarrow> bool" where
  "parses_as v \<equiv> \<forall>ts m fr. m = MVal \<or> m = MValOrClose \<longrightarrow>
     parse_toks (jtoks v @ ts) m fr = parse_toks ts (fst (reduce v fr)) (snd (reduce v fr))"

lemma parse_elements:
  assumes "\<forall>x \<in> set xs. parses_as x"
  shows "parse_toks (concat (map (\<lambda>x. TComma # jtoks x) xs) @ TRBrack # ts) MSep (FArr acc # fr) =
           parse_toks ts (fst (reduce (JArr (rev acc @ xs)) fr)) (snd (reduce (JArr (rev acc @ xs)) fr))"
  using assms
proof (induction xs arbitrary: acc)
  case (Cons x xs)
  then show ?case by simp
qed (simp add: prod.case_eq_if)

lemma parse_members:
  assumes "\<forall>kv \<in> set kvs. parses_as (snd kv)" and "distinct (map fst (acc @ kvs))"
  shows "parse_toks (concat (map (\<lambda>kv. TComma # TStr (fst kv) # TColon # jtoks (snd kv)) kvs) @ TRBrace # ts)
           MSep (FObj acc k0 # fr) =
         parse_toks ts (fst (reduce (JObj (acc @ kvs)) fr)) (snd (reduce (JObj (acc @ kvs)) fr))"
  using assms
proof (induction kvs arbitrary: acc k0)
  case (Cons kv kvs)
  obtain k v where kv: "kv = (k, v)" by fastforce
  have "k \<notin> set (map fst acc)" using Cons.prems(2) kv by simp
  then have "assoc_set acc k v = acc @ [(k, v)]" by (rule assoc_set_fresh)
  moreover have "parse_toks (concat (map (\<lambda>kv. TComma # TStr (fst kv) # TColon # jtoks (snd kv)) kvs) @ TRBrace # ts)
           MSep (FObj (acc @ [(k, v)]) k # fr) =
         parse_toks ts (fst (reduce (JObj (acc @ kv # kvs)) fr)) (snd (reduce (JObj (acc @ kv # kvs)) fr))"
    using Cons.IH [of "acc @ [(k, v)]" k] Cons.prems kv by simp
  ultimately show ?case using Cons.prems(1) kv by (simp add: key_start_def)
qed (simp add: prod.case_eq_if)

lemma parse_jtoks: "json_plain v \<Longrightarrow> parses_as v"
proof (induction v)
  case (JArr vs)
  then have el: "\<forall>x \<in> set vs. parses_as x" by simp
  show ?case
  proof (cases vs)
    case (Cons x xs)
    then show ?thesis
      using el parse_elements [of xs _ "[x]"] by (auto simp: value_start_def comp_def prod.case_eq_if)
  qed (auto simp: value_start_def prod.case_eq_if)
next
  case (JObj kvs)
  then have el: "\<forall>kv \<in> set kvs. parses_as (snd kv)" and d: "distinct (map fst kvs)" by auto
  show ?case
  proof (cases kvs)
    case (Cons kv kvs')
    obtain k v where kv: "kv = (k, v)" by fastforce
    show ?thesis
      using el d Cons kv parse_members [of kvs' "[(k, v)]"]
      by (auto simp: value_start_def key_start_def comp_def prod.case_eq_if)
  qed (auto simp: value_start_def prod.case_eq_if)
qed (auto simp: value_start_def prod.case_eq_if)


section \<open>Round trip\<close>

text \<open>
  Round trip: \<open>JSON.parse\<close> of \<open>JSON.stringify\<close> gives back every value without
  \<open>undefined\<close>, without \<open>Date\<close> objects and with distinct keys in its objects.
\<close>

lemma json_roundtrip: "json_plain v \<Longrightarrow> Option.bind (json_stringify v) json_parse = Some v"
proof -
  assume p: "json_plain v"
  then obtain s where s: "json_stringify v = Some s" by (cases v) auto
  have "json_tokens s = Some (jtoks v)"
    using tokens_stringify [OF p, of "[]"] s by simp
  moreover have "parse_toks (jtoks v @ []) MVal [] = parse_toks [] (fst (reduce v [])) (snd (reduce v []))"
    using parse_jtoks [OF p] by blast
  ultimately show ?thesis
    using s by (simp add: json_parse_def)
qed



text \<open>A \<open>Date\<close> does not survive: it comes back as its ISO string.\<close>

lemma json_date_becomes_string:
  "\<bar>t\<bar> \<le> max_time \<Longrightarrow> Option.bind (json_stringify (JDate t)) json_parse = Some (JStr (iso_string t))"
proof -
  assume "\<bar>t\<bar> \<le> max_time"
  moreover have "json_tokens (json_quote (iso_string t)) = Some [TStr (iso_string t)]"
    using tokens_stringify [of "JStr (iso_string t)" "[]"] by simp
  ultimately show ?thesis by (simp add: json_parse_def value_start_def)
qed

lemma stringify_nonempty:
  "json_stringify v = Some s \<Longrightarrow> json_parse s = Some q \<Longrightarrow> s \<noteq> []"
  by (auto simp: json_parse_def)

lemma stringify_dates:
  "json_dated v \<Longrightarrow> json_stringify (dates_as_strings v) = json_stringify v"
proof (induction v rule: dates_as_strings.induct)
  case (2 vs)
  then show ?case by (simp cong: map_cong)
next
  case (3 kvs)
  then show ?case by (simp add: comp_def split_def cong: map_cong option.case_cong)
qed simp_all

lemma plain_dates: "json_dated v \<Longrightarrow> json_plain (dates_as_strings v)"
  by (induction v rule: dates_as_strings.induct) (auto simp: comp_def)

text \<open>Round trip of a value with dates: each \<open>Date\<close> comes back as its ISO string.\<close>

lemma json_dates_roundtrip:
  "json_dated v \<Longrightarrow> Option.bind (json_stringify v) json_parse = Some (dates_as_strings v)"
  using json_roundtrip [OF plain_dates] stringify_dates by metis

lemma plain_dated: "json_plain v \<Longrightarrow> json_dated v \<and> dates_as_strings v = v"
proof (induction v rule: dates_as_strings.induct)
  case (2 vs)
  then show ?case by (simp add: map_idI)
next
  case (3 kvs)
  then show ?case by (auto simp: map_idI)
qed simp_all

end
