(* ===== verification/Submit.thy ===== *)
theory Submit
  imports Json Queue Match
begin

text \<open>
  The submission API: \<open>send(options)\<close> (push.js lines 478--526) builds a notification
  record from the caller's options, validates it with \<open>_validateDocument\<close> (lines
  425--476) and inserts it into the queue. The clock reading \<open>new Date()\<close> and the id
  Meteor's \<open>insert\<close> draws (\<open>Random.id()\<close>) are arguments. A thrown error is an \<open>Inl\<close>
  result, and the queue is then unchanged: the insert is the last statement.
\<close>

section \<open>_validateDocument\<close>

text \<open>The pattern of lines 427--465.\<close>

definition notification_pattern :: mpat where
  "notification_pattern = PRecord [
     (''from'', PString), (''title'', PString), (''text'', PString),
     (''sent'', POptional PBoolean), (''sending'', POptional PInteger),
     (''badge'', POptional PInteger), (''sound'', POptional PString),
     (''notId'', POptional PInteger), (''contentAvailable'', POptional PInteger),
     (''apn'', POptional (PRecord [
        (''from'', POptional PString), (''title'', POptional PString), (''text'', POptional PString),
        (''badge'', POptional PInteger), (''sound'', POptional PString),
        (''notId'', POptional PInteger), (''category'', POptional PString)])),
     (''gcm'', POptional (PRecord [
        (''from'', POptional PString), (''title'', POptional PString), (''text'', POptional PString),
        (''image'', POptional PString), (''style'', POptional PString),
        (''summaryText'', POptional PString), (''picture'', POptional PString),
        (''badge'', POptional PInteger), (''sound'', POptional PString),
        (''notId'', POptional PInteger)])),
     (''query'', POptional PString),
     (''token'', POptional match_token),
     (''tokens'', POptional (PArrayOf match_token)),
     (''payload'', POptional PObject),
     (''delayUntil'', POptional PDate),
     (''createdAt'', PDate),
     (''createdBy'', POneOf [PString, PNull])]"

text \<open>\<open>x.length\<close>.\<close>

fun js_length :: "jsval \<Rightarrow> jsval" where
  "js_length (JArr vs) = JNum (int (length vs))"
| "js_length (JStr s) = JNum (int (length s))"
| "js_length v = js_get v ''length''"

definition validate_document :: "jsval \<Rightarrow> unit js_result" where
  "validate_document notification =
     (case check notification notification_pattern of
        Inl e \<Rightarrow> Inl e
      | Inr _ \<Rightarrow>
          if \<not> truthy (js_get notification ''token'') \<and> \<not> truthy (js_get notification ''tokens'') \<and>
             \<not> truthy (js_get notification ''query'')
          then Inl (Error ''No token selector or query found'')
          else if truthy (js_get notification ''tokens'') \<and> \<not> truthy (js_length (js_get notification ''tokens''))
          then Inl (Error ''No tokens in array'')
          else Inr ())"

section \<open>send\<close>

text \<open>
  Lines 486--500: the record with the creation fields, the message fields picked from the
  options (\<open>_.extend\<close> and \<open>_.pick\<close> keep the key order of the source) and the
  platform overrides.
\<close>

definition base_notification :: "jsval \<Rightarrow> jsval \<Rightarrow> timestamp \<Rightarrow> jsval" where
  "base_notification options currentUser now =
     (let n1 = JsValue.extend (JsValue.extend (JObj [(''createdAt'', JDate now), (''createdBy'', currentUser)])
                             (pick options [''from'', ''title'', ''text'']))
                     (pick options [''payload'', ''badge'', ''sound'', ''notId'', ''delayUntil'']);
          n2 = (if mtest PObject (js_get options ''apn'')
                then js_put n1 ''apn'' (pick (js_get options ''apn'')
                       [''from'', ''title'', ''text'', ''badge'', ''sound'', ''notId'', ''category''])
                else n1)
      in if mtest PObject (js_get options ''gcm'')
         then js_put n2 ''gcm'' (pick (js_get options ''gcm'')
                [''image'', ''style'', ''summaryText'', ''picture'', ''from'', ''title'', ''text'',
                 ''badge'', ''sound'', ''notId''])
         else n2)"

text \<open>
  Lines 503--519: a truthy \<open>query\<close> is stored as its JSON text (\<open>undefined\<close> when
  \<open>JSON.stringify\<close> returns nothing), otherwise the first truthy of \<open>token\<close>, \<open>tokens\<close>;
  then \<open>contentAvailable\<close> when defined, and the queue fields.
\<close>

definition build_notification :: "jsval \<Rightarrow> jsval \<Rightarrow> timestamp \<Rightarrow> jsval" where
  "build_notification options currentUser now =
     (let n3 = base_notification options currentUser now;
          n4 = (if truthy (js_get options ''query'')
                then js_put n3 ''query''
                       (case json_stringify (js_get options ''query'') of None \<Rightarrow> JUndef | Some s \<Rightarrow> JStr s)
                else if truthy (js_get options ''token'') then js_put n3 ''token'' (js_get options ''token'')
                else if truthy (js_get options ''tokens'') then js_put n3 ''tokens'' (js_get options ''tokens'')
                else n3);
          n5 = (if js_get options ''contentAvailable'' \<noteq> JUndef
                then js_put n4 ''contentAvailable'' (js_get options ''contentAvailable'')
                else n4)
      in js_put (js_put n5 ''sent'' (JBool False)) ''sending'' (JNum 0))"

text \<open>
  Line 483: \<open>options.createdBy || '<SERVER>'\<close>, a TypeError when \<open>options\<close> is
  \<open>undefined\<close> or \<open>null\<close>.
\<close>

definition current_user :: "jsval \<Rightarrow> jsval js_result" where
  "current_user options =
     (case js_prop options ''createdBy'' of
        Inl e \<Rightarrow> Inl e
      | Inr cb \<Rightarrow> Inr (if truthy cb then cb else JStr ''<SERVER>''))"

text \<open>\<open>send(options)\<close>: the record, its validation, the insert; the result is the new id.\<close>

definition send :: "jsval \<Rightarrow> timestamp \<Rightarrow> string \<Rightarrow> 'a store_scheme \<Rightarrow> jsval js_result \<times> 'a store_scheme" where
  "send options now i w =
     (case current_user options of
        Inl e \<Rightarrow> (Inl e, w)
      | Inr cu \<Rightarrow>
          (case validate_document (build_notification options cu now) of
             Inl e \<Rightarrow> (Inl e, w)
           | Inr _ \<Rightarrow> (Inr (JStr i), w\<lparr>notifications := coll_insert i (build_notification options cu now) (notifications w)\<rparr>)))"

section \<open>Lemmas\<close>

lemma base_obj: "is_obj (base_notification options cu now)"
  by (simp add: base_notification_def Let_def js_simps)

lemma base_keys:
  "js_has (base_notification options cu now) k \<Longrightarrow>
     k \<in> {''createdAt'', ''createdBy'', ''from'', ''title'', ''text'', ''payload'', ''badge'', ''sound'',
          ''notId'', ''delayUntil'', ''apn'', ''gcm''}"
  by (auto simp: base_notification_def Let_def js_simps split: if_splits)

lemma base_get:
  "js_get (base_notification options cu now) ''createdAt'' = JDate now"
  "js_get (base_notification options cu now) ''badge'' = js_get options ''badge''"
  by (simp_all add: base_notification_def Let_def js_simps js_has_get)

lemma base_lacks:
  "\<not> js_has (base_notification options cu now) ''_id''"
  "\<not> js_has (base_notification options cu now) ''token''"
  "\<not> js_has (base_notification options cu now) ''tokens''"
  "\<not> js_has (base_notification options cu now) ''query''"
  using base_keys by blast+

lemma build_obj: "is_obj (build_notification options cu now)"
  by (simp add: build_notification_def Let_def js_simps base_obj)

lemma build_fields:
  shows "js_get (build_notification options cu now) ''sent'' = JBool False"
    and "js_get (build_notification options cu now) ''sending'' = JNum 0"
    and "js_get (build_notification options cu now) ''createdAt'' = JDate now"
    and "js_get (build_notification options cu now) ''badge'' = js_get options ''badge''"
    and "\<not> js_has (build_notification options cu now) ''_id''"
    and "js_has (build_notification options cu now) ''query'' \<longleftrightarrow> truthy (js_get options ''query'')"
    and "js_has (build_notification options cu now) ''token'' \<longleftrightarrow>
           \<not> truthy (js_get options ''query'') \<and> truthy (js_get options ''token'')"
    and "js_has (build_notification options cu now) ''tokens'' \<longleftrightarrow>
           \<not> truthy (js_get options ''query'') \<and> \<not> truthy (js_get options ''token'') \<and> truthy (js_get options ''tokens'')"
    and "js_get (build_notification options cu now) ''tokens'' =
           (if \<not> truthy (js_get options ''query'') \<and> \<not> truthy (js_get options ''token'') \<and> truthy (js_get options ''tokens'')
            then js_get options ''tokens'' else JUndef)"
  unfolding build_notification_def Let_def
  by (simp_all add: js_simps base_obj base_get base_lacks js_has_get)

lemma target_absent:
  "\<not> js_has n k \<Longrightarrow> \<not> truthy (js_get n k)"
  by (simp add: js_has_get)

lemma send_no_user: "current_user options = Inl e \<Longrightarrow> send options now i w = (Inl e, w)"
  by (simp add: send_def)

lemma send_user:
  "current_user options = Inr cu \<Longrightarrow>
   send options now i w =
     (case validate_document (build_notification options cu now) of
        Inl e \<Rightarrow> (Inl e, w)
      | Inr _ \<Rightarrow> (Inr (JStr i), w\<lparr>notifications := coll_insert i (build_notification options cu now) (notifications w)\<rparr>))"
  by (simp add: send_def)

lemma current_user_obj:
  "is_obj options \<Longrightarrow> \<exists>cu. current_user options = Inr cu"
  by (cases options) (simp_all add: current_user_def)

lemma validate_ok_target:
  "validate_document n = Inr () \<Longrightarrow>
     truthy (js_get n ''token'') \<or> truthy (js_get n ''tokens'') \<or> truthy (js_get n ''query'')"
  unfolding validate_document_def by (simp split: sum.splits if_splits)

lemma validate_ok_tokens:
  "validate_document n = Inr () \<Longrightarrow> js_get n ''tokens'' \<noteq> JArr []"
  by (cases "js_get n ''tokens''") (simp_all add: validate_document_def split: sum.splits if_splits)

lemma validate_pattern_fails:
  "\<not> mtest notification_pattern n \<Longrightarrow> validate_document n = Inl (MatchError ''Match failed'')"
  by (simp add: validate_document_def check_def)

lemma mtest_record_field:
  "mtest (PRecord fs) v \<Longrightarrow> (k, p) \<in> set fs \<Longrightarrow> mtest p (js_get v k)"
  by (cases v) auto

lemma pattern_field:
  "mtest notification_pattern n \<Longrightarrow> (k, p) \<in> set [(''badge'', POptional PInteger), (''tokens'', POptional (PArrayOf match_token))] \<Longrightarrow>
     mtest p (js_get n k)"
  by (rule mtest_record_field) (auto simp: notification_pattern_def)

lemma inserted_get:
  "is_obj n \<Longrightarrow> js_get (JObj ((''_id'', x) # assoc_del (js_fields n) ''_id'')) k = (if k = ''_id'' then x else js_get n k)"
  by (cases n) simp_all

lemma inserted_has:
  "is_obj n \<Longrightarrow> js_has (JObj ((''_id'', x) # assoc_del (js_fields n) ''_id'')) k = (k = ''_id'' \<or> js_has n k)"
proof (cases n)
  case (JObj kvs)
  have "set (map fst (assoc_del kvs ''_id'')) = set (map fst kvs) - {''_id''}" by (rule keys_assoc_del)
  with JObj show ?thesis by auto
qed simp_all

lemma truthy_has: "truthy (js_get n k) \<Longrightarrow> js_has n k"
  using js_has_get by fastforce

lemma build_target_absent:
  assumes "\<not> truthy (js_get options ''query'')" "\<not> truthy (js_get options ''token'')"
    "\<not> truthy (js_get options ''tokens'')"
  shows "\<not> truthy (js_get (build_notification options cu now) ''token'') \<and>
         \<not> truthy (js_get (build_notification options cu now) ''tokens'') \<and>
         \<not> truthy (js_get (build_notification options cu now) ''query'')"
  using assms by (simp add: build_fields target_absent)

lemma send_rejected:
  assumes "\<And>cu. validate_document (build_notification options cu now) \<noteq> Inr ()"
  shows "\<exists>e. send options now i w = (Inl e, w)"
proof (cases "current_user options")
  case (Inl e)
  then show ?thesis by (simp add: send_no_user)
next
  case (Inr cu)
  with assms [of cu] show ?thesis by (cases "validate_document (build_notification options cu now)") (simp_all add: send_user)
qed

lemma send_pattern_fails:
  assumes "is_obj options" and "\<And>cu. \<not> mtest notification_pattern (build_notification options cu now)"
  shows "send options now i w = (Inl (MatchError ''Match failed''), w)"
proof -
  obtain cu where "current_user options = Inr cu" using current_user_obj [OF assms(1)] by blast
  then show ?thesis using assms(2) [of cu] by (simp add: send_user validate_pattern_fails)
qed

lemma send_ok_example: "fst (send (JObj [(''from'', JStr ''app''), (''title'', JStr ''Hi''), (''text'', JStr ''body''), (''tokens'', JArr [JObj [(''apn'', JStr ''tokA'')]])]) 5 ''n1'' \<lparr>notifications = [], app_tokens = [], id_seq = 0\<rparr>) = Inr (JStr ''n1'')"
  by (simp add: send_def current_user_def build_notification_def base_notification_def validate_document_def check_def notification_pattern_def match_token_def pick_def JsValue.extend_def Let_def match_integer_iff)

lemma build_query:
  "truthy (js_get options ''query'') \<Longrightarrow>
   js_get (build_notification options cu now) ''query'' =
     (case json_stringify (js_get options ''query'') of None \<Rightarrow> JUndef | Some s \<Rightarrow> JStr s)"
  unfolding build_notification_def Let_def
  by (simp add: js_simps base_obj)

lemma send_Inr_record:
  assumes "send options now i w = (Inr r, w')"
  obtains cu where "notifications w' = notifications w @
      [JObj ((''_id'', JStr i) # assoc_del (js_fields (build_notification options cu now)) ''_id'')]"
proof (cases "current_user options")
  case (Inl e)
  then show ?thesis using assms by (simp add: send_no_user)
next
  case (Inr cu)
  then show ?thesis using assms that
    by (cases "validate_document (build_notification options cu now)") (auto simp: send_user coll_insert_def)
qed

section \<open>Properties of the submission API\<close>

text \<open>
  C16. A successful \<open>send\<close> returns the new id and appends exactly one record to the queue: it carries that id, \<open>sent = false\<close>, \<open>sending = 0\<close>, \<open>createdAt\<close> the clock reading, exactly one of \<open>token\<close>, \<open>tokens\<close>, \<open>query\<close>, and no empty \<open>tokens\<close> list; the token directory is untouched.
\<close>

theorem send_inserts_record:
  assumes "send options now i w = (Inr r, w')"
  shows "r = JStr i \<and> app_tokens w' = app_tokens w \<and>
         (\<exists>doc. notifications w' = notifications w @ [doc] \<and> js_get doc ''_id'' = JStr i \<and>
                js_get doc ''sent'' = JBool False \<and> js_get doc ''sending'' = JNum 0 \<and>
                js_get doc ''createdAt'' = JDate now \<and>
                length (filter (js_has doc) [''token'', ''tokens'', ''query'']) = 1 \<and>
                js_get doc ''tokens'' \<noteq> JArr [])"
proof -
  obtain cu where cu: "current_user options = Inr cu"
  proof (cases "current_user options")
    case (Inl e)
    with assms send_no_user [OF Inl, of now i w] show ?thesis by simp
  next
    case (Inr c)
    then show ?thesis by (rule that)
  qed
  define n where "n = build_notification options cu now"
  have v: "validate_document n = Inr ()"
    using assms send_user [OF cu, of now i w] by (cases "validate_document n") (simp_all add: n_def)
  have rw: "r = JStr i" "w' = w\<lparr>notifications := coll_insert i n (notifications w)\<rparr>"
    using assms send_user [OF cu, of now i w] v by (simp_all add: n_def)
  define doc where "doc = JObj ((''_id'', JStr i) # assoc_del (js_fields n) ''_id'')"
  have obj: "is_obj n" by (simp add: n_def build_obj)
  have hasd: "js_has doc k = (k = ''_id'' \<or> js_has n k)" for k
    unfolding doc_def by (rule inserted_has [OF obj])
  have getd: "js_get doc k = (if k = ''_id'' then JStr i else js_get n k)" for k
    unfolding doc_def by (rule inserted_get [OF obj])
  have one: "length (filter (js_has n) [''token'', ''tokens'', ''query'']) = 1"
    using validate_ok_target [OF v] truthy_has [of n "''token''"] truthy_has [of n "''tokens''"]
      truthy_has [of n "''query''"]
    by (auto simp: n_def build_fields)
  have tok: "js_get n ''tokens'' \<noteq> JArr []" by (rule validate_ok_tokens [OF v])
  show ?thesis
  proof (intro conjI exI)
    show "r = JStr i" "app_tokens w' = app_tokens w" by (simp_all add: rw)
    show "notifications w' = notifications w @ [doc]" by (simp add: rw coll_insert_def doc_def)
    show "js_get doc ''_id'' = JStr i" "js_get doc ''sent'' = JBool False" "js_get doc ''sending'' = JNum 0"
      "js_get doc ''createdAt'' = JDate now" "js_get doc ''tokens'' \<noteq> JArr []"
      using tok by (simp_all add: getd n_def build_fields)
    show "length (filter (js_has doc) [''token'', ''tokens'', ''query'']) = 1"
    proof -
      have "filter (js_has doc) [''token'', ''tokens'', ''query''] = filter (js_has n) [''token'', ''tokens'', ''query'']"
        by (rule filter_cong) (auto simp: hasd)
      then show ?thesis using one by (simp only:)
    qed
  qed
qed

lemma send_inserts_record_witness:
  "fst (send (JObj [(''from'', JStr ''app''), (''title'', JStr ''Hi''), (''text'', JStr ''body''), (''tokens'', JArr [JObj [(''apn'', JStr ''tokA'')]])]) 5 ''n1'' \<lparr>notifications = [], app_tokens = [], id_seq = 0\<rparr>) = Inr (JStr ''n1'') \<and>
   (\<exists>doc. notifications (snd (send (JObj [(''from'', JStr ''app''), (''title'', JStr ''Hi''), (''text'', JStr ''body''), (''tokens'', JArr [JObj [(''apn'', JStr ''tokA'')]])]) 5 ''n1'' \<lparr>notifications = [], app_tokens = [], id_seq = 0\<rparr>)) = [doc] \<and> js_get doc ''sent'' = JBool False \<and>
          js_get doc ''createdAt'' = JDate 5)"
proof -
  have e: "send (JObj [(''from'', JStr ''app''), (''title'', JStr ''Hi''), (''text'', JStr ''body''), (''tokens'', JArr [JObj [(''apn'', JStr ''tokA'')]])]) 5 ''n1'' \<lparr>notifications = [], app_tokens = [], id_seq = 0\<rparr> = (Inr (JStr ''n1''), snd (send (JObj [(''from'', JStr ''app''), (''title'', JStr ''Hi''), (''text'', JStr ''body''), (''tokens'', JArr [JObj [(''apn'', JStr ''tokA'')]])]) 5 ''n1'' \<lparr>notifications = [], app_tokens = [], id_seq = 0\<rparr>))"
    using send_ok_example by (metis prod.collapse)
  show ?thesis using send_inserts_record [OF e] send_ok_example by auto
qed

text \<open>
  C17. When \<open>send\<close> throws, nothing is written: the store is the one it started from.
\<close>

theorem send_error_no_insert:
  "send options now i w = (Inl e, w') \<Longrightarrow> w' = w"
  by (cases "current_user options"; cases "validate_document (build_notification options (projr (current_user options)) now)")
     (simp_all add: send_no_user send_user)

lemma send_error_no_insert_witness:
  "fst (send (JObj [(''from'', JStr ''app''), (''title'', JStr ''Hi''), (''text'', JStr ''body'')]) 5 ''n1'' \<lparr>notifications = [], app_tokens = [], id_seq = 0\<rparr>) = Inl (Error ''No token selector or query found'') \<and>
   snd (send (JObj [(''from'', JStr ''app''), (''title'', JStr ''Hi''), (''text'', JStr ''body'')]) 5 ''n1'' \<lparr>notifications = [], app_tokens = [], id_seq = 0\<rparr>) = \<lparr>notifications = [], app_tokens = [], id_seq = 0\<rparr>"
proof -
  have f: "fst (send (JObj [(''from'', JStr ''app''), (''title'', JStr ''Hi''), (''text'', JStr ''body'')]) 5 ''n1'' \<lparr>notifications = [], app_tokens = [], id_seq = 0\<rparr>) = Inl (Error ''No token selector or query found'')"
    by (simp add: send_def current_user_def build_notification_def base_notification_def validate_document_def check_def notification_pattern_def match_token_def pick_def JsValue.extend_def Let_def match_integer_iff)
  then have "send (JObj [(''from'', JStr ''app''), (''title'', JStr ''Hi''), (''text'', JStr ''body'')]) 5 ''n1'' \<lparr>notifications = [], app_tokens = [], id_seq = 0\<rparr> = (Inl (Error ''No token selector or query found''), snd (send (JObj [(''from'', JStr ''app''), (''title'', JStr ''Hi''), (''text'', JStr ''body'')]) 5 ''n1'' \<lparr>notifications = [], app_tokens = [], id_seq = 0\<rparr>))"
    by (metis prod.collapse)
  with f show ?thesis using send_error_no_insert by blast
qed

text \<open>
  C18. A submission with none of \<open>token\<close>, \<open>tokens\<close>, \<open>query\<close> is rejected before any insert.
\<close>

theorem send_without_target_fails:
  "\<not> truthy (js_get options ''query'') \<Longrightarrow> \<not> truthy (js_get options ''token'') \<Longrightarrow>
   \<not> truthy (js_get options ''tokens'') \<Longrightarrow> \<exists>e. send options now i w = (Inl e, w)"
  by (rule send_rejected) (use build_target_absent validate_ok_target in blast)

lemma send_without_target_fails_witness:
  "\<not> truthy (js_get (JObj [(''from'', JStr ''app''), (''title'', JStr ''Hi''), (''text'', JStr ''body'')]) ''query'') \<and> \<not> truthy (js_get (JObj [(''from'', JStr ''app''), (''title'', JStr ''Hi''), (''text'', JStr ''body'')]) ''token'') \<and> \<not> truthy (js_get (JObj [(''from'', JStr ''app''), (''title'', JStr ''Hi''), (''text'', JStr ''body'')]) ''tokens'') \<and>
   (\<exists>e. send (JObj [(''from'', JStr ''app''), (''title'', JStr ''Hi''), (''text'', JStr ''body'')]) 5 ''n1'' \<lparr>notifications = [], app_tokens = [], id_seq = 0\<rparr> = (Inl e, \<lparr>notifications = [], app_tokens = [], id_seq = 0\<rparr>))"
  using send_without_target_fails [of "JObj [(''from'', JStr ''app''), (''title'', JStr ''Hi''), (''text'', JStr ''body'')]" 5 "''n1''" "\<lparr>notifications = [], app_tokens = [], id_seq = 0\<rparr>"] by simp

text \<open>
  C19. A submission whose only target is an empty \<open>tokens\<close> list is rejected before any insert.
\<close>

theorem send_empty_tokens_fails:
  "\<not> truthy (js_get options ''query'') \<Longrightarrow> \<not> truthy (js_get options ''token'') \<Longrightarrow>
   js_get options ''tokens'' = JArr [] \<Longrightarrow> \<exists>e. send options now i w = (Inl e, w)"
  by (rule send_rejected) (use validate_ok_tokens in \<open>force simp: build_fields\<close>)

lemma send_empty_tokens_fails_witness:
  "\<not> truthy (js_get (JObj [(''from'', JStr ''app''), (''title'', JStr ''Hi''), (''text'', JStr ''body''), (''tokens'', JArr [])]) ''query'') \<and> \<not> truthy (js_get (JObj [(''from'', JStr ''app''), (''title'', JStr ''Hi''), (''text'', JStr ''body''), (''tokens'', JArr [])]) ''token'') \<and> js_get (JObj [(''from'', JStr ''app''), (''title'', JStr ''Hi''), (''text'', JStr ''body''), (''tokens'', JArr [])]) ''tokens'' = JArr [] \<and>
   (\<exists>e. send (JObj [(''from'', JStr ''app''), (''title'', JStr ''Hi''), (''text'', JStr ''body''), (''tokens'', JArr [])]) 5 ''n1'' \<lparr>notifications = [], app_tokens = [], id_seq = 0\<rparr> = (Inl e, \<lparr>notifications = [], app_tokens = [], id_seq = 0\<rparr>))"
  using send_empty_tokens_fails [of "JObj [(''from'', JStr ''app''), (''title'', JStr ''Hi''), (''text'', JStr ''body''), (''tokens'', JArr [])]" 5 "''n1''" "\<lparr>notifications = [], app_tokens = [], id_seq = 0\<rparr>"] by simp

text \<open>
  C20. A \<open>tokens\<close> list holding anything but \<open>{apn: String}\<close> or \<open>{gcm: String}\<close> objects, plain token strings included, fails the shape check with a Match error and nothing is inserted.
\<close>

theorem send_rejects_untyped_tokens:
  "is_obj options \<Longrightarrow> \<not> truthy (js_get options ''query'') \<Longrightarrow> \<not> truthy (js_get options ''token'') \<Longrightarrow>
   js_get options ''tokens'' = JArr ts \<Longrightarrow> \<not> list_all (mtest match_token) ts \<Longrightarrow>
   send options now i w = (Inl (MatchError ''Match failed''), w)"
proof (rule send_pattern_fails)
  fix cu
  assume q: "\<not> truthy (js_get options ''query'')" and t: "\<not> truthy (js_get options ''token'')"
    and ts: "js_get options ''tokens'' = JArr ts" and bad: "\<not> list_all (mtest match_token) ts"
  show "\<not> mtest notification_pattern (build_notification options cu now)"
  proof
    assume "mtest notification_pattern (build_notification options cu now)"
    then have "mtest (POptional (PArrayOf match_token)) (js_get (build_notification options cu now) ''tokens'')"
      by (rule pattern_field) simp
    with q t ts bad show False by (simp add: build_fields list_all_iff)
  qed
qed

lemma send_rejects_untyped_tokens_witness:
  "is_obj (JObj [(''from'', JStr ''app''), (''title'', JStr ''Hi''), (''text'', JStr ''body''), (''tokens'', JArr [JStr ''tokA'', JStr ''tokB''])]) \<and> \<not> truthy (js_get (JObj [(''from'', JStr ''app''), (''title'', JStr ''Hi''), (''text'', JStr ''body''), (''tokens'', JArr [JStr ''tokA'', JStr ''tokB''])]) ''query'') \<and> \<not> truthy (js_get (JObj [(''from'', JStr ''app''), (''title'', JStr ''Hi''), (''text'', JStr ''body''), (''tokens'', JArr [JStr ''tokA'', JStr ''tokB''])]) ''token'') \<and>
   js_get (JObj [(''from'', JStr ''app''), (''title'', JStr ''Hi''), (''text'', JStr ''body''), (''tokens'', JArr [JStr ''tokA'', JStr ''tokB''])]) ''tokens'' = JArr [JStr ''tokA'', JStr ''tokB''] \<and>
   \<not> list_all (mtest match_token) [JStr ''tokA'', JStr ''tokB''] \<and>
   send (JObj [(''from'', JStr ''app''), (''title'', JStr ''Hi''), (''text'', JStr ''body''), (''tokens'', JArr [JStr ''tokA'', JStr ''tokB''])]) 5 ''n1'' \<lparr>notifications = [], app_tokens = [], id_seq = 0\<rparr> = (Inl (MatchError ''Match failed''), \<lparr>notifications = [], app_tokens = [], id_seq = 0\<rparr>)"
  using send_rejects_untyped_tokens [of "JObj [(''from'', JStr ''app''), (''title'', JStr ''Hi''), (''text'', JStr ''body''), (''tokens'', JArr [JStr ''tokA'', JStr ''tokB''])]" "[JStr ''tokA'', JStr ''tokB'']" 5 "''n1''" "\<lparr>notifications = [], app_tokens = [], id_seq = 0\<rparr>"]
  by (simp add: match_token_def)

text \<open>
  C21. A \<open>badge\<close> outside the 32-bit signed range fails \<open>Match.Integer\<close>: the submission is rejected with a Match error and nothing is inserted.
\<close>

theorem send_badge_int32:
  "is_obj options \<Longrightarrow> js_get options ''badge'' = JNum b \<Longrightarrow> b < - (2 ^ 31) \<or> 2 ^ 31 \<le> b \<Longrightarrow>
   send options now i w = (Inl (MatchError ''Match failed''), w)"
proof (rule send_pattern_fails)
  fix cu
  assume bd: "js_get options ''badge'' = JNum b" and out: "b < - (2 ^ 31) \<or> 2 ^ 31 \<le> b"
  show "\<not> mtest notification_pattern (build_notification options cu now)"
  proof
    assume "mtest notification_pattern (build_notification options cu now)"
    then have "mtest (POptional PInteger) (js_get (build_notification options cu now) ''badge'')"
      by (rule pattern_field) simp
    with bd out show False by (simp add: build_fields match_integer_iff)
  qed
qed

lemma send_badge_int32_witness:
  "is_obj (JObj [(''from'', JStr ''app''), (''title'', JStr ''Hi''), (''text'', JStr ''body''), (''badge'', JNum (2 ^ 31)), (''tokens'', JArr [JObj [(''apn'', JStr ''tokA'')]])]) \<and> js_get (JObj [(''from'', JStr ''app''), (''title'', JStr ''Hi''), (''text'', JStr ''body''), (''badge'', JNum (2 ^ 31)), (''tokens'', JArr [JObj [(''apn'', JStr ''tokA'')]])]) ''badge'' = JNum (2 ^ 31) \<and> (2 ^ 31 < - (2 ^ 31) \<or> (2::int) ^ 31 \<le> 2 ^ 31) \<and>
   send (JObj [(''from'', JStr ''app''), (''title'', JStr ''Hi''), (''text'', JStr ''body''), (''badge'', JNum (2 ^ 31)), (''tokens'', JArr [JObj [(''apn'', JStr ''tokA'')]])]) 5 ''n1'' \<lparr>notifications = [], app_tokens = [], id_seq = 0\<rparr> = (Inl (MatchError ''Match failed''), \<lparr>notifications = [], app_tokens = [], id_seq = 0\<rparr>)"
  using send_badge_int32 [of "JObj [(''from'', JStr ''app''), (''title'', JStr ''Hi''), (''text'', JStr ''body''), (''badge'', JNum (2 ^ 31)), (''tokens'', JArr [JObj [(''apn'', JStr ''tokA'')]])]" "2 ^ 31" 5 "''n1''" "\<lparr>notifications = [], app_tokens = [], id_seq = 0\<rparr>"] by simp

end
