(* ===== verification/Worker.thy ===== *)
theory Worker
  imports Router Queue Submit
begin

text \<open>
  The dispatch worker of \<open>configure\<close> (push.js lines 259--420): \<open>sendNotification\<close>
  (lines 317--371) reserves one queue record, restores its stored \<open>query\<close> with
  \<open>JSON.parse\<close>, routes it with \<open>serverSend\<close> and removes the record or marks it sent;
  the interval task \<open>sendWorker\<close> (lines 19--30) runs the tick of lines 373--416, which
  takes the next batch of due records and sends them one by one, an error of one record
  caught and logged, behind the in-process flag \<open>isSendingNotification\<close>.

  A tick is cut where its fiber may yield (every store access and HTTP call is a blocking
  call that lets the next timer callback run): \<open>tick_start\<close> tests and sets the flag
  and reads the batch, \<open>tick_item\<close> sends one record of the batch or, when the batch is
  done, clears the flag (the \<open>finally\<close> of line 412). The clock readings of the code
  (\<open>+new Date()\<close>) are arguments of the steps. The process state is \<open>proc\<close>: the
  module flag \<open>isConfigured\<close>, the options and interval the worker was started with,
  and the tick's flag and remaining batch. Logging is not modelled.
\<close>

section \<open>sendNotification\<close>

text \<open>
  Lines 336--344: a truthy string \<open>query\<close> is replaced by its parse; a text that does not
  parse throws (the message of the SyntaxError is not modelled).
\<close>

definition parse_query :: "jsval \<Rightarrow> jsval js_result" where
  "parse_query notification =
     (case js_get notification ''query'' of
        JStr s \<Rightarrow>
          if s = [] then Inr notification
          else (case json_parse s of
                  None \<Rightarrow> Inl (Error ''Error while parsing query string'')
                | Some q \<Rightarrow> Inr (js_put notification ''query'' q))
      | _ \<Rightarrow> Inr notification)"

text \<open>
  Lines 317--371 for one record found by the tick. \<open>now\<close> is the reading of line 319,
  \<open>sentAt\<close> that of line 359. The record is reserved with the conditional update; when
  no record was updated (another instance holds it, or it is already sent) nothing else
  happens. The notification object goes to the heap, so that relay retries share it.
\<close>

definition send_notification ::
  "push_options \<Rightarrow> timestamp \<Rightarrow> timestamp \<Rightarrow> jsval \<Rightarrow> world \<Rightarrow> unit js_result \<times> world" where
  "send_notification options now sentAt notification w =
     (let i = js_get notification ''_id'' in
      case reserve i now (opt_sendTimeout options) (notifications w) of
        Inl e \<Rightarrow> (Inl e, w)
      | Inr (reserved, docs) \<Rightarrow>
          (let w1 = w\<lparr>notifications := docs\<rparr> in
           if reserved = 0 then (Inr (), w1)
           else
             (case parse_query notification of
                Inl e \<Rightarrow> (Inl e, w1)
              | Inr n \<Rightarrow>
                  (let addr = next_addr w1;
                       w2 = w1\<lparr>heap := (heap w1)(addr := n), next_addr := Suc addr\<rparr>
                   in case server_send addr options w2 of
                        (Inl e, w3) \<Rightarrow> (Inl e, w3)
                      | (Inr result, w3) \<Rightarrow>
                          (case finish_notification (truthy (opt_keepNotifications options)) i sentAt result
                                  (notifications w3) of
                             Inl e \<Rightarrow> (Inl e, w3)
                           | Inr docs' \<Rightarrow> (Inr (), w3\<lparr>notifications := docs'\<rparr>))))))"

section \<open>The process\<close>

record proc =
  pr_configured :: bool            \<comment> \<open>\<open>isConfigured\<close>, line 17\<close>
  pr_options :: push_options       \<comment> \<open>the options of \<open>configure\<close>\<close>
  pr_apn_init :: bool              \<comment> \<open>\<open>initAPN\<close> was called, line 286\<close>
  pr_interval :: "jsval option"    \<comment> \<open>the interval of the started worker, if any\<close>
  pr_sending :: bool               \<comment> \<open>\<open>isSendingNotification\<close>, line 308\<close>
  pr_batch :: "jsval list"         \<comment> \<open>the records of the running tick not yet sent\<close>

text \<open>
  Lines 276--316 and 416--419: the second call throws; the first records the options,
  initialises APN when \<open>options.apn\<close> is set, and starts the worker unless
  \<open>sendInterval\<close> is \<open>null\<close>, every \<open>sendInterval || 15000\<close> milliseconds.
\<close>

definition configure :: "push_options \<Rightarrow> proc \<Rightarrow> proc js_result" where
  "configure options p =
     (if pr_configured p then Inl (Error ''Configure should not be called more than once!'')
      else Inr (p\<lparr>pr_configured := True, pr_options := options,
                  pr_apn_init := truthy (opt_apn options),
                  pr_interval := (if opt_sendInterval options = JNull then None
                                  else Some (if truthy (opt_sendInterval options) then opt_sendInterval options
                                             else JNum 15000)),
                  pr_sending := False, pr_batch := []\<rparr>))"

text \<open>
  Lines 260--262: \<open>_.extend({sendTimeout: 60000}, options)\<close>, the send timeout the
  worker uses.
\<close>

definition config_send_timeout :: "jsval \<Rightarrow> jsval" where
  "config_send_timeout options =
     js_get (JsValue.extend (JObj [(''sendTimeout'', JNum 60000)]) options) ''sendTimeout''"

text \<open>
  Lines 374--403: the timer fires. A running tick makes it return at once; otherwise the
  flag is set and the batch read (a store error ends the tick at once, the \<open>finally\<close>
  clearing the flag).
\<close>

definition tick_start :: "timestamp \<Rightarrow> proc \<Rightarrow> world \<Rightarrow> proc \<times> world" where
  "tick_start now p w =
     (if pr_sending p then (p, w)
      else (case pending_batch now (opt_sendBatchSize (pr_options p)) (notifications w) of
              Inl e \<Rightarrow> (p\<lparr>pr_sending := False\<rparr>, w)
            | Inr batch \<Rightarrow> (p\<lparr>pr_sending := True, pr_batch := batch\<rparr>, w)))"

text \<open>
  Lines 405--415: the next record of the batch is sent, its error caught (line 408); after
  the last one the flag is cleared.
\<close>

definition tick_item :: "timestamp \<Rightarrow> timestamp \<Rightarrow> proc \<Rightarrow> world \<Rightarrow> proc \<times> world" where
  "tick_item now sentAt p w =
     (case pr_batch p of
        [] \<Rightarrow> (p\<lparr>pr_sending := False\<rparr>, w)
      | n # rest \<Rightarrow> (p\<lparr>pr_batch := rest\<rparr>, snd (send_notification (pr_options p) now sentAt n w)))"

section \<open>Runs of a process\<close>

text \<open>
  What can happen next to one server process and the shared store: its interval timer
  fires (once configured with a worker), its running tick takes its next step, a relay
  request of the process is answered or a retry timer fires, a client submits a
  notification (the store draws the new record's id fresh), or \<open>configure\<close> is called.
  Each step is atomic: between them the fiber may yield.
\<close>

inductive proc_step :: "proc \<times> world \<Rightarrow> proc \<times> world \<Rightarrow> bool" where
  fire: "pr_configured p \<Longrightarrow> pr_interval p \<noteq> None \<Longrightarrow> proc_step (p, w) (tick_start now p w)"
| item: "pr_sending p \<Longrightarrow> proc_step (p, w) (tick_item now sentAt p w)"
| relay: "relay_step (pr_options p) w w' \<Longrightarrow> proc_step (p, w) (p, w')"
| submit: "JStr i \<notin> set (map (\<lambda>d. js_get d ''_id'') (notifications w)) \<Longrightarrow>
            proc_step (p, w) (p, snd (send options now i w))"
| config: "configure options p = Inr p' \<Longrightarrow> proc_step (p, w) (p', w)"

text \<open>A process before \<open>configure\<close>: the module's initial state.\<close>

definition proc_init :: "push_options \<Rightarrow> proc" where
  "proc_init options = \<lparr>pr_configured = False, pr_options = options, pr_apn_init = False,
                         pr_interval = None, pr_sending = False, pr_batch = []\<rparr>"

text \<open>
  The process invariant: a tick runs only in a configured process that started the worker,
  and a batch is pending only inside a running tick.
\<close>

definition proc_inv :: "proc \<Rightarrow> bool" where
  "proc_inv p \<longleftrightarrow> (pr_sending p \<longrightarrow> pr_configured p \<and> pr_interval p \<noteq> None) \<and>
                   (pr_batch p \<noteq> [] \<longrightarrow> pr_sending p)"

section \<open>Sample data\<close>

text \<open>The options, queue record, world and configured process of the examples below.\<close>

abbreviation ex_options :: "jsval \<Rightarrow> push_options" where
  "ex_options keep \<equiv> \<lparr>opt_apn = JUndef, opt_gcm = JUndef, opt_gateways = JUndef, opt_uniqueId = JUndef,
     opt_getAuthorization = None, opt_sendTimeout = 60000, opt_sendInterval = JUndef,
     opt_sendBatchSize = JUndef, opt_keepNotifications = keep\<rparr>"

abbreviation ex_record :: "jsval \<Rightarrow> jsval" where
  "ex_record q \<equiv> JObj [(''_id'', JStr ''n1''), (''from'', JStr ''app''), (''title'', JStr ''Hi''),
     (''text'', JStr ''body''), (''token'', JObj [(''apn'', JStr ''tokA'')]), (''query'', q),
     (''sent'', JBool False), (''sending'', JNum 0)]"

abbreviation ex_world :: "jsval list \<Rightarrow> world" where
  "ex_world docs \<equiv> \<lparr>notifications = docs, app_tokens = [], id_seq = 0, heap = (\<lambda>_. JUndef),
     next_addr = 0, sent = [], inflight = [], timers = []\<rparr>"

abbreviation ex_configured :: proc where
  "ex_configured \<equiv> \<lparr>pr_configured = True, pr_options = ex_options (JBool False), pr_apn_init = False,
     pr_interval = Some (JNum 15000), pr_sending = False, pr_batch = []\<rparr>"

inductive_cases proc_stepE: "proc_step s s'"

section \<open>Lemmas\<close>

text \<open>The router never touches the queue: \<open>serverSend\<close> leaves \<open>notifications\<close> as it is.\<close>

lemma query_send_loop_notifications [simp]:
  "notifications (snd (query_send_loop options n apps ca cg w)) = notifications w"
  by (induction apps arbitrary: ca cg w) (simp_all split: sum.splits)

lemma query_send_notifications [simp]:
  "notifications (snd (query_send q n options w)) = notifications w"
proof (cases "coll_find q (app_tokens w)")
  case (Inr apps)
  obtain r w' where e: "query_send_loop options n apps [] [] w = (r, w')" by fastforce
  have "notifications w' = notifications w"
    using query_send_loop_notifications [of options n apps "[]" "[]" w] e by simp
  then show ?thesis using Inr e by (cases r) (auto simp: query_send_def)
qed (simp add: query_send_def)

lemma server_send_native_notifications [simp]:
  "notifications (snd (server_send_native n options w)) = notifications w"
  by (simp add: server_send_native_def Let_def)

lemma gateway_apps_loop_notifications [simp]:
  "notifications (snd (gateway_apps_loop options g a apps w)) = notifications w"
  by (induction apps arbitrary: w) (simp_all split: sum.splits)

lemma case_unit_any: "(case u of () \<Rightarrow> f) = f"
  by (simp split: unit.split)

lemma gateway_loop_notifications [simp]:
  "notifications (snd (gateway_loop options a gws w)) = notifications w"
proof (induction gws arbitrary: w)
  case (Cons g gws)
  show ?case
  proof (cases "coll_find (gateway_selector (js_get (heap w a) ''query'')) (app_tokens w)")
    case (Inr apps)
    obtain r w' where e: "gateway_apps_loop options g a apps w = (r, w')" by fastforce
    have "notifications w' = notifications w"
      using gateway_apps_loop_notifications [of options g a apps w] e by simp
    then show ?thesis using Inr e Cons.IH [of w'] by (cases r) (simp_all add: Let_def case_unit_any)
  qed (simp add: Let_def)
qed simp

lemma server_send_gateway_notifications [simp]:
  "notifications (snd (server_send_gateway a options w)) = notifications w"
proof -
  define w1 where "w1 = (if heap w a = JUndef then w\<lparr>heap := (heap w)(a := JObj [(''badge'', JNum 0)])\<rparr> else w)"
  have w1: "notifications w1 = notifications w" by (simp add: w1_def)
  show ?thesis
  proof (cases "case opt_gateways options of JArr gs \<Rightarrow> Some gs | JStr cs \<Rightarrow> Some (map (\<lambda>c. JStr [c]) cs) | _ \<Rightarrow> None")
    case None
    then show ?thesis using w1 by (simp add: server_send_gateway_def Let_def flip: w1_def)
  next
    case (Some gs)
    obtain r w' where e: "gateway_loop options a gs w1 = (r, w')" by fastforce
    have "notifications w' = notifications w"
      using gateway_loop_notifications [of options a gs w1] e w1 by simp
    then show ?thesis using Some e by (cases r) (simp_all add: server_send_gateway_def Let_def case_unit_any flip: w1_def)
  qed
qed

lemma server_send_notifications [simp]:
  "notifications (snd (server_send a options w)) = notifications w"
  by (simp add: server_send_def)

text \<open>A successful \<open>sendNotification\<close> of a reservable record: reserved, routed, completed.\<close>

lemma send_notification_Inr:
  assumes wf: "queue_wf (notifications w)" and d: "d \<in> set (notifications w)"
    and i: "js_get d ''_id'' = JStr s" and sent: "js_get d ''sent'' = JBool False"
    and due: "js_less (js_get d ''sending'') (JNum now)"
    and ok: "send_notification options now sentAt d w = (Inr (), w')"
  obtains pre post r where "notifications w = pre @ d # post"
    and "finish_notification (truthy (opt_keepNotifications options)) (JStr s) sentAt r
           (pre @ js_put d ''sending'' (JNum (now + opt_sendTimeout options)) # post) = Inr (notifications w')"
proof -
  obtain pre post where docs: "notifications w = pre @ d # post"
    and r1: "reserve (JStr s) now (opt_sendTimeout options) (notifications w) =
               Inr (1, pre @ js_put d ''sending'' (JNum (now + opt_sendTimeout options)) # post)"
    using reserve_hit [OF wf d i sent due] by blast
  define docs1 where "docs1 = pre @ js_put d ''sending'' (JNum (now + opt_sendTimeout options)) # post"
  define w1 where "w1 = w\<lparr>notifications := docs1\<rparr>"
  obtain n where n: "parse_query d = Inr n"
    using ok r1 by (cases "parse_query d") (simp_all add: send_notification_def i Let_def flip: docs1_def)
  define w2 where "w2 = w1\<lparr>heap := (heap w1)(next_addr w1 := n), next_addr := Suc (next_addr w1)\<rparr>"
  obtain res w3 where ss: "server_send (next_addr w1) options w2 = (res, w3)" by fastforce
  have "notifications w3 = notifications w2"
    using server_send_notifications [of "next_addr w1" options w2] unfolding ss by simp
  then have n3: "notifications w3 = docs1" by (simp add: w2_def w1_def)
  have eq: "send_notification options now sentAt d w =
      (case server_send (next_addr w1) options w2 of
         (Inl e, w3) \<Rightarrow> (Inl e, w3)
       | (Inr result, w3) \<Rightarrow>
           (case finish_notification (truthy (opt_keepNotifications options)) (JStr s) sentAt result
                   (notifications w3) of
              Inl e \<Rightarrow> (Inl e, w3)
            | Inr docs' \<Rightarrow> (Inr (), w3\<lparr>notifications := docs'\<rparr>)))"
    using r1 n by (simp add: send_notification_def i Let_def w1_def w2_def docs1_def)
  have ok3: "(case (res, w3) of
         (Inl e, w3) \<Rightarrow> (Inl e, w3)
       | (Inr result, w3) \<Rightarrow>
           (case finish_notification (truthy (opt_keepNotifications options)) (JStr s) sentAt result
                   (notifications w3) of
              Inl e \<Rightarrow> (Inl e, w3)
            | Inr docs' \<Rightarrow> (Inr (), w3\<lparr>notifications := docs'\<rparr>))) = (Inr (), w')"
    using ok unfolding eq ss .
  obtain r where res: "res = Inr r"
    using ok3 by (cases res) simp_all
  have "finish_notification (truthy (opt_keepNotifications options)) (JStr s) sentAt r docs1 = Inr (notifications w')"
    using ok3 res n3
    by (cases "finish_notification (truthy (opt_keepNotifications options)) (JStr s) sentAt r docs1") auto
  with docs show ?thesis using that by (simp add: docs1_def)
qed

text \<open>Every step of a process keeps the process invariant.\<close>

lemma configure_Inr:
  "configure options p = Inr p' \<Longrightarrow>
     \<not> pr_configured p \<and> pr_configured p' \<and> \<not> pr_sending p' \<and> pr_batch p' = []"
  by (auto simp: configure_def split: if_splits)

lemma tick_start_inv:
  "pr_configured p \<Longrightarrow> pr_interval p \<noteq> None \<Longrightarrow> proc_inv p \<Longrightarrow> proc_inv (fst (tick_start now p w))"
  by (auto simp: proc_inv_def tick_start_def split: sum.splits)

lemma tick_item_inv:
  "proc_inv p \<Longrightarrow> proc_inv (fst (tick_item now sentAt p w))"
  by (simp add: proc_inv_def tick_item_def split: list.splits)

lemma proc_step_inv: "proc_step s s' \<Longrightarrow> proc_inv (fst s) \<Longrightarrow> proc_inv (fst s')"
proof (induction rule: proc_step.induct)
  case (fire p now w)
  then show ?case by (simp add: tick_start_inv)
next
  case (item p now sentAt w)
  then show ?case by (simp add: tick_item_inv)
next
  case (config options p p' w)
  then show ?case using configure_Inr [OF config(1)] by (simp add: proc_inv_def)
qed simp_all

lemma tick_start_world [simp]: "snd (tick_start now p w) = w"
  by (simp add: tick_start_def split: sum.splits)

text \<open>The items of a tick, one step each.\<close>

lemma tick_items_fold:
  "((\<lambda>(p, w). tick_item now sentAt p w) ^^ length b) (p\<lparr>pr_batch := b\<rparr>, w) =
     (p\<lparr>pr_batch := []\<rparr>, fold (\<lambda>n w. snd (send_notification (pr_options p) now sentAt n w)) b w)"
proof (induction b arbitrary: w)
  case (Cons n b)
  have "tick_item now sentAt (p\<lparr>pr_batch := n # b\<rparr>) w =
          (p\<lparr>pr_batch := b\<rparr>, snd (send_notification (pr_options p) now sentAt n w))"
    by (simp add: tick_item_def)
  then show ?case using Cons.IH by (simp add: funpow_Suc_right del: funpow.simps)
qed simp

text \<open>Evaluations of the sample data.\<close>

lemma wf_ex: "queue_wf [ex_record JUndef]" by (simp add: queue_wf_def)

lemma sn_ex: "fst (send_notification (ex_options (JBool False)) 1000 1001 (ex_record JUndef) (ex_world [ex_record JUndef])) = Inr ()"
  by (simp add: send_notification_def reserve_def reserve_selector_def coll_update_def parse_query_def
     server_send_def server_send_native_def query_send_def token_mode_selector_def coll_find_def
     finish_notification_def coll_remove_def split_path_plain eq_match_lit Let_def sel_ok_clauses)

lemma sn_keep_ex: "fst (send_notification (ex_options (JBool True)) 1000 1001 (ex_record JUndef) (ex_world [ex_record JUndef])) = Inr ()"
  by (simp add: send_notification_def reserve_def reserve_selector_def coll_update_def parse_query_def
     server_send_def server_send_native_def query_send_def token_mode_selector_def coll_find_def
     finish_notification_def split_path_plain eq_match_lit Let_def sel_ok_clauses)

lemma parse_bad_ex: "parse_query (ex_record (JStr ''{'')) = Inl (Error ''Error while parsing query string'')"
  by (simp add: parse_query_def json_parse_def json_ws_def value_start_def)

lemma ex_configure: "configure (ex_options (JBool False)) (proc_init (ex_options (JBool False))) = Inr ex_configured"
  by (simp add: configure_def proc_init_def)

lemma ex_run:
  "proc_step\<^sup>*\<^sup>* (proc_init (ex_options (JBool False)), ex_world []) (ex_configured\<lparr>pr_sending := True\<rparr>, ex_world [])"
proof -
  have s1: "proc_step (proc_init (ex_options (JBool False)), ex_world []) (ex_configured, ex_world [])"
    by (rule proc_step.config [OF ex_configure])
  have "proc_step (ex_configured, ex_world []) (tick_start 1000 ex_configured (ex_world []))"
    by (rule proc_step.fire) simp_all
  moreover have "tick_start 1000 ex_configured (ex_world []) = (ex_configured\<lparr>pr_sending := True\<rparr>, ex_world [])"
    by (simp add: tick_start_def pending_batch_def coll_find_sorted_def coll_find_def pending_selector_def
                  split_path_plain)
  ultimately have s2: "proc_step (ex_configured, ex_world []) (ex_configured\<lparr>pr_sending := True\<rparr>, ex_world [])"
    by simp
  show ?thesis using s1 s2 by auto
qed

section \<open>Properties of the dispatch worker\<close>

text \<open>
  C22. Completion, default mode: when \<open>sendNotification\<close> runs on a reservable record of a well-formed queue and returns normally without \<open>keepNotifications\<close>, exactly that record is gone from the queue and every other record is as it was.
\<close>

theorem send_notification_removes:
  assumes wf: "queue_wf (notifications w)" and d: "d \<in> set (notifications w)"
    and i: "js_get d ''_id'' = JStr s" and sent: "js_get d ''sent'' = JBool False"
    and due: "js_less (js_get d ''sending'') (JNum now)"
    and nokeep: "\<not> truthy (opt_keepNotifications options)"
    and ok: "fst (send_notification options now sentAt d w) = Inr ()"
  shows "notifications (snd (send_notification options now sentAt d w)) =
           filter (\<lambda>x. js_get x ''_id'' \<noteq> JStr s) (notifications w)"
proof -
  have "send_notification options now sentAt d w = (Inr (), snd (send_notification options now sentAt d w))"
    using ok by (metis prod.collapse)
  from send_notification_Inr [OF wf d i sent due this]
  obtain pre post r where docs: "notifications w = pre @ d # post"
    and fin: "finish_notification False (JStr s) sentAt r
           (pre @ js_put d ''sending'' (JNum (now + opt_sendTimeout options)) # post) =
           Inr (notifications (snd (send_notification options now sentAt d w)))"
    using nokeep by auto
  have wf1: "queue_wf (pre @ d # post)" using wf docs by simp
  show ?thesis
    using fin finish_remove [OF reserved_wf [OF wf1 i]] queue_wf_others [OF wf1 i] docs i by simp
qed

lemma send_notification_removes_witness:
  "queue_wf (notifications (ex_world [ex_record JUndef])) \<and> ex_record JUndef \<in> set (notifications (ex_world [ex_record JUndef])) \<and>
   js_get (ex_record JUndef) ''_id'' = JStr ''n1'' \<and> js_get (ex_record JUndef) ''sent'' = JBool False \<and>
   js_less (js_get (ex_record JUndef) ''sending'') (JNum 1000) \<and> \<not> truthy (opt_keepNotifications (ex_options (JBool False))) \<and>
   fst (send_notification (ex_options (JBool False)) 1000 1001 (ex_record JUndef) (ex_world [ex_record JUndef])) = Inr () \<and>
   notifications (snd (send_notification (ex_options (JBool False)) 1000 1001 (ex_record JUndef) (ex_world [ex_record JUndef]))) = []"
  using send_notification_removes [of "ex_world [ex_record JUndef]" "ex_record JUndef" "''n1''" 1000 "ex_options (JBool False)" 1001]
    wf_ex sn_ex by simp

text \<open>
  C23. Completion with \<open>keepNotifications\<close>: the record stays in its place, with the fence of its reservation replaced by \<open>sent = true\<close>, \<open>sentAt\<close> the send time, the delivery \<open>count\<close> and \<open>sending = 0\<close>; every other record is as it was.
\<close>

theorem send_notification_marks_sent:
  assumes wf: "queue_wf (notifications w)" and d: "d \<in> set (notifications w)"
    and i: "js_get d ''_id'' = JStr s" and sent: "js_get d ''sent'' = JBool False"
    and due: "js_less (js_get d ''sending'') (JNum now)"
    and keep: "truthy (opt_keepNotifications options)"
    and ok: "fst (send_notification options now sentAt d w) = Inr ()"
  shows "\<exists>pre post r. notifications w = pre @ d # post \<and>
           notifications (snd (send_notification options now sentAt d w)) =
             pre @ js_put (js_put (js_put (js_put (js_put d ''sending'' (JNum (now + opt_sendTimeout options)))
                     ''sent'' (JBool True)) ''sentAt'' (JDate sentAt)) ''count'' r) ''sending'' (JNum 0) # post"
proof -
  have "send_notification options now sentAt d w = (Inr (), snd (send_notification options now sentAt d w))"
    using ok by (metis prod.collapse)
  from send_notification_Inr [OF wf d i sent due this]
  obtain pre post r where docs: "notifications w = pre @ d # post"
    and fin: "finish_notification True (JStr s) sentAt r
           (pre @ js_put d ''sending'' (JNum (now + opt_sendTimeout options)) # post) =
           Inr (notifications (snd (send_notification options now sentAt d w)))"
    using keep by auto
  have wf1: "queue_wf (pre @ d # post)" using wf docs by simp
  have "notifications (snd (send_notification options now sentAt d w)) =
             pre @ js_put (js_put (js_put (js_put (js_put d ''sending'' (JNum (now + opt_sendTimeout options)))
                     ''sent'' (JBool True)) ''sentAt'' (JDate sentAt)) ''count'' r) ''sending'' (JNum 0) # post"
    using fin finish_keep [OF reserved_wf [OF wf1 i]] by simp
  with docs show ?thesis by blast
qed

lemma send_notification_marks_sent_witness:
  "queue_wf (notifications (ex_world [ex_record JUndef])) \<and> ex_record JUndef \<in> set (notifications (ex_world [ex_record JUndef])) \<and>
   js_get (ex_record JUndef) ''_id'' = JStr ''n1'' \<and> js_get (ex_record JUndef) ''sent'' = JBool False \<and>
   js_less (js_get (ex_record JUndef) ''sending'') (JNum 1000) \<and> truthy (opt_keepNotifications (ex_options (JBool True))) \<and>
   fst (send_notification (ex_options (JBool True)) 1000 1001 (ex_record JUndef) (ex_world [ex_record JUndef])) = Inr () \<and>
   (\<exists>pre post r. notifications (ex_world [ex_record JUndef]) = pre @ ex_record JUndef # post \<and>
      notifications (snd (send_notification (ex_options (JBool True)) 1000 1001 (ex_record JUndef) (ex_world [ex_record JUndef]))) =
        pre @ js_put (js_put (js_put (js_put (js_put (ex_record JUndef) ''sending'' (JNum (1000 + 60000)))
                ''sent'' (JBool True)) ''sentAt'' (JDate 1001)) ''count'' r) ''sending'' (JNum 0) # post)"
  using send_notification_marks_sent [of "ex_world [ex_record JUndef]" "ex_record JUndef" "''n1''" 1000 "ex_options (JBool True)" 1001]
    wf_ex sn_keep_ex by simp

text \<open>
  C24. A lost claim is skipped silently: when no record with the id is unsent and unreserved (another process holds it, or it was sent), \<open>sendNotification\<close> returns normally and nothing changes, nothing is delivered.
\<close>

theorem send_notification_claim_lost:
  assumes i: "js_get d ''_id'' = JStr s"
    and held: "\<forall>x \<in> set (notifications w). js_get x ''_id'' = JStr s \<longrightarrow>
                 js_get x ''sent'' \<noteq> JBool False \<or> \<not> js_less (js_get x ''sending'') (JNum now)"
  shows "send_notification options now sentAt d w = (Inr (), w)"
  using reserve_miss [OF held, of "opt_sendTimeout options"] i
  by (simp add: send_notification_def Let_def)

lemma send_notification_claim_lost_witness:
  "js_get (ex_record JUndef) ''_id'' = JStr ''n1'' \<and>
   \<not> js_less (js_get (JObj [(''_id'', JStr ''n1''), (''sent'', JBool False), (''sending'', JNum 61000)]) ''sending'') (JNum 1000) \<and>
   send_notification (ex_options (JBool False)) 1000 1001 (ex_record JUndef)
     (ex_world [JObj [(''_id'', JStr ''n1''), (''sent'', JBool False), (''sending'', JNum 61000)]]) =
   (Inr (), ex_world [JObj [(''_id'', JStr ''n1''), (''sent'', JBool False), (''sending'', JNum 61000)]])"
  using send_notification_claim_lost [of "ex_record JUndef" "''n1''" "ex_world [JObj [(''_id'', JStr ''n1''), (''sent'', JBool False), (''sending'', JNum 61000)]]" 1000 "ex_options (JBool False)" 1001]
  by simp

text \<open>
  C25. A stored query that does not parse fails the notification after the record was reserved: the record stays unsent with its fence at \<open>now + sendTimeout\<close>, nothing is delivered, and once the fence has passed the record can be reserved again, so the same failure repeats at every expiry.
\<close>

theorem send_notification_parse_failure:
  assumes wf: "queue_wf (notifications w)" and d: "d \<in> set (notifications w)"
    and i: "js_get d ''_id'' = JStr s" and sent: "js_get d ''sent'' = JBool False"
    and due: "js_less (js_get d ''sending'') (JNum now)"
    and bad: "parse_query d = Inl e"
    and later: "now + opt_sendTimeout options < t2"
  shows "\<exists>docs1 docs2. send_notification options now sentAt d w = (Inl e, w\<lparr>notifications := docs1\<rparr>) \<and>
                       reserve (JStr s) t2 (opt_sendTimeout options) docs1 = Inr (1, docs2)"
proof -
  obtain pre post where docs: "notifications w = pre @ d # post"
    and r1: "reserve (JStr s) now (opt_sendTimeout options) (notifications w) =
               Inr (1, pre @ js_put d ''sending'' (JNum (now + opt_sendTimeout options)) # post)"
    using reserve_hit [OF wf d i sent due] by blast
  let ?d' = "js_put d ''sending'' (JNum (now + opt_sendTimeout options))"
  have wf1: "queue_wf (pre @ d # post)" using wf docs by simp
  have wf2: "queue_wf (pre @ ?d' # post)" and i2: "js_get ?d' ''_id'' = JStr s"
    using reserved_wf [OF wf1 i] by simp_all
  have "js_get ?d' ''sent'' = JBool False" and "js_get ?d' ''sending'' = JNum (now + opt_sendTimeout options)"
    using reserved_record [OF wf1 i] sent by simp_all
  then obtain docs2 where "reserve (JStr s) t2 (opt_sendTimeout options) (pre @ ?d' # post) = Inr (1, docs2)"
    using reserve_hit [OF wf2 _ i2, of t2 "opt_sendTimeout options"] later by fastforce
  moreover have "send_notification options now sentAt d w = (Inl e, w\<lparr>notifications := pre @ ?d' # post\<rparr>)"
    using r1 bad i by (simp add: send_notification_def Let_def)
  ultimately show ?thesis by blast
qed

lemma send_notification_parse_failure_witness:
  "queue_wf (notifications (ex_world [ex_record (JStr ''{'')])) \<and> ex_record (JStr ''{'') \<in> set (notifications (ex_world [ex_record (JStr ''{'')])) \<and>
   js_get (ex_record (JStr ''{'')) ''_id'' = JStr ''n1'' \<and> js_get (ex_record (JStr ''{'')) ''sent'' = JBool False \<and>
   js_less (js_get (ex_record (JStr ''{'')) ''sending'') (JNum 1000) \<and>
   parse_query (ex_record (JStr ''{'')) = Inl (Error ''Error while parsing query string'') \<and>
   1000 + opt_sendTimeout (ex_options (JBool False)) < 61001 \<and>
   (\<exists>docs1 docs2. send_notification (ex_options (JBool False)) 1000 1001 (ex_record (JStr ''{'')) (ex_world [ex_record (JStr ''{'')]) =
        (Inl (Error ''Error while parsing query string''), (ex_world [ex_record (JStr ''{'')])\<lparr>notifications := docs1\<rparr>) \<and>
      reserve (JStr ''n1'') 61001 60000 docs1 = Inr (1, docs2))"
  using send_notification_parse_failure [of "ex_world [ex_record (JStr ''{'')]" "ex_record (JStr ''{'')" "''n1''" 1000
      "Error ''Error while parsing query string''" "ex_options (JBool False)" 61001 1001]
    parse_bad_ex by (simp add: queue_wf_def)

lemma proc_reachable_inv:
  "proc_step\<^sup>*\<^sup>* (proc_init options, w0) (p, w) \<Longrightarrow> proc_inv p"
proof (induction "(p, w)" arbitrary: p w rule: rtranclp_induct)
  case base
  then show ?case by (simp add: proc_inv_def proc_init_def)
next
  case (step y p w)
  then show ?case using proc_step_inv [of y "(p, w)"] by (cases y) simp
qed

text \<open>
  C26. Single flight (\<open>isSendingNotification\<close>, lines 374--379 and 412): in every state a
  process reaches, while its tick runs, no step replaces the batch of the tick: a timer
  that fires in the meantime starts no second batch query, and \<open>configure\<close> cannot reset
  the tick. The remaining batch only loses the records already sent.
\<close>

theorem proc_tick_single_flight:
  assumes reach: "proc_step\<^sup>*\<^sup>* (proc_init options, w0) (p, w)"
    and running: "pr_sending p" and step: "proc_step (p, w) (p', w')" and still: "pr_sending p'"
  shows "\<exists>done. pr_batch p = done @ pr_batch p'"
proof -
  have inv: "proc_inv p" by (rule proc_reachable_inv [OF reach])
  from step show ?thesis
  proof (cases rule: proc_step.cases)
    case (fire now)
    then show ?thesis using running by (simp add: tick_start_def)
  next
    case (item now sentAt)
    then show ?thesis using still by (cases "pr_batch p") (auto simp: tick_item_def)
  next
    case (config options')
    then show ?thesis using inv running configure_Inr [of options' p p'] by (simp add: proc_inv_def)
  qed auto
qed

lemma proc_tick_single_flight_witness:
  "proc_step\<^sup>*\<^sup>* (proc_init (ex_options (JBool False)), ex_world []) (ex_configured\<lparr>pr_sending := True\<rparr>, ex_world []) \<and>
   pr_sending (ex_configured\<lparr>pr_sending := True\<rparr>) \<and>
   proc_step (ex_configured\<lparr>pr_sending := True\<rparr>, ex_world []) (ex_configured\<lparr>pr_sending := True\<rparr>, ex_world []) \<and>
   (\<exists>done. pr_batch (ex_configured\<lparr>pr_sending := True\<rparr>) = done @ pr_batch (ex_configured\<lparr>pr_sending := True\<rparr>))"
proof -
  have "proc_step (ex_configured\<lparr>pr_sending := True\<rparr>, ex_world []) (tick_start 1000 (ex_configured\<lparr>pr_sending := True\<rparr>) (ex_world []))"
    by (rule proc_step.fire) simp_all
  then have s: "proc_step (ex_configured\<lparr>pr_sending := True\<rparr>, ex_world []) (ex_configured\<lparr>pr_sending := True\<rparr>, ex_world [])"
    by (simp add: tick_start_def)
  show ?thesis using proc_tick_single_flight [OF ex_run _ s] ex_run s by simp
qed

text \<open>
  C27. A tick with a batch of \<open>n\<close> records ends after \<open>n + 1\<close> steps with the flag cleared and the batch empty, and it has attempted every record of the batch once, in order, whatever the outcome of the earlier ones: an error of one record is caught and does not stop the others.
\<close>

theorem tick_runs_every_item:
  "((\<lambda>(p, w). tick_item now sentAt p w) ^^ Suc (length (pr_batch p))) (p, w) =
     (p\<lparr>pr_batch := [], pr_sending := False\<rparr>,
      fold (\<lambda>n w. snd (send_notification (pr_options p) now sentAt n w)) (pr_batch p) w)"
  using tick_items_fold [where b = "pr_batch p" and p = p and w = w and now = now and sentAt = sentAt] by (simp add: tick_item_def)

text \<open>
  C28. \<open>configure\<close> succeeds once: the second call throws and changes nothing; the first records its options and starts the worker exactly when \<open>sendInterval\<close> is not \<open>null\<close>.
\<close>

theorem configure_once:
  assumes "configure options p = Inr p'"
  shows "configure options' p' = Inl (Error ''Configure should not be called more than once!'') \<and>
         pr_options p' = options \<and>
         (pr_interval p' = None \<longleftrightarrow> opt_sendInterval options = JNull)"
  using assms by (auto simp: configure_def split: if_splits)

lemma configure_once_witness:
  "configure (ex_options (JBool False)) (proc_init (ex_options (JBool False))) = Inr ex_configured \<and>
   configure (ex_options (JBool True)) ex_configured = Inl (Error ''Configure should not be called more than once!'') \<and>
   pr_options ex_configured = ex_options (JBool False) \<and>
   (pr_interval ex_configured = None \<longleftrightarrow> opt_sendInterval (ex_options (JBool False)) = JNull)"
  using configure_once [OF ex_configure, of "ex_options (JBool True)"] ex_configure by simp

end
