(* ===== verification/AdminRooms.thy ===== *)
theory AdminRooms
  imports Prelude
begin

text \<open>
  The admin rooms table (\<open>src/app/ui-admin/client/components/rooms/AdminRooms.js\<close>): the
  filter component \<open>FilterByTypeAndText\<close> (lines 21--67) keeps a search text and an object
  of room-type flags, toggled by five check boxes, and reports \<open>{text, types}\<close> to the
  table after every change (the effect of lines 30--36); the table's header (lines 82--89)
  and the type labels of its rows (lines 13--19, 107). The flags object is an association
  list in insertion order, as \<open>Object.entries\<close> reads it; a missing key reads as
  \<open>undefined\<close>, that is false. The React rendering itself is not modelled.
\<close>

section \<open>Constants\<close>

text \<open>Line 11.\<close>

definition DEFAULT_TYPES :: "string list" where
  "DEFAULT_TYPES = [''d'', ''p'', ''c'']"

text \<open>Lines 13--19: the label of each room type.\<close>

definition roomTypeI18nMap :: "(string \<times> string) list" where
  "roomTypeI18nMap = [(''l'', ''Omnichannel''), (''c'', ''Channel''), (''d'', ''Direct''),
                      (''p'', ''Group''), (''discussion'', ''Discussion'')]"

section \<open>The filter component\<close>

record filter_state =
  fs_text :: string                   \<comment> \<open>\<open>text\<close>, line 22\<close>
  fs_types :: "(string \<times> bool) list"  \<comment> \<open>\<open>types\<close>, line 23\<close>

text \<open>Lines 22--23: the initial state.\<close>

definition filter_init :: filter_state where
  "filter_init = \<lparr>fs_text = [],
     fs_types = [(''d'', False), (''c'', False), (''p'', False), (''l'', False), (''discussion'', False)]\<rparr>"

text \<open>\<open>types[type]\<close>: a missing key is \<open>undefined\<close>, which is falsy.\<close>

definition types_get :: "(string \<times> bool) list \<Rightarrow> string \<Rightarrow> bool" where
  "types_get ts k = (case map_of ts k of None \<Rightarrow> False | Some b \<Rightarrow> b)"

text \<open>Line 27: \<open>handleChange\<close> stores the input's value.\<close>

definition handleChange :: "string \<Rightarrow> filter_state \<Rightarrow> filter_state" where
  "handleChange v s = s\<lparr>fs_text := v\<rparr>"

text \<open>Line 28: \<open>setTypes({...types, [type]: !types[type]})\<close>.\<close>

definition handleCheckBox :: "string \<Rightarrow> filter_state \<Rightarrow> filter_state" where
  "handleCheckBox type s = s\<lparr>fs_types := assoc_set (fs_types s) type (\<not> types_get (fs_types s) type)\<rparr>"

text \<open>
  Lines 30--36: the filter reported to the table: the default types when no flag is set,
  otherwise the keys of the set flags in insertion order.
\<close>

definition filter_of :: "filter_state \<Rightarrow> string \<times> string list" where
  "filter_of s =
     (if length (filter snd (fs_types s)) = 0 then (fs_text s, DEFAULT_TYPES)
      else (fs_text s, map fst (filter snd (fs_types s))))"

text \<open>
  Lines 44--61: the five check boxes, each with the key it shows (\<open>checked={types.k}\<close>)
  and toggles (\<open>handleCheckBox('k')\<close>), and its label.
\<close>

datatype check_box = CbDirect | CbPublic | CbPrivate | CbOmnichannel | CbDiscussions

fun cb_key :: "check_box \<Rightarrow> string" where
  "cb_key CbDirect = ''d''"
| "cb_key CbPublic = ''c''"
| "cb_key CbPrivate = ''p''"
| "cb_key CbOmnichannel = ''l''"
| "cb_key CbDiscussions = ''discussions''"

fun cb_label :: "check_box \<Rightarrow> string" where
  "cb_label CbDirect = ''Direct''"
| "cb_label CbPublic = ''Public''"
| "cb_label CbPrivate = ''Private''"
| "cb_label CbOmnichannel = ''Omnichannel''"
| "cb_label CbDiscussions = ''Discussions''"

definition cb_checked :: "filter_state \<Rightarrow> check_box \<Rightarrow> bool" where
  "cb_checked s b = types_get (fs_types s) (cb_key b)"

text \<open>What the user can do: type in the search field, or click a check box.\<close>

datatype filter_event = TextInput string | Click check_box

fun filter_step :: "filter_event \<Rightarrow> filter_state \<Rightarrow> filter_state" where
  "filter_step (TextInput v) s = handleChange v s"
| "filter_step (Click b) s = handleCheckBox (cb_key b) s"

fun filter_run :: "filter_event list \<Rightarrow> filter_state \<Rightarrow> filter_state" where
  "filter_run [] s = s"
| "filter_run (e # es) s = filter_run es (filter_step e s)"

section \<open>The table\<close>

text \<open>Lines 82--89: the sort keys of the header columns; the last three only on wide screens.\<close>

definition header_sorts :: "bool \<Rightarrow> string list" where
  "header_sorts mediaQuery =
     [''name'', ''t'', ''usersCount''] @ (if mediaQuery then [''msgs'', ''default'', ''featured''] else [])"

text \<open>Line 107: the type label of a row, \<open>undefined\<close> (\<open>None\<close>) for a type the map lacks.\<close>

definition type_label :: "string \<Rightarrow> string option" where
  "type_label type = map_of roomTypeI18nMap type"

section \<open>Lemmas\<close>

lemma assoc_set_twice [simp]: "assoc_set (assoc_set kvs k v) k v' = assoc_set kvs k v'"
  by (induction kvs) auto

lemma assoc_set_own: "map_of kvs k = Some v \<Longrightarrow> assoc_set kvs k v = kvs"
  by (induction kvs) (auto split: if_splits)

lemma assoc_set_new: "map_of kvs k = None \<Longrightarrow> assoc_set kvs k v = kvs @ [(k, v)]"
  by (induction kvs) (auto split: if_splits)

lemma types_get_set [simp]: "types_get (assoc_set ts k v) k' = (if k' = k then v else types_get ts k')"
  by (simp add: types_get_def)

lemma selected_keys:
  "distinct (map fst ts) \<Longrightarrow> k \<in> set (map fst (filter snd ts)) \<longleftrightarrow> types_get ts k"
  by (induction ts) (auto simp: types_get_def)

lemma handleCheckBox_twice:
  "handleCheckBox k (handleCheckBox k s) = s\<lparr>fs_types := assoc_set (fs_types s) k (types_get (fs_types s) k)\<rparr>"
  by (simp add: handleCheckBox_def)

lemma filter_step_keys:
  "distinct (map fst (fs_types s)) \<Longrightarrow> distinct (map fst (fs_types (filter_step e s)))"
  by (cases e) (simp_all add: handleChange_def handleCheckBox_def)

lemma filter_run_keys:
  "distinct (map fst (fs_types s)) \<Longrightarrow> distinct (map fst (fs_types (filter_run evs s)))"
  by (induction evs arbitrary: s) (simp_all add: filter_step_keys)

lemma filter_run_discussion:
  "\<not> types_get (fs_types s) ''discussion'' \<Longrightarrow> \<not> types_get (fs_types (filter_run evs s)) ''discussion''"
proof (induction evs arbitrary: s)
  case (Cons e evs)
  have "\<not> types_get (fs_types (filter_step e s)) ''discussion''"
  proof (cases e)
    case (Click b)
    then show ?thesis using Cons.prems by (cases b) (simp_all add: handleCheckBox_def)
  qed (use Cons.prems in \<open>simp add: handleChange_def\<close>)
  then show ?case by (simp add: Cons.IH)
qed simp

lemma init_keys: "distinct (map fst (fs_types filter_init))"
  by (simp add: filter_init_def)

section \<open>Properties of the filter\<close>

text \<open>
  C31. The \<open>discussion\<close> flag of the state can never be set: whatever the user types and
  clicks, \<open>types.discussion\<close> stays false, because the Discussions check box reads and
  toggles the key \<open>discussions\<close>.
\<close>

theorem discussion_flag_never_set:
  "\<not> types_get (fs_types (filter_run evs filter_init)) ''discussion''"
  by (rule filter_run_discussion) (simp add: filter_init_def types_get_def)

text \<open>
  C32. The reported filter implements the selection: in every state the user can reach,
  its text is the typed text, and its types are, without repetition, exactly the types
  whose flag is set, or the default types \<open>d\<close>, \<open>p\<close>, \<open>c\<close> when none is.
\<close>

theorem filter_refines_selection:
  "fst (filter_of (filter_run evs filter_init)) = fs_text (filter_run evs filter_init) \<and>
   distinct (snd (filter_of (filter_run evs filter_init))) \<and>
   set (snd (filter_of (filter_run evs filter_init))) =
     (if {k. types_get (fs_types (filter_run evs filter_init)) k} = {} then set DEFAULT_TYPES
      else {k. types_get (fs_types (filter_run evs filter_init)) k})"
proof -
  define ts where "ts = fs_types (filter_run evs filter_init)"
  have d: "distinct (map fst ts)" unfolding ts_def by (rule filter_run_keys [OF init_keys])
  have dist: "distinct (map fst (filter snd ts))" using d by (simp add: distinct_map_filter)
  have sel: "set (map fst (filter snd ts)) = {k. types_get ts k}"
    using selected_keys [OF d] by blast
  have "length (filter snd ts) = 0 \<longleftrightarrow> set (map fst (filter snd ts)) = {}" by (metis length_0_conv map_is_Nil_conv set_empty)
  with sel have none: "length (filter snd ts) = 0 \<longleftrightarrow> {k. types_get ts k} = {}" by simp
  show ?thesis
  proof (cases "{k. types_get ts k} = {}")
    case True
    then show ?thesis using none by (simp add: filter_of_def DEFAULT_TYPES_def flip: ts_def)
  next
    case False
    then have "length (filter snd ts) \<noteq> 0" using none by blast
    then show ?thesis using False dist sel by (auto simp: filter_of_def simp flip: ts_def)
  qed
qed

text \<open>
  C33. Clicking the same check box twice gives back the filter the table had before, in
  every state, also for the Discussions box whose key the initial state lacks.
\<close>

theorem check_box_twice_same_filter:
  "filter_of (handleCheckBox k (handleCheckBox k s)) = filter_of s"
  unfolding handleCheckBox_twice
proof (cases "map_of (fs_types s) k")
  case None
  then show "filter_of (s\<lparr>fs_types := assoc_set (fs_types s) k (types_get (fs_types s) k)\<rparr>) = filter_of s"
    by (simp add: filter_of_def types_get_def assoc_set_new)
next
  case (Some b)
  then show "filter_of (s\<lparr>fs_types := assoc_set (fs_types s) k (types_get (fs_types s) k)\<rparr>) = filter_of s"
    by (simp add: types_get_def assoc_set_own)
qed

end
