(* ===== verification/Spec2Isabelle.thy ===== *)
theory Spec2Isabelle
  imports Queue Router Json Submit Worker AdminRooms
begin

text \<open>
  \<^bold>\<open>Verification of the push-notification core of Rocket.Chat.\<close>

  The program is \<open>src/app/push/server/push.js\<close> (the raix:push server): clients submit
  notifications with \<open>send\<close>; they wait in the shared collection
  \<open>_raix_push_notifications\<close>; every server process runs, after \<open>configure\<close>, an interval
  task that polls that queue, reserves one record at a time by a conditional update,
  restores the stored selector with \<open>JSON.parse\<close> and hands the notification to
  \<open>serverSend\<close>, which reaches the registered apps of \<open>_raix_push_app_tokens\<close> either
  natively (APN and GCM calls) or through relay gateways over HTTP with retries. The
  queue and the token directory are the only state the processes share; the reservation
  (\<open>sending < now\<close>, moved to \<open>now + sendTimeout\<close>) is their only coordination.

  \<^bold>\<open>Theories.\<close>
  \<^item> \<open>Prelude\<close>: the named rule collections \<open>js_simps\<close> and \<open>mongo_simps\<close>, association
    lists in insertion order (JavaScript objects), shared list lemmas.
  \<^item> \<open>JsValue\<close>: the datatype \<open>jsval\<close> of JavaScript values, errors as \<open>js_error\<close> and
    results as \<open>js_error + 'a\<close>; truthiness, property reads that throw on
    \<open>undefined\<close>/\<open>null\<close>, \<open>_.pick\<close> and \<open>_.extend\<close>.
  \<^item> \<open>Mongo\<close>: meteor/mongo from its interface (not in src/, spec modelled): selectors
    with the operators push.js writes, \<open>find\<close> with sort and limit, \<open>update\<close>
    (first match, or \<open>multi\<close>), \<open>remove\<close>, \<open>insert\<close>; the record \<open>store\<close> of the two
    collections.
  \<^item> \<open>Match\<close>: meteor/check patterns (\<open>Match.Integer\<close> as a 32-bit word test) and
    \<open>_matchToken\<close> (line 12).
  \<^item> \<open>Tokens\<close>: \<open>_replaceToken\<close>, \<open>_removeToken\<close> (lines 32--41) and the 406 cleanup.
  \<^item> \<open>Relay\<close>: the world record (store plus heap of shared notification objects, emitted
    sends, in-flight requests, retry timers) and \<open>sendGatewayPush\<close> with its callback
    (lines 162--206) as the step relation \<open>relay_step\<close>.
  \<^item> \<open>Queue\<close>: the reservation \<open>reserve\<close> (lines 318--330), the poll \<open>pending_batch\<close>
    (383--403), the completion \<open>finish_notification\<close> (349--366) and the invariant
    \<open>queue_wf\<close> (objects with distinct string ids).
  \<^item> \<open>Router\<close>: \<open>serverSend\<close>, \<open>serverSendNative\<close>, \<open>_querySend\<close> and
    \<open>serverSendGateway\<close> (lines 41--257), loops as primitive recursion over the found apps.
  \<^item> \<open>Json\<close>: \<open>JSON.stringify\<close> and \<open>JSON.parse\<close> from the ECMAScript definitions
    (spec modelled): escapes, ISO dates, a tokenizer (\<open>function\<close> with a length measure)
    and a shift-reduce parser; the round trip for plain values and for values with dates.
  \<^item> \<open>Submit\<close>: \<open>send\<close> (lines 425--526): the record built field by field, the
    \<open>check\<close> of \<open>_validateDocument\<close>, the insert.
  \<^item> \<open>Worker\<close>: \<open>sendNotification\<close> (317--371), \<open>configure\<close> (259--316), the interval
    task (373--416) cut at its yield points into \<open>tick_start\<close> and \<open>tick_item\<close>, the
    process record \<open>proc\<close> (\<open>isConfigured\<close>, \<open>isSendingNotification\<close>, the batch) and
    the step relation \<open>proc_step\<close>: ticks, relay callbacks and timers, submissions and
    \<open>configure\<close> of one process interleaved over the shared world.
  \<^item> \<open>AdminRooms\<close>: the filter component of
    \<open>src/app/ui-admin/client/components/rooms/AdminRooms.js\<close> (lines 11--67): its state
    (search text, type flags in insertion order), \<open>handleChange\<close>, \<open>handleCheckBox\<close>, the
    filter its effect reports, the check boxes with the keys they read and toggle, and runs
    of user events; the table's header sort keys and row type labels (lines 82--107).
  \<^item> this theory: the properties that span submission, serialisation and dispatch.

  \<^bold>\<open>What is shown\<close> (claims C1--C33, each after a text block naming it).
  Queue: a reservation is exclusive within \<open>sendTimeout\<close> and expires after it (C1, C2).
  Tokens: the token operations and the 406 cleanup (C3--C6). Relay: the retry schedule, at
  most eight posts per target over any interleaving, termination of every run from a
  well-formed state by a measure on the reachable states, exactly eight attempts when all
  fail (C7--C10). Router: the counts and targets of each routing mode, and its errors
  (C11--C15). Submission: the inserted record, rejection without insert, the 32-bit bound
  on \<open>badge\<close> (C16--C21). Worker: completion by removal or marking (C22, C23), a lost
  claim is a silent no-op (C24), the reclaim loop of an unparsable query (C25), single
  flight of the tick over every reachable interleaving by rule induction (C26), a tick
  attempts each record once and clears its flag in \<open>n + 1\<close> steps (C27), \<open>configure\<close>
  once (C28). Across components: a submitted plain selector reaches the router unchanged
  (C29), dates come back as strings (C30). Admin rooms: the \<open>discussion\<close> flag can never
  be set (C31), the reported filter implements the selection (C32), a double click
  restores it (C33).

  \<^bold>\<open>Bounds and fuel.\<close> No fuel is used. Loops over found documents and over gateways
  are structural recursion; the JSON tokenizer terminates by the length of its input; the
  relay's retries are bounded by the try counter (at most 7 retries), shown by a
  measure. Clock readings (\<open>+new Date()\<close>) are arguments of the steps; \<open>sendTimeout\<close>
  is an \<open>int\<close> of milliseconds.

  \<^bold>\<open>Not modelled.\<close> The APN and GCM client libraries (only their calls are recorded as
  events), the logger, Meteor's scheduler beyond the interleaving of \<open>proc_step\<close>, the
  \<open>send\<close> event that the code leaves commented out, the React rendering of
  \<open>AdminRooms.js\<close> and the \<open>roomTypes\<close> helpers it calls (icons, room names, avatars).
  The \<open>sendTimeout\<close> default of \<open>configure\<close> (lines 260--262) is modelled separately as
  \<open>config_send_timeout\<close>; the options record carries the resulting number.
\<close>

section \<open>Submission and dispatch together\<close>

text \<open>
  What \<open>send\<close> stores as \<open>query\<close> is what \<open>sendNotification\<close> hands to the router: the
  submitted selector through \<open>JSON.stringify\<close> and \<open>JSON.parse\<close>.
\<close>

lemma stored_query_parse:
  assumes sent: "send options now i w = (Inr r, w')"
    and q: "truthy (js_get options ''query'')"
    and rt: "Option.bind (json_stringify (js_get options ''query'')) json_parse = Some q'"
  shows "\<exists>doc. notifications w' = notifications w @ [doc] \<and> parse_query doc = Inr (js_put doc ''query'' q')"
proof -
  obtain cu where ins: "notifications w' = notifications w @
      [JObj ((''_id'', JStr i) # assoc_del (js_fields (build_notification options cu now)) ''_id'')]"
    using send_Inr_record [OF sent] by blast
  define doc where "doc = JObj ((''_id'', JStr i) # assoc_del (js_fields (build_notification options cu now)) ''_id'')"
  obtain s where s: "json_stringify (js_get options ''query'') = Some s" and p: "json_parse s = Some q'"
    using rt by (cases "json_stringify (js_get options ''query'')") auto
  have "js_get doc ''query'' = JStr s"
    using build_query [OF q, of cu now] s unfolding doc_def inserted_get [OF build_obj] by simp
  moreover have "s \<noteq> []" using stringify_nonempty [OF s p] .
  ultimately have "parse_query doc = Inr (js_put doc ''query'' q')"
    using p by (simp add: parse_query_def)
  with ins show ?thesis by (auto simp: doc_def)
qed

lemma send_query_example:
  "fst (send (JObj [(''from'', JStr ''app''), (''title'', JStr ''Hi''), (''text'', JStr ''body''), (''query'', JObj [(''userId'', JStr ''u1'')])]) 5 ''n1''
      (ex_world [])) = Inr (JStr ''n1'')"
  by (simp add: send_def current_user_def build_notification_def base_notification_def validate_document_def check_def
      notification_pattern_def match_token_def pick_def JsValue.extend_def Let_def match_integer_iff json_quote_def)

lemma send_date_query_example:
  "fst (send (JObj [(''from'', JStr ''app''), (''title'', JStr ''Hi''), (''text'', JStr ''body''), (''query'', JObj [(''createdAt'', JObj [(''$gt'', JDate 0)])])]) 5 ''n1''
      (ex_world [])) = Inr (JStr ''n1'')"
  by (simp add: send_def current_user_def build_notification_def base_notification_def validate_document_def check_def
      notification_pattern_def match_token_def pick_def JsValue.extend_def Let_def match_integer_iff max_time_def)

section \<open>Properties across components\<close>

text \<open>
  C29. A selector submitted as \<open>query\<close> round-trips: when \<open>send\<close> accepts a submission whose
  \<open>query\<close> is a plain JSON value, the worker restores exactly that selector from the stored
  record before routing it.
\<close>

theorem submitted_query_roundtrip:
  assumes sent: "send options now i w = (Inr r, w')"
    and q: "truthy (js_get options ''query'')" and plain: "json_plain (js_get options ''query'')"
  shows "\<exists>doc. notifications w' = notifications w @ [doc] \<and>
               parse_query doc = Inr (js_put doc ''query'' (js_get options ''query''))"
  using stored_query_parse [OF sent q json_roundtrip [OF plain]] .

lemma submitted_query_roundtrip_witness:
  "send (JObj [(''from'', JStr ''app''), (''title'', JStr ''Hi''), (''text'', JStr ''body''), (''query'', JObj [(''userId'', JStr ''u1'')])]) 5 ''n1'' (ex_world []) =
     (Inr (JStr ''n1''), snd (send (JObj [(''from'', JStr ''app''), (''title'', JStr ''Hi''), (''text'', JStr ''body''), (''query'', JObj [(''userId'', JStr ''u1'')])]) 5 ''n1'' (ex_world []))) \<and>
   truthy (js_get (JObj [(''from'', JStr ''app''), (''title'', JStr ''Hi''), (''text'', JStr ''body''), (''query'', JObj [(''userId'', JStr ''u1'')])]) ''query'') \<and>
   json_plain (JObj [(''userId'', JStr ''u1'')]) \<and>
   (\<exists>doc. notifications (snd (send (JObj [(''from'', JStr ''app''), (''title'', JStr ''Hi''), (''text'', JStr ''body''), (''query'', JObj [(''userId'', JStr ''u1'')])]) 5 ''n1'' (ex_world []))) = [doc] \<and>
      parse_query doc = Inr (js_put doc ''query'' (JObj [(''userId'', JStr ''u1'')])))"
proof -
  have e: "send (JObj [(''from'', JStr ''app''), (''title'', JStr ''Hi''), (''text'', JStr ''body''), (''query'', JObj [(''userId'', JStr ''u1'')])]) 5 ''n1'' (ex_world []) =
     (Inr (JStr ''n1''), snd (send (JObj [(''from'', JStr ''app''), (''title'', JStr ''Hi''), (''text'', JStr ''body''), (''query'', JObj [(''userId'', JStr ''u1'')])]) 5 ''n1'' (ex_world [])))"
    using send_query_example by (metis prod.collapse)
  have p: "json_plain (JObj [(''userId'', JStr ''u1'')])" by simp
  show ?thesis using submitted_query_roundtrip [OF e] e p by simp
qed

text \<open>
  C30. A \<open>Date\<close> in a submitted selector does not survive: the worker routes the selector
  with every \<open>Date\<close> replaced by its ISO string, so a condition such as
  \<open>{createdAt: {$gt: date}}\<close> compares against a string.
\<close>

theorem submitted_query_dates_become_strings:
  assumes sent: "send options now i w = (Inr r, w')"
    and q: "truthy (js_get options ''query'')" and dated: "json_dated (js_get options ''query'')"
  shows "\<exists>doc. notifications w' = notifications w @ [doc] \<and>
               parse_query doc = Inr (js_put doc ''query'' (dates_as_strings (js_get options ''query'')))"
  using stored_query_parse [OF sent q json_dates_roundtrip [OF dated]] .

lemma submitted_query_dates_become_strings_witness:
  "send (JObj [(''from'', JStr ''app''), (''title'', JStr ''Hi''), (''text'', JStr ''body''), (''query'', JObj [(''createdAt'', JObj [(''$gt'', JDate 0)])])]) 5 ''n1'' (ex_world []) =
     (Inr (JStr ''n1''), snd (send (JObj [(''from'', JStr ''app''), (''title'', JStr ''Hi''), (''text'', JStr ''body''), (''query'', JObj [(''createdAt'', JObj [(''$gt'', JDate 0)])])]) 5 ''n1'' (ex_world []))) \<and>
   truthy (js_get (JObj [(''from'', JStr ''app''), (''title'', JStr ''Hi''), (''text'', JStr ''body''), (''query'', JObj [(''createdAt'', JObj [(''$gt'', JDate 0)])])]) ''query'') \<and>
   json_dated (JObj [(''createdAt'', JObj [(''$gt'', JDate 0)])]) \<and>
   (\<exists>doc. notifications (snd (send (JObj [(''from'', JStr ''app''), (''title'', JStr ''Hi''), (''text'', JStr ''body''), (''query'', JObj [(''createdAt'', JObj [(''$gt'', JDate 0)])])]) 5 ''n1'' (ex_world []))) = [doc] \<and>
      parse_query doc = Inr (js_put doc ''query'' (JObj [(''createdAt'', JObj [(''$gt'', JStr (iso_string 0))])])))"
proof -
  have e: "send (JObj [(''from'', JStr ''app''), (''title'', JStr ''Hi''), (''text'', JStr ''body''), (''query'', JObj [(''createdAt'', JObj [(''$gt'', JDate 0)])])]) 5 ''n1'' (ex_world []) =
     (Inr (JStr ''n1''), snd (send (JObj [(''from'', JStr ''app''), (''title'', JStr ''Hi''), (''text'', JStr ''body''), (''query'', JObj [(''createdAt'', JObj [(''$gt'', JDate 0)])])]) 5 ''n1'' (ex_world [])))"
    using send_date_query_example by (metis prod.collapse)
  have d: "json_dated (JObj [(''createdAt'', JObj [(''$gt'', JDate 0)])])" by (simp add: max_time_def)
  show ?thesis using submitted_query_dates_become_strings [OF e] e d by simp
qed

end
